theory Spec2Isabelle
  imports Main "HOL-Library.Char_ord" "HOL-Library.List_Lexorder" "HOL-Library.Multiset"
begin

section \<open>Remote image inspection and tag listing (package distribution)\<close>

text \<open>
  The development embeds the Go files \<^verbatim>\<open>inspect.go\<close> (Inspect, fetchManifest,
  newManifestFetcher, makeRemoteImageInspect), \<^verbatim>\<open>inspect_v1.go\<close>, \<^verbatim>\<open>inspect_v2.go\<close>,
  \<^verbatim>\<open>list.go\<close> (ListRemoteTags, getRemoteTagList, byTagName, byAPIVersion),
  \<^verbatim>\<open>list_v1.go\<close> and \<^verbatim>\<open>list_v2.go\<close>.

  Conventions of the embedding.
  \<^item> A Go result \<^verbatim>\<open>(x, err)\<close> whose two components the callers read separately is a
    pair of options; a result of a collaborator that is either a value or an error is a
    sum, \<open>Inl\<close> the error.
  \<^item> Every function returns, next to its Go result, the list of events it caused, in
    order: the calls it made to the collaborators that stand between this package and a
    registry, and the \<^verbatim>\<open>Debugf("Trying to fetch ...")\<close> line at the head of each endpoint
    iteration. The other log lines are not recorded.
  \<^item> The collaborators themselves (registry service, v1 session, v2 repository client,
    image and manifest helpers) are not part of these files. They are fields of the
    environment \<open>Env\<close>, arbitrary functions of their arguments; request headers and
    credentials, which the Go code only hands through, are part of them.
  \<^item> A Go \<^verbatim>\<open>map[string]string\<close> is an association list; the order of the list is the
    order in which \<^verbatim>\<open>range\<close> yields the entries, which Go leaves open.
\<close>

subsection \<open>Errors\<close>

text \<open>
  \<open>errorString\<close> is what \<^verbatim>\<open>errors.New\<close> and \<^verbatim>\<open>fmt.Errorf\<close> build, \<open>ErrNoSupport\<close> is
  \<^verbatim>\<open>registry.ErrNoSupport{Err}\<close>, \<open>Errors\<close> is \<^verbatim>\<open>errcode.Errors\<close>. \<open>Panic\<close> stands for a
  run-time panic (a read past the end of a slice, a nil dereference): the function
  in which it happens returns it at once.
\<close>

datatype error =
    errorString string
  | ErrNoSupport error
  | Errors "error list"
  | Panic string

fun Error :: "error \<Rightarrow> string" where
  "Error (errorString s) = s"
| "Error (ErrNoSupport e) = Error e"
| "Error (Errors es) =
     (case es of
        [] \<Rightarrow> ''<nil>''
      | [e] \<Rightarrow> Error e
      | _ \<Rightarrow> ''errors:'' @ [CHR 0x0A] @ concat (map (\<lambda>e. Error e @ [CHR 0x0A]) es))"
| "Error (Panic s) = ''panic: '' @ s"

text \<open>The type assertion \<^verbatim>\<open>_, ok := err.(registry.ErrNoSupport)\<close>.\<close>

fun isErrNoSupport :: "error \<Rightarrow> bool" where
  "isErrNoSupport (ErrNoSupport e) = True"
| "isErrNoSupport (errorString s) = False"
| "isErrNoSupport (Errors es) = False"
| "isErrNoSupport (Panic s) = False"

subsection \<open>Strings\<close>

fun HasPrefix :: "string \<Rightarrow> string \<Rightarrow> bool" where
  "HasPrefix s prefix = (take (length prefix) s = prefix)"

fun Contains :: "string \<Rightarrow> string \<Rightarrow> bool" where
  "Contains [] substr = (substr = [])"
| "Contains (c # s) substr = (HasPrefix (c # s) substr \<or> Contains s substr)"

function decimal :: "nat \<Rightarrow> string" where
  "decimal n =
     (if n < 10 then [char_of (48 + n)]
      else decimal (n div 10) @ [char_of (48 + n mod 10)])"
  by pat_completeness auto
termination
  by (relation "measure id") auto

declare decimal.simps [simp del]

text \<open>The verb \<^verbatim>\<open>%d\<close> of \<^verbatim>\<open>fmt\<close>.\<close>

definition fmt_d :: "int \<Rightarrow> string" where
  "fmt_d i = (if i < 0 then ''-'' @ decimal (nat (- i)) else decimal (nat i))"

subsection \<open>Data\<close>

type_synonym Digest = string

text \<open>
  A \<^verbatim>\<open>reference.Named\<close>. It is \<^verbatim>\<open>reference.Tagged\<close> when \<open>ref_Tag\<close> is set and
  \<^verbatim>\<open>reference.Digested\<close> when \<open>ref_Digest\<close> is set.
\<close>

record Reference =
  ref_Name :: string
  ref_Tag :: "string option"
  ref_Digest :: "Digest option"

record APIEndpoint =
  URL :: string
  Version :: int

text \<open>
  Modelled from the spec: the constants \<^verbatim>\<open>registry.APIVersion1\<close> and
  \<^verbatim>\<open>registry.APIVersion2\<close> are declared outside these files; the spec names the two
  protocol versions V1 and V2, V1 the lower.
\<close>

definition APIVersion1 :: int where
  "APIVersion1 = 1"

definition APIVersion2 :: int where
  "APIVersion2 = 2"

text \<open>
  Modelled from the spec: \<^verbatim>\<open>tagpkg.DefaultTag\<close> is declared outside these files; the
  spec's glossary gives the default tag as \<^verbatim>\<open>latest\<close>.
\<close>

definition DefaultTag :: string where
  "DefaultTag = ''latest''"

record IndexInfo =
  index_Name :: string
  Mirrors :: "string list"

record RepositoryInfo =
  Index :: IndexInfo
  RemoteName :: string
  LocalName :: string
  CanonicalName :: string

record Image =
  img_ID :: string
  img_Parent :: string
  img_Comment :: string
  img_Created :: string
  img_Container :: string
  img_ContainerConfig :: string
  img_DockerVersion :: string
  img_Author :: string
  img_Config :: string
  img_Architecture :: string
  img_OS :: string
  img_Size :: int

record ImageInspectBase =
  ID :: string
  RepoTags :: "string list"
  RepoDigests :: "string list"
  Parent :: string
  Comment :: string
  Created :: string
  Container :: string
  ContainerConfig :: string
  DockerVersion :: string
  Author :: string
  Config :: string
  Architecture :: string
  Os :: string
  Size :: int

record RemoteImageInspect =
  Base :: ImageInspectBase
  Registry :: string

record RepositoryTag =
  Tag :: string
  ImageID :: string

record RepositoryTagList =
  Name :: string
  TagList :: "RepositoryTag list"

record ImgData =
  imgdata_ID :: string
  imgdata_Tag :: string
  Checksum :: string

record RepositoryData =
  ImgList :: "string \<rightharpoonup> ImgData"
  Endpoints :: "string list"
  Tokens :: "string list"

text \<open>
  A \<^verbatim>\<open>schema1.SignedManifest\<close> and the \<^verbatim>\<open>schema1.Manifest\<close> inside it: the layer
  digests and, for each entry of the history, its \<^verbatim>\<open>V1Compatibility\<close> string.
\<close>

record Manifest =
  FSLayers :: "string list"
  History :: "string list"

type_synonym SignedManifest = Manifest

type_synonym V1Endpoint = string
type_synonym Session = string
type_synonym Repository = string
type_synonym ManifestService = string
type_synonym ImageHistory = string
type_synonym RawConfig = string

subsection \<open>Events\<close>

datatype event =
    Trying APIEndpoint
  | ResolveRepository_call Reference
  | LookupPullEndpoints_call string
  | TLSConfig_call string
  | ToV1Endpoint_call APIEndpoint
  | NewSession_call V1Endpoint
  | GetRepositoryData_call Session string
  | GetRemoteTags_call Session "string list" string
  | GetRemoteImageJSON_call Session string string
  | NewV2Repository_call RepositoryInfo APIEndpoint
  | Manifests_call Repository
  | Exists_call ManifestService Digest
  | Get_call ManifestService Digest
  | ExistsByTag_call ManifestService string
  | Tags_call ManifestService
  | GetByTag_call ManifestService string

definition ret :: "'a \<Rightarrow> 'a \<times> event list" where
  "ret x = (x, [])"

definition traced :: "event \<Rightarrow> 'a \<times> event list \<Rightarrow> 'a \<times> event list" where
  "traced c k = (fst k, c # snd k)"

definition after :: "event list \<Rightarrow> 'a \<times> event list \<Rightarrow> 'a \<times> event list" where
  "after t k = (fst k, t @ snd k)"

subsection \<open>The environment\<close>

text \<open>
  Package \<^verbatim>\<open>registry\<close>: its list of configured registries, its helpers on references,
  and the methods of \<^verbatim>\<open>registry.Service\<close>; \<open>validateRepoName\<close> belongs to this package
  but to a file that is not among the embedded ones.
\<close>

record RegistryPkg =
  RegistryList :: "string list"
  IsReferenceFullyQualified :: "Reference \<Rightarrow> bool"
  FullyQualifyReferenceWith :: "string \<Rightarrow> Reference \<Rightarrow> error + Reference"
  ValidateRepositoryName :: "Reference \<Rightarrow> error option"
  validateRepoName :: "string \<Rightarrow> error option"
  ContinueOnError :: "error \<Rightarrow> bool"
  ResolveRepository :: "Reference \<Rightarrow> error + RepositoryInfo"
  LookupPullEndpoints :: "string \<Rightarrow> error + APIEndpoint list"
  TLSConfig :: "string \<Rightarrow> error option"

text \<open>The v1 session layer.\<close>

record V1Registry =
  ToV1Endpoint :: "APIEndpoint \<Rightarrow> error + V1Endpoint"
  NewSession :: "V1Endpoint \<Rightarrow> error + Session"
  GetRepositoryData :: "Session \<Rightarrow> string \<Rightarrow> error + RepositoryData"
  GetRemoteTags :: "Session \<Rightarrow> string list \<Rightarrow> string \<Rightarrow> error + (string \<times> string) list"
  GetRemoteImageJSON :: "Session \<Rightarrow> string \<Rightarrow> string \<Rightarrow> error + string"

text \<open>
  The v2 repository client. \<open>Exists\<close>, \<open>ExistsByTag\<close>, \<open>Get\<close> and \<open>GetByTag\<close> return
  both components of their Go result, since the caller reads both.
\<close>

record V2Registry =
  NewV2Repository :: "RepositoryInfo \<Rightarrow> APIEndpoint \<Rightarrow> error + Repository"
  Manifests :: "Repository \<Rightarrow> error + ManifestService"
  Exists :: "ManifestService \<Rightarrow> Digest \<Rightarrow> bool \<times> error option"
  Get :: "ManifestService \<Rightarrow> Digest \<Rightarrow> SignedManifest option \<times> error option"
  ExistsByTag :: "ManifestService \<Rightarrow> string \<Rightarrow> bool \<times> error option"
  Tags :: "ManifestService \<Rightarrow> error + string list"
  GetByTag :: "ManifestService \<Rightarrow> string \<Rightarrow> SignedManifest option \<times> error option"

text \<open>
  Helpers on images, manifests, references and digests. \<open>fixManifestLayers\<close> changes
  the manifest in place in Go; here it returns the changed manifest.
  \<open>Unmarshal_throwAway\<close> is \<^verbatim>\<open>json.Unmarshal\<close> into the struct with the single field
  \<^verbatim>\<open>ThrowAway\<close>; \<open>Quote\<close> is the verb \<^verbatim>\<open>%q\<close>.
\<close>

record ImageLib =
  HistoryFromConfig :: "string \<Rightarrow> bool \<Rightarrow> error + ImageHistory"
  MakeRawConfigFromV1Config :: "string \<Rightarrow> ImageHistory list \<Rightarrow> error + RawConfig"
  Marshal :: "RawConfig \<Rightarrow> error + string"
  Unmarshal_throwAway :: "string \<Rightarrow> error + bool"
  NewFromJSON :: "string \<Rightarrow> error + Image"
  verifyManifest :: "SignedManifest \<Rightarrow> Reference \<Rightarrow> error + Manifest"
  fixManifestLayers :: "Manifest \<Rightarrow> error + Manifest"
  digestFromManifest :: "SignedManifest \<Rightarrow> string \<Rightarrow> error + Digest"
  WithTag :: "string \<Rightarrow> string \<Rightarrow> error + string"
  Validate :: "Digest \<Rightarrow> error option"
  Quote :: "string \<Rightarrow> string"

record Env =
  reg :: RegistryPkg
  v1 :: V1Registry
  v2 :: V2Registry
  lib :: ImageLib

subsection \<open>inspect.go: the normalised record\<close>

definition makeRemoteImageInspect ::
  "Env \<Rightarrow> RepositoryInfo \<Rightarrow> Image \<Rightarrow> string \<Rightarrow> Digest \<Rightarrow> RemoteImageInspect" where
  "makeRemoteImageInspect env repoInfo img tag dgst =
     (let repoTags =
            (if tag \<noteq> ''''
             then (case WithTag (lib env) (CanonicalName repoInfo) tag of
                     Inr tagged \<Rightarrow> [tagged]
                   | Inl err \<Rightarrow> [])
             else []);
          repoDigests =
            (case Validate (lib env) dgst of
               None \<Rightarrow> [dgst]
             | Some err \<Rightarrow> [])
      in \<lparr>Base = \<lparr>ID = img_ID img,
                   RepoTags = repoTags,
                   RepoDigests = repoDigests,
                   Parent = img_Parent img,
                   Comment = img_Comment img,
                   Created = img_Created img,
                   Container = img_Container img,
                   ContainerConfig = img_ContainerConfig img,
                   DockerVersion = img_DockerVersion img,
                   Author = img_Author img,
                   Config = img_Config img,
                   Architecture = img_Architecture img,
                   Os = img_OS img,
                   Size = img_Size img\<rparr>,
         Registry = index_Name (Index repoInfo)\<rparr>)"

subsection \<open>inspect_v1.go: the v1 fetcher\<close>

text \<open>
  \<^verbatim>\<open>pullImageJSON\<close>: one request to the endpoint, then four conversions. The root
  file system handed to \<^verbatim>\<open>MakeRawConfigFromV1Config\<close> is the fresh empty one.
\<close>

definition pullImageJSON ::
  "Env \<Rightarrow> Session \<Rightarrow> string \<Rightarrow> string \<Rightarrow> string list
     \<Rightarrow> (Image option \<times> error option) \<times> event list" where
  "pullImageJSON env session imgID endpoint token =
     traced (GetRemoteImageJSON_call session imgID endpoint)
       (ret (case GetRemoteImageJSON (v1 env) session imgID endpoint of
               Inl err \<Rightarrow> (None, Some err)
             | Inr imgJSON \<Rightarrow>
                 (case HistoryFromConfig (lib env) imgJSON False of
                    Inl err \<Rightarrow> (None, Some err)
                  | Inr h \<Rightarrow>
                      (case MakeRawConfigFromV1Config (lib env) imgJSON [h] of
                         Inl err \<Rightarrow> (None, Some err)
                       | Inr configRaw \<Rightarrow>
                           (case Marshal (lib env) configRaw of
                              Inl err \<Rightarrow> (None, Some err)
                            | Inr config \<Rightarrow>
                                (case NewFromJSON (lib env) config of
                                   Inl err \<Rightarrow> (None, Some err)
                                 | Inr img \<Rightarrow> (Some img, None)))))))"

text \<open>
  The two loops of \<^verbatim>\<open>fetchWithSession\<close> over the mirrors and over the endpoints of
  the repository have the same body: assign \<^verbatim>\<open>pulledImg, err\<close>, go on to the next
  address when \<^verbatim>\<open>err\<close> is set, leave the loop otherwise. The last argument holds
  the two variables as they are when the loop is entered.
\<close>

fun pullImageJSON_loop ::
  "Env \<Rightarrow> Session \<Rightarrow> string \<Rightarrow> string list \<Rightarrow> string list
     \<Rightarrow> Image option \<times> error option
     \<Rightarrow> (Image option \<times> error option) \<times> event list" where
  "pullImageJSON_loop env session imgID token [] vars = ret vars"
| "pullImageJSON_loop env session imgID token (ep # eps) vars =
     (case pullImageJSON env session imgID ep token of
        ((pulledImg, Some e), t) \<Rightarrow>
          after t (pullImageJSON_loop env session imgID token eps (pulledImg, Some e))
      | ((pulledImg, None), t) \<Rightarrow> ((pulledImg, None), t))"

text \<open>Lines 89 to 101 of \<^verbatim>\<open>fetchWithSession\<close>: the tag that is looked up.\<close>

definition fetchWithSession_tag :: "(string \<times> string) list \<Rightarrow> string \<Rightarrow> string" where
  "fetchWithSession_tag tagsList askedTag =
     (let askedTag1 =
            (if askedTag = '''' \<and> map_of tagsList DefaultTag \<noteq> None
             then DefaultTag else askedTag)
      in if askedTag1 = ''''
         then (case tagsList of
                 [] \<Rightarrow> askedTag1
               | (tag, imgID) # rest \<Rightarrow> tag)
         else askedTag1)"

text \<open>Lines 109 to 135 of \<^verbatim>\<open>fetchWithSession\<close>: mirrors, then endpoints.\<close>

definition fetchWithSession_pull ::
  "Env \<Rightarrow> RepositoryInfo \<Rightarrow> Session \<Rightarrow> RepositoryData \<Rightarrow> ImgData \<Rightarrow> string
     \<Rightarrow> (RemoteImageInspect option \<times> error option) \<times> event list" where
  "fetchWithSession_pull env repoInfo session repoData img askedTag =
     (case pullImageJSON_loop env session (imgdata_ID img) (Tokens repoData)
             (Mirrors (Index repoInfo)) (None, None) of
        (vars1, t1) \<Rightarrow>
          (case (if fst vars1 = None
                 then pullImageJSON_loop env session (imgdata_ID img) (Tokens repoData)
                        (Endpoints repoData) vars1
                 else ret vars1) of
             ((pulledImg, err), t2) \<Rightarrow>
               (case err of
                  Some e \<Rightarrow>
                    ((None, Some (errorString (''Error pulling image ('' @ imgdata_Tag img
                        @ '') from '' @ CanonicalName repoInfo @ '', '' @ Error e))), t1 @ t2)
                | None \<Rightarrow>
                    (case pulledImg of
                       None \<Rightarrow>
                         ((None, Some (errorString (''No such image '' @ CanonicalName repoInfo
                             @ '':'' @ askedTag))), t1 @ t2)
                     | Some i \<Rightarrow>
                         ((Some (makeRemoteImageInspect env repoInfo i askedTag ''''), None),
                          t1 @ t2)))))"

definition fetchWithSession ::
  "Env \<Rightarrow> RepositoryInfo \<Rightarrow> Session \<Rightarrow> string
     \<Rightarrow> (RemoteImageInspect option \<times> error option) \<times> event list" where
  "fetchWithSession env repoInfo session askedTag =
     traced (GetRepositoryData_call session (RemoteName repoInfo))
       (case GetRepositoryData (v1 env) session (RemoteName repoInfo) of
          Inl err \<Rightarrow>
            (if Contains (Error err) ''HTTP code: 404''
             then ret (None, Some (errorString (''Error: image '' @ RemoteName repoInfo
                        @ '' not found'')))
             else ret (None, Some err))
        | Inr repoData \<Rightarrow>
            traced (GetRemoteTags_call session (Endpoints repoData) (RemoteName repoInfo))
              (case GetRemoteTags (v1 env) session (Endpoints repoData) (RemoteName repoInfo) of
                 Inl err \<Rightarrow> ret (None, Some err)
               | Inr tagsList \<Rightarrow>
                   (if length tagsList < 1
                    then ret (None, Some (errorString (''No tags available for remote repository ''
                               @ CanonicalName repoInfo)))
                    else
                      (let repoData1 = repoData\<lparr>ImgList :=
                             fold (\<lambda>(tag, imgID) m.
                                     m(imgID \<mapsto> \<lparr>imgdata_ID = imgID, imgdata_Tag = tag, Checksum = ''''\<rparr>))
                                  tagsList (ImgList repoData)\<rparr>;
                           askedTag1 = fetchWithSession_tag tagsList askedTag
                       in (case map_of tagsList askedTag1 of
                             None \<Rightarrow>
                               ret (None, Some (errorString (''Tag '' @ askedTag1
                                      @ '' not found in repository '' @ CanonicalName repoInfo)))
                           | Some imgID \<Rightarrow>
                               (case ImgList repoData1 imgID of
                                  None \<Rightarrow> ret (None, Some (Panic ''nil pointer dereference''))
                                | Some img \<Rightarrow>
                                    fetchWithSession_pull env repoInfo session repoData1 img
                                      askedTag1))))))"

text \<open>
  \<^verbatim>\<open>v1ManifestFetcher.Fetch\<close>. The fetcher's fields \<^verbatim>\<open>endpoint\<close> and \<^verbatim>\<open>repoInfo\<close>
  are arguments; its field \<^verbatim>\<open>session\<close> is the session handed to
  \<open>fetchWithSession\<close>.
\<close>

definition v1_Fetch ::
  "Env \<Rightarrow> APIEndpoint \<Rightarrow> RepositoryInfo \<Rightarrow> Reference
     \<Rightarrow> (RemoteImageInspect option \<times> bool \<times> error option) \<times> event list" where
  "v1_Fetch env endpoint repoInfo ref =
     (if ref_Digest ref \<noteq> None
      then ret (None, True,
                Some (ErrNoSupport (errorString ''Cannot pull by digest with v1 registry'')))
      else
        (let tag = (case ref_Tag ref of Some tagged \<Rightarrow> tagged | None \<Rightarrow> '''')
         in traced (TLSConfig_call (index_Name (Index repoInfo)))
              (case TLSConfig (reg env) (index_Name (Index repoInfo)) of
                 Some err \<Rightarrow> ret (None, False, Some err)
               | None \<Rightarrow>
                   traced (ToV1Endpoint_call endpoint)
                     (case ToV1Endpoint (v1 env) endpoint of
                        Inl err \<Rightarrow> ret (None, True, Some err)
                      | Inr v1Endpoint \<Rightarrow>
                          traced (NewSession_call v1Endpoint)
                            (case NewSession (v1 env) v1Endpoint of
                               Inl err \<Rightarrow> ret (None, True, Some err)
                             | Inr session \<Rightarrow>
                                 (case fetchWithSession env repoInfo session tag of
                                    ((imgInspect, err), t) \<Rightarrow>
                                      ((imgInspect, False, err), t)))))))"

subsection \<open>inspect_v2.go: the v2 fetcher\<close>

text \<open>
  Lines 83 to 90 of \<^verbatim>\<open>fetchWithRepository\<close>: the tag chosen for a reference that
  has neither tag nor digest, from the tags the repository enumerates. The read of
  \<^verbatim>\<open>tagList[0]\<close> is guarded by the length, as in the source.
\<close>

definition fetchWithRepository_tag :: "string list \<Rightarrow> string" where
  "fetchWithRepository_tag tagList =
     (let tag = fold (\<lambda>t tag. if t = DefaultTag then DefaultTag else tag) tagList ''''
      in if tag = '''' \<and> length tagList > 0 then tagList ! 0 else tag)"

text \<open>Lines 100 to 105: the two checks on what \<^verbatim>\<open>Get\<close> or \<^verbatim>\<open>GetByTag\<close> returned.\<close>

definition fetchWithRepository_check ::
  "Env \<Rightarrow> SignedManifest option \<times> error option \<Rightarrow> string \<Rightarrow> error + SignedManifest" where
  "fetchWithRepository_check env got tagOrDigest =
     (case got of
        (unverifiedManifest, Some err) \<Rightarrow> Inl err
      | (None, None) \<Rightarrow>
          Inl (errorString (''image manifest does not exist for tag or digest ''
                 @ Quote (lib env) tagOrDigest))
      | (Some m, None) \<Rightarrow> Inr m)"

text \<open>
  Lines 57 to 105: from the reference to the unverified manifest and the value of the
  variable \<^verbatim>\<open>tag\<close>, which stays empty for a reference with a digest.
\<close>

definition fetchWithRepository_unverified ::
  "Env \<Rightarrow> RepositoryInfo \<Rightarrow> ManifestService \<Rightarrow> Reference
     \<Rightarrow> (error + SignedManifest \<times> string) \<times> event list" where
  "fetchWithRepository_unverified env repoInfo manSvc ref =
     (let getByTag = (\<lambda>tag.
            traced (GetByTag_call manSvc tag)
              (ret (case fetchWithRepository_check env (GetByTag (v2 env) manSvc tag) tag of
                      Inl err \<Rightarrow> Inl err
                    | Inr m \<Rightarrow> Inr (m, tag))))
      in case ref_Digest ref of
           Some dgst \<Rightarrow>
             traced (Exists_call manSvc dgst)
               (case Exists (v2 env) manSvc dgst of
                  (exists, err) \<Rightarrow>
                    (if err = None \<and> \<not> exists
                     then ret (Inl (errorString (''Digest '' @ Quote (lib env) dgst
                                 @ '' does not exist in remote repository ''
                                 @ CanonicalName repoInfo)))
                     else
                       (case (if exists
                              then traced (Get_call manSvc dgst) (ret (Get (v2 env) manSvc dgst))
                              else ret (None, err)) of
                          (got, t) \<Rightarrow>
                            ((case fetchWithRepository_check env got dgst of
                                Inl e \<Rightarrow> Inl e
                              | Inr m \<Rightarrow> Inr (m, '''')), t))))
         | None \<Rightarrow>
             (case ref_Tag ref of
                Some tag \<Rightarrow>
                  traced (ExistsByTag_call manSvc tag)
                    (case ExistsByTag (v2 env) manSvc tag of
                       (exists, Some err) \<Rightarrow> ret (Inl err)
                     | (exists, None) \<Rightarrow>
                         (if \<not> exists
                          then ret (Inl (errorString (''Tag '' @ Quote (lib env) tag
                                      @ '' does not exist in remote repository ''
                                      @ CanonicalName repoInfo)))
                          else getByTag tag))
              | None \<Rightarrow>
                  traced (Tags_call manSvc)
                    (case Tags (v2 env) manSvc of
                       Inl err \<Rightarrow> ret (Inl err)
                     | Inr tagList \<Rightarrow>
                         (let tag = fetchWithRepository_tag tagList
                          in if tag = ''''
                             then ret (Inl (errorString
                                    (''No tags available for remote repository ''
                                       @ CanonicalName repoInfo)))
                             else getByTag tag))))"

text \<open>
  Lines 126 to 139: the loop over the layers, from the last index down to 0; the
  second argument is the list of indices still to visit.
\<close>

fun fetchWithRepository_history ::
  "Env \<Rightarrow> Manifest \<Rightarrow> nat list \<Rightarrow> ImageHistory list \<Rightarrow> error + ImageHistory list" where
  "fetchWithRepository_history env m [] history = Inr history"
| "fetchWithRepository_history env m (i # is) history =
     (if i < length (History m)
      then (case Unmarshal_throwAway (lib env) (History m ! i) of
              Inl err \<Rightarrow> Inl err
            | Inr throwAway \<Rightarrow>
                (case HistoryFromConfig (lib env) (History m ! i) throwAway of
                   Inl err \<Rightarrow> Inl err
                 | Inr h \<Rightarrow> fetchWithRepository_history env m is (history @ [h])))
      else Inl (Panic ''index out of range''))"

text \<open>
  Lines 107 to 161. Whether the verified manifest shares its slices with the
  unverified one is decided by \<^verbatim>\<open>verifyManifest\<close>, outside these files; the two are
  kept apart here.
\<close>

definition fetchWithRepository_image ::
  "Env \<Rightarrow> RepositoryInfo \<Rightarrow> Reference \<Rightarrow> SignedManifest \<Rightarrow> string
     \<Rightarrow> RemoteImageInspect option \<times> error option" where
  "fetchWithRepository_image env repoInfo ref unverifiedManifest tag =
     (case verifyManifest (lib env) unverifiedManifest ref of
        Inl err \<Rightarrow> (None, Some err)
      | Inr verifiedManifest0 \<Rightarrow>
     (case fixManifestLayers (lib env) verifiedManifest0 of
        Inl err \<Rightarrow> (None, Some err)
      | Inr verifiedManifest \<Rightarrow>
     (case fetchWithRepository_history env verifiedManifest
             (rev [0 ..< length (FSLayers verifiedManifest)]) [] of
        Inl err \<Rightarrow> (None, Some err)
      | Inr history \<Rightarrow>
     (if length (History unverifiedManifest) = 0
      then (None, Some (Panic ''index out of range''))
      else
     (case MakeRawConfigFromV1Config (lib env) (History unverifiedManifest ! 0) history of
        Inl err \<Rightarrow> (None, Some err)
      | Inr configRaw \<Rightarrow>
     (case Marshal (lib env) configRaw of
        Inl err \<Rightarrow> (None, Some err)
      | Inr config \<Rightarrow>
     (case digestFromManifest (lib env) unverifiedManifest (LocalName repoInfo) of
        Inl err \<Rightarrow> (None, Some err)
      | Inr dgst \<Rightarrow>
     (case NewFromJSON (lib env) config of
        Inl err \<Rightarrow> (None, Some err)
      | Inr img \<Rightarrow>
          (Some (makeRemoteImageInspect env repoInfo img tag dgst), None)))))))))"

definition fetchWithRepository ::
  "Env \<Rightarrow> RepositoryInfo \<Rightarrow> Repository \<Rightarrow> Reference
     \<Rightarrow> (RemoteImageInspect option \<times> error option) \<times> event list" where
  "fetchWithRepository env repoInfo repo ref =
     traced (Manifests_call repo)
       (case Manifests (v2 env) repo of
          Inl err \<Rightarrow> ret (None, Some err)
        | Inr manSvc \<Rightarrow>
            (case fetchWithRepository_unverified env repoInfo manSvc ref of
               (Inl err, t) \<Rightarrow> ((None, Some err), t)
             | (Inr (unverifiedManifest, tag), t) \<Rightarrow>
                 (fetchWithRepository_image env repoInfo ref unverifiedManifest tag, t)))"

text \<open>\<^verbatim>\<open>v2ManifestFetcher.Fetch\<close>.\<close>

definition v2_Fetch ::
  "Env \<Rightarrow> APIEndpoint \<Rightarrow> RepositoryInfo \<Rightarrow> Reference
     \<Rightarrow> (RemoteImageInspect option \<times> bool \<times> error option) \<times> event list" where
  "v2_Fetch env endpoint repoInfo ref =
     traced (NewV2Repository_call repoInfo endpoint)
       (case NewV2Repository (v2 env) repoInfo endpoint of
          Inl err \<Rightarrow> ret (None, True, Some err)
        | Inr repo \<Rightarrow>
            (case fetchWithRepository env repoInfo repo ref of
               ((imgInspect, err), t) \<Rightarrow>
                 ((imgInspect,
                   (case err of Some e \<Rightarrow> ContinueOnError (reg env) e | None \<Rightarrow> False),
                   err), t)))"

subsection \<open>inspect.go: the endpoint loop and the registry loop\<close>

datatype ManifestFetcher =
    v2ManifestFetcher APIEndpoint RepositoryInfo
  | v1ManifestFetcher APIEndpoint RepositoryInfo

definition newManifestFetcher :: "APIEndpoint \<Rightarrow> RepositoryInfo \<Rightarrow> error + ManifestFetcher" where
  "newManifestFetcher endpoint repoInfo =
     (if Version endpoint = APIVersion2 then Inr (v2ManifestFetcher endpoint repoInfo)
      else if Version endpoint = APIVersion1 then Inr (v1ManifestFetcher endpoint repoInfo)
      else Inl (errorString (''unknown version '' @ fmt_d (Version endpoint)
                  @ '' for registry '' @ URL endpoint)))"

text \<open>The method \<^verbatim>\<open>Fetch\<close> of the interface \<^verbatim>\<open>ManifestFetcher\<close>.\<close>

fun Fetch ::
  "Env \<Rightarrow> ManifestFetcher \<Rightarrow> Reference
     \<Rightarrow> (RemoteImageInspect option \<times> bool \<times> error option) \<times> event list" where
  "Fetch env (v2ManifestFetcher endpoint repoInfo) ref = v2_Fetch env endpoint repoInfo ref"
| "Fetch env (v1ManifestFetcher endpoint repoInfo) ref = v1_Fetch env endpoint repoInfo ref"

text \<open>The two variables \<^verbatim>\<open>lastErr\<close> and \<^verbatim>\<open>discardNoSupportErrors\<close> of the loops.\<close>

record accumulator =
  lastErr :: "error option"
  discardNoSupportErrors :: bool

text \<open>
  What became of a loop over the endpoints: it ran to the end of the list, leaving
  the accumulator, or a \<^verbatim>\<open>return\<close> inside it left the function with a result.
\<close>

datatype 'r loop_exit =
    Exhausted accumulator
  | Returned 'r

fun fetchManifest_loop ::
  "Env \<Rightarrow> RepositoryInfo \<Rightarrow> Reference \<Rightarrow> APIEndpoint list \<Rightarrow> accumulator
     \<Rightarrow> (RemoteImageInspect option \<times> error option) loop_exit \<times> event list" where
  "fetchManifest_loop env repoInfo ref [] acc = ret (Exhausted acc)"
| "fetchManifest_loop env repoInfo ref (endpoint # endpoints) acc =
     traced (Trying endpoint)
       (case newManifestFetcher endpoint repoInfo of
          Inl err \<Rightarrow>
            fetchManifest_loop env repoInfo ref endpoints (acc\<lparr>lastErr := Some err\<rparr>)
        | Inr fetcher \<Rightarrow>
            (case Fetch env fetcher ref of
               ((imgInspect, fallback, Some err), t) \<Rightarrow>
                 (if fallback
                  then
                    (if \<not> isErrNoSupport err
                     then after t (fetchManifest_loop env repoInfo ref endpoints
                            (acc\<lparr>discardNoSupportErrors := True, lastErr := Some err\<rparr>))
                     else if \<not> discardNoSupportErrors acc
                     then after t (fetchManifest_loop env repoInfo ref endpoints
                            (acc\<lparr>lastErr := Some err\<rparr>))
                     else after t (fetchManifest_loop env repoInfo ref endpoints acc))
                  else (Returned (None, Some err), t))
             | ((imgInspect, fallback, None), t) \<Rightarrow> (Returned (imgInspect, None), t)))"

definition fetchManifest ::
  "Env \<Rightarrow> Reference \<Rightarrow> (RemoteImageInspect option \<times> error option) \<times> event list" where
  "fetchManifest env ref =
     traced (ResolveRepository_call ref)
       (case ResolveRepository (reg env) ref of
          Inl err \<Rightarrow> ret (None, Some err)
        | Inr repoInfo \<Rightarrow>
            (case validateRepoName (reg env) (LocalName repoInfo) of
               Some err \<Rightarrow> ret (None, Some err)
             | None \<Rightarrow>
                 traced (LookupPullEndpoints_call (CanonicalName repoInfo))
                   (case LookupPullEndpoints (reg env) (CanonicalName repoInfo) of
                      Inl err \<Rightarrow> ret (None, Some err)
                    | Inr endpoints \<Rightarrow>
                        (case fetchManifest_loop env repoInfo ref endpoints
                                \<lparr>lastErr = None, discardNoSupportErrors = False\<rparr> of
                           (Returned r, t) \<Rightarrow> (r, t)
                         | (Exhausted acc, t) \<Rightarrow>
                             ((None,
                               Some (case lastErr acc of
                                       None \<Rightarrow> errorString (''no endpoints found for ''
                                                 @ index_Name (Index repoInfo))
                                     | Some e \<Rightarrow> e)), t)))))"

text \<open>
  The loop of \<^verbatim>\<open>Inspect\<close> over the registries; the last argument holds the variables
  \<^verbatim>\<open>imageInspect\<close> and \<^verbatim>\<open>err\<close>.
\<close>

fun Inspect_loop ::
  "Env \<Rightarrow> Reference \<Rightarrow> string list \<Rightarrow> RemoteImageInspect option \<times> error option
     \<Rightarrow> (RemoteImageInspect option \<times> error option) \<times> event list" where
  "Inspect_loop env ref [] vars = ret vars"
| "Inspect_loop env ref (r # rs) vars =
     (case FullyQualifyReferenceWith (reg env) r ref of
        Inl err \<Rightarrow> Inspect_loop env ref rs (fst vars, Some err)
      | Inr fqr \<Rightarrow>
          (case fetchManifest env fqr of
             ((imageInspect, None), t) \<Rightarrow> ((imageInspect, None), t)
           | ((imageInspect, Some err), t) \<Rightarrow>
               after t (Inspect_loop env ref rs (imageInspect, Some err))))"

definition Inspect ::
  "Env \<Rightarrow> Reference \<Rightarrow> (RemoteImageInspect option \<times> error option) \<times> event list" where
  "Inspect env ref =
     (if IsReferenceFullyQualified (reg env) ref then fetchManifest env ref
      else if length (RegistryList (reg env)) = 0
      then ret (None, Some (errorString ''No configured registry to pull from.''))
      else Inspect_loop env ref (RegistryList (reg env)) (None, None))"

subsection \<open>list.go: the two orders and the sort\<close>

text \<open>The method \<^verbatim>\<open>Less\<close> of \<^verbatim>\<open>byTagName\<close>, on two elements of the slice.\<close>

definition byTagName_Less :: "RepositoryTag \<Rightarrow> RepositoryTag \<Rightarrow> bool" where
  "byTagName_Less ri rj = (Tag ri < Tag rj)"

text \<open>The method \<^verbatim>\<open>Less\<close> of \<^verbatim>\<open>byAPIVersion\<close>, on two elements of the slice.\<close>

definition byAPIVersion_Less :: "APIEndpoint \<Rightarrow> APIEndpoint \<Rightarrow> bool" where
  "byAPIVersion_Less ri rj =
     (if Version ri < Version rj then True
      else if Version ri = Version rj \<and> HasPrefix (URL ri) ''https://''
              \<and> \<not> HasPrefix (URL rj) ''https://'' then True
      else False)"

text \<open>
  \<^verbatim>\<open>sort.Sort\<close> belongs to the Go library. It reads the slice through \<^verbatim>\<open>Less\<close> only
  and leaves open the order of two elements neither of which is less than the other.
  It is modelled by an insertion sort on \<^verbatim>\<open>Less\<close>; no theorem below depends on
  the order this sort gives to such elements.
\<close>

fun insert_Less :: "('a \<Rightarrow> 'a \<Rightarrow> bool) \<Rightarrow> 'a \<Rightarrow> 'a list \<Rightarrow> 'a list" where
  "insert_Less lt x [] = [x]"
| "insert_Less lt x (y # ys) =
     (if lt x y then x # y # ys else y # insert_Less lt x ys)"

definition sort_Sort :: "('a \<Rightarrow> 'a \<Rightarrow> bool) \<Rightarrow> 'a list \<Rightarrow> 'a list" where
  "sort_Sort lt xs = fold (insert_Less lt) xs []"

subsection \<open>list_v1.go and list_v2.go: the tag listers\<close>

text \<open>A nil slice of tags and an empty one are both the empty list.\<close>

definition listTagsWithSession ::
  "Env \<Rightarrow> RepositoryInfo \<Rightarrow> Session \<Rightarrow> (RepositoryTag list \<times> error option) \<times> event list" where
  "listTagsWithSession env repoInfo session =
     traced (GetRepositoryData_call session (RemoteName repoInfo))
       (case GetRepositoryData (v1 env) session (RemoteName repoInfo) of
          Inl err \<Rightarrow>
            (if Contains (Error err) ''HTTP code: 404''
             then ret ([], Some (errorString (''Error: image '' @ RemoteName repoInfo
                        @ '' not found'')))
             else ret ([], Some err))
        | Inr repoData \<Rightarrow>
            traced (GetRemoteTags_call session (Endpoints repoData) (RemoteName repoInfo))
              (case GetRemoteTags (v1 env) session (Endpoints repoData) (RemoteName repoInfo) of
                 Inl err \<Rightarrow> ret ([], Some err)
               | Inr tagsList \<Rightarrow>
                   (if length tagsList < 1
                    then ret ([], Some (errorString (''No tags available for remote repository ''
                               @ CanonicalName repoInfo)))
                    else ret (map (\<lambda>(tag, imageID). \<lparr>Tag = tag, ImageID = imageID\<rparr>) tagsList,
                              None))))"

definition v1_ListTags ::
  "Env \<Rightarrow> APIEndpoint \<Rightarrow> RepositoryInfo
     \<Rightarrow> (RepositoryTag list \<times> bool \<times> error option) \<times> event list" where
  "v1_ListTags env endpoint repoInfo =
     traced (TLSConfig_call (index_Name (Index repoInfo)))
       (case TLSConfig (reg env) (index_Name (Index repoInfo)) of
          Some err \<Rightarrow> ret ([], False, Some err)
        | None \<Rightarrow>
            traced (ToV1Endpoint_call endpoint)
              (case ToV1Endpoint (v1 env) endpoint of
                 Inl err \<Rightarrow> ret ([], True, Some err)
               | Inr v1Endpoint \<Rightarrow>
                   traced (NewSession_call v1Endpoint)
                     (case NewSession (v1 env) v1Endpoint of
                        Inl err \<Rightarrow> ret ([], True, Some err)
                      | Inr session \<Rightarrow>
                          (case listTagsWithSession env repoInfo session of
                             ((tagList, err), t) \<Rightarrow> ((tagList, False, err), t)))))"

definition listTagsWithRepository ::
  "Env \<Rightarrow> Repository \<Rightarrow> (RepositoryTag list \<times> error option) \<times> event list" where
  "listTagsWithRepository env repo =
     traced (Manifests_call repo)
       (case Manifests (v2 env) repo of
          Inl err \<Rightarrow> ret ([], Some err)
        | Inr manSvc \<Rightarrow>
            traced (Tags_call manSvc)
              (ret (case Tags (v2 env) manSvc of
                      Inl err \<Rightarrow>
                        (case err of
                           Errors t \<Rightarrow> (if length t = 1 then ([], Some (t ! 0)) else ([], Some err))
                         | _ \<Rightarrow> ([], Some err))
                    | Inr tags \<Rightarrow> (map (\<lambda>tag. \<lparr>Tag = tag, ImageID = ''''\<rparr>) tags, None))))"

definition v2_ListTags ::
  "Env \<Rightarrow> APIEndpoint \<Rightarrow> RepositoryInfo
     \<Rightarrow> (RepositoryTag list \<times> bool \<times> error option) \<times> event list" where
  "v2_ListTags env endpoint repoInfo =
     traced (NewV2Repository_call repoInfo endpoint)
       (case NewV2Repository (v2 env) repoInfo endpoint of
          Inl err \<Rightarrow> ret ([], True, Some err)
        | Inr repo \<Rightarrow>
            (case listTagsWithRepository env repo of
               ((tagList, err), t) \<Rightarrow>
                 ((tagList,
                   (case err of Some e \<Rightarrow> ContinueOnError (reg env) e | None \<Rightarrow> False),
                   err), t)))"

subsection \<open>list.go: the endpoint loop and the registry loop\<close>

datatype TagLister =
    v2TagLister APIEndpoint RepositoryInfo
  | v1TagLister APIEndpoint RepositoryInfo

definition newTagLister :: "APIEndpoint \<Rightarrow> RepositoryInfo \<Rightarrow> error + TagLister" where
  "newTagLister endpoint repoInfo =
     (if Version endpoint = APIVersion2 then Inr (v2TagLister endpoint repoInfo)
      else if Version endpoint = APIVersion1 then Inr (v1TagLister endpoint repoInfo)
      else Inl (errorString (''unknown version '' @ fmt_d (Version endpoint)
                  @ '' for registry '' @ URL endpoint)))"

text \<open>The method \<^verbatim>\<open>ListTags\<close> of the interface \<^verbatim>\<open>TagLister\<close>.\<close>

fun ListTags ::
  "Env \<Rightarrow> TagLister \<Rightarrow> (RepositoryTag list \<times> bool \<times> error option) \<times> event list" where
  "ListTags env (v2TagLister endpoint repoInfo) = v2_ListTags env endpoint repoInfo"
| "ListTags env (v1TagLister endpoint repoInfo) = v1_ListTags env endpoint repoInfo"

fun getRemoteTagList_loop ::
  "Env \<Rightarrow> RepositoryInfo \<Rightarrow> APIEndpoint list \<Rightarrow> accumulator
     \<Rightarrow> (RepositoryTagList option \<times> error option) loop_exit \<times> event list" where
  "getRemoteTagList_loop env repoInfo [] acc = ret (Exhausted acc)"
| "getRemoteTagList_loop env repoInfo (endpoint # endpoints) acc =
     traced (Trying endpoint)
       (case newTagLister endpoint repoInfo of
          Inl err \<Rightarrow>
            getRemoteTagList_loop env repoInfo endpoints (acc\<lparr>lastErr := Some err\<rparr>)
        | Inr tagLister \<Rightarrow>
            (case ListTags env tagLister of
               ((tagList, fallback, Some err), t) \<Rightarrow>
                 (if fallback \<or> Version endpoint = APIVersion1
                  then
                    (if \<not> isErrNoSupport err
                     then after t (getRemoteTagList_loop env repoInfo endpoints
                            (acc\<lparr>discardNoSupportErrors := True, lastErr := Some err\<rparr>))
                     else if \<not> discardNoSupportErrors acc
                     then after t (getRemoteTagList_loop env repoInfo endpoints
                            (acc\<lparr>lastErr := Some err\<rparr>))
                     else after t (getRemoteTagList_loop env repoInfo endpoints acc))
                  else (Returned (None, Some err), t))
             | ((tagList, fallback, None), t) \<Rightarrow>
                 (Returned (Some \<lparr>Name = CanonicalName repoInfo,
                                  TagList = sort_Sort byTagName_Less tagList\<rparr>, None), t)))"

definition getRemoteTagList ::
  "Env \<Rightarrow> Reference \<Rightarrow> (RepositoryTagList option \<times> error option) \<times> event list" where
  "getRemoteTagList env ref =
     traced (ResolveRepository_call ref)
       (case ResolveRepository (reg env) ref of
          Inl err \<Rightarrow> ret (None, Some err)
        | Inr repoInfo \<Rightarrow>
            (case validateRepoName (reg env) (LocalName repoInfo) of
               Some err \<Rightarrow> ret (None, Some err)
             | None \<Rightarrow>
                 traced (LookupPullEndpoints_call (CanonicalName repoInfo))
                   (case LookupPullEndpoints (reg env) (CanonicalName repoInfo) of
                      Inl err \<Rightarrow> ret (None, Some err)
                    | Inr endpoints \<Rightarrow>
                        (case getRemoteTagList_loop env repoInfo
                                (sort_Sort byAPIVersion_Less endpoints)
                                \<lparr>lastErr = None, discardNoSupportErrors = False\<rparr> of
                           (Returned r, t) \<Rightarrow> (r, t)
                         | (Exhausted acc, t) \<Rightarrow>
                             ((None,
                               Some (case lastErr acc of
                                       None \<Rightarrow> errorString (''no endpoints found for ''
                                                 @ index_Name (Index repoInfo))
                                     | Some e \<Rightarrow> e)), t)))))"

text \<open>
  The loop of \<^verbatim>\<open>ListRemoteTags\<close> over the registries; the last argument holds the
  variables \<^verbatim>\<open>tagList\<close> and \<^verbatim>\<open>err\<close>.
\<close>

fun ListRemoteTags_loop ::
  "Env \<Rightarrow> Reference \<Rightarrow> string list \<Rightarrow> RepositoryTagList option \<times> error option
     \<Rightarrow> (RepositoryTagList option \<times> error option) \<times> event list" where
  "ListRemoteTags_loop env ref [] vars = ret vars"
| "ListRemoteTags_loop env ref (r # rs) vars =
     (case FullyQualifyReferenceWith (reg env) r ref of
        Inl err \<Rightarrow> ListRemoteTags_loop env ref rs (fst vars, Some err)
      | Inr fqr \<Rightarrow>
          (case getRemoteTagList env fqr of
             ((tagList, None), t) \<Rightarrow> ((tagList, None), t)
           | ((tagList, Some err), t) \<Rightarrow>
               after t (ListRemoteTags_loop env ref rs (tagList, Some err))))"

definition ListRemoteTags ::
  "Env \<Rightarrow> Reference \<Rightarrow> (RepositoryTagList option \<times> error option) \<times> event list" where
  "ListRemoteTags env ref =
     (if IsReferenceFullyQualified (reg env) ref then getRemoteTagList env ref
      else if length (RegistryList (reg env)) = 0
      then ret (None, Some (errorString ''No configured registry to pull from.''))
      else (case ValidateRepositoryName (reg env) ref of
              Some err \<Rightarrow> ret (None, Some err)
            | None \<Rightarrow> ListRemoteTags_loop env ref (RegistryList (reg env)) (None, None)))"

section \<open>Vocabulary of the properties\<close>

subsection \<open>Projections of the event list\<close>

text \<open>The endpoints of the \<open>Trying\<close> events: the endpoints a loop iterated over.\<close>

definition tried :: "event list \<Rightarrow> APIEndpoint list" where
  "tried t = concat (map (\<lambda>c. case c of Trying e \<Rightarrow> [e] | _ \<Rightarrow> []) t)"

text \<open>The references handed to \<^verbatim>\<open>ResolveRepository\<close>: one for each registry attempted.\<close>

definition resolved :: "event list \<Rightarrow> Reference list" where
  "resolved t =
     concat (map (\<lambda>c. case c of ResolveRepository_call r \<Rightarrow> [r] | _ \<Rightarrow> []) t)"

text \<open>The addresses asked for the JSON of an image.\<close>

definition pulled :: "event list \<Rightarrow> string list" where
  "pulled t =
     concat (map (\<lambda>c. case c of GetRemoteImageJSON_call s i ep \<Rightarrow> [ep] | _ \<Rightarrow> []) t)"

text \<open>The tags whose manifest was asked of a v2 repository.\<close>

definition fetchedByTag :: "event list \<Rightarrow> string list" where
  "fetchedByTag t =
     concat (map (\<lambda>c. case c of GetByTag_call ms tag \<Rightarrow> [tag] | _ \<Rightarrow> []) t)"

text \<open>An event list without \<open>Trying\<close> and without \<^verbatim>\<open>ResolveRepository\<close>.\<close>

definition inner :: "event list \<Rightarrow> bool" where
  "inner t = (tried t = [] \<and> resolved t = [])"

subsection \<open>The error accumulator\<close>

text \<open>
  The error the endpoint loop of \<open>fetchManifest\<close> handles on its \<^verbatim>\<open>continue\<close>
  branch at an endpoint (a fallback error), if the endpoint yields one.
\<close>

definition fetchManifest_fallbackErr ::
  "Env \<Rightarrow> RepositoryInfo \<Rightarrow> Reference \<Rightarrow> APIEndpoint \<Rightarrow> error option" where
  "fetchManifest_fallbackErr env repoInfo ref endpoint =
     (case newManifestFetcher endpoint repoInfo of
        Inl err \<Rightarrow> None
      | Inr fetcher \<Rightarrow>
          (case fst (Fetch env fetcher ref) of
             (imgInspect, fallback, Some err) \<Rightarrow> if fallback then Some err else None
           | (imgInspect, fallback, None) \<Rightarrow> None))"

text \<open>The same for the endpoint loop of \<open>getRemoteTagList\<close>.\<close>

definition getRemoteTagList_fallbackErr ::
  "Env \<Rightarrow> RepositoryInfo \<Rightarrow> APIEndpoint \<Rightarrow> error option" where
  "getRemoteTagList_fallbackErr env repoInfo endpoint =
     (case newTagLister endpoint repoInfo of
        Inl err \<Rightarrow> None
      | Inr tagLister \<Rightarrow>
          (case fst (ListTags env tagLister) of
             (tagList, fallback, Some err) \<Rightarrow>
               if fallback \<or> Version endpoint = APIVersion1 then Some err else None
           | (tagList, fallback, None) \<Rightarrow> None))"

text \<open>An error that is there and is not an \<open>ErrNoSupport\<close>.\<close>

definition realErr :: "error option \<Rightarrow> bool" where
  "realErr e = (case e of Some err \<Rightarrow> \<not> isErrNoSupport err | None \<Rightarrow> False)"

text \<open>What the \<^verbatim>\<open>continue\<close> branch of either loop does to the accumulator.\<close>

definition remember :: "accumulator \<Rightarrow> error \<Rightarrow> accumulator" where
  "remember acc err =
     (if \<not> isErrNoSupport err
      then acc\<lparr>discardNoSupportErrors := True, lastErr := Some err\<rparr>
      else if \<not> discardNoSupportErrors acc then acc\<lparr>lastErr := Some err\<rparr>
      else acc)"

definition acc_ok :: "accumulator \<Rightarrow> bool" where
  "acc_ok acc = (discardNoSupportErrors acc \<longrightarrow> realErr (lastErr acc))"

subsection \<open>The registry loop\<close>

text \<open>The references the registries of a list give when prefixed to a reference.\<close>

definition candidates :: "Env \<Rightarrow> Reference \<Rightarrow> string list \<Rightarrow> Reference list" where
  "candidates env ref rs =
     concat (map (\<lambda>r. case FullyQualifyReferenceWith (reg env) r ref of
                          Inl err \<Rightarrow> [] | Inr fqr \<Rightarrow> [fqr]) rs)"

text \<open>
  The error of one registry in the loop of \<open>Inspect\<close>, of \<open>ListRemoteTags\<close>;
  \<open>None\<close> when the registry answers.
\<close>

definition Inspect_attempt :: "Env \<Rightarrow> Reference \<Rightarrow> string \<Rightarrow> error option" where
  "Inspect_attempt env ref r =
     (case FullyQualifyReferenceWith (reg env) r ref of
        Inl err \<Rightarrow> Some err
      | Inr fqr \<Rightarrow> snd (fst (fetchManifest env fqr)))"

definition ListRemoteTags_attempt :: "Env \<Rightarrow> Reference \<Rightarrow> string \<Rightarrow> error option" where
  "ListRemoteTags_attempt env ref r =
     (case FullyQualifyReferenceWith (reg env) r ref of
        Inl err \<Rightarrow> Some err
      | Inr fqr \<Rightarrow> snd (fst (getRemoteTagList env fqr)))"

subsection \<open>The order of the endpoints as a number\<close>

definition byAPIVersion_key :: "APIEndpoint \<Rightarrow> int" where
  "byAPIVersion_key e = 2 * Version e + (if HasPrefix (URL e) ''https://'' then 0 else 1)"

subsection \<open>An example environment\<close>

text \<open>
  Three configured registries. The first name cannot be prefixed to a reference;
  \<^verbatim>\<open>a.example\<close> has no pull endpoint; \<^verbatim>\<open>b.example\<close> has a v2 endpoint that refuses
  connections, a v1 endpoint over https that is switched off and a v1 endpoint over
  http that answers. A fourth registry, \<^verbatim>\<open>c.example\<close>, is not configured and has the
  switched-off endpoint only. The v1 repository \<^verbatim>\<open>library/x\<close> has the tags 1.0, latest
  and 2.0, \<^verbatim>\<open>library/y\<close> has 1.0 and 2.0, every other one has none; the image of tag
  2.0 cannot be pulled from any address, the others from the second endpoint only.
\<close>

definition example_v2 :: APIEndpoint where
  "example_v2 = \<lparr>URL = ''https://b.example/v2'', Version = 2\<rparr>"

definition example_v1s :: APIEndpoint where
  "example_v1s = \<lparr>URL = ''https://b.example/v1'', Version = 1\<rparr>"

definition example_v1 :: APIEndpoint where
  "example_v1 = \<lparr>URL = ''http://b.example/v1'', Version = 1\<rparr>"

definition example_repoInfo :: "string \<Rightarrow> string \<Rightarrow> RepositoryInfo" where
  "example_repoInfo registry remote =
     \<lparr>Index = \<lparr>index_Name = registry, Mirrors = [''http://mirror.example'']\<rparr>,
      RemoteName = remote, LocalName = remote,
      CanonicalName = registry @ ''/'' @ remote\<rparr>"

definition example_reg :: RegistryPkg where
  "example_reg =
     \<lparr>RegistryList = [''bad registry'', ''a.example'', ''b.example''],
      IsReferenceFullyQualified = (\<lambda>ref. CHR ''.'' \<in> set (ref_Name ref)),
      FullyQualifyReferenceWith = (\<lambda>r ref.
        if CHR '' '' \<in> set r then Inl (errorString (''invalid registry name '' @ r))
        else Inr (ref\<lparr>ref_Name := r @ ''/'' @ ref_Name ref\<rparr>)),
      ValidateRepositoryName = (\<lambda>ref. None),
      validateRepoName = (\<lambda>name.
        if name = '''' then Some (errorString ''Repository name can not be empty'') else None),
      ContinueOnError = (\<lambda>err. True),
      ResolveRepository = (\<lambda>ref.
        if ref_Name ref = ''a.example/library/x'' then Inr (example_repoInfo ''a.example'' ''library/x'')
        else if ref_Name ref = ''b.example/library/x'' then Inr (example_repoInfo ''b.example'' ''library/x'')
        else if ref_Name ref = ''c.example/library/x'' then Inr (example_repoInfo ''c.example'' ''library/x'')
        else Inl (errorString (''unknown repository '' @ ref_Name ref))),
      LookupPullEndpoints = (\<lambda>name.
        if name = ''b.example/library/x'' then Inr [example_v2, example_v1s, example_v1]
        else if name = ''c.example/library/x'' then Inr [example_v1s]
        else Inr []),
      TLSConfig = (\<lambda>name. None)\<rparr>"

definition example_session :: V1Registry where
  "example_session =
     \<lparr>ToV1Endpoint = (\<lambda>endpoint.
        if URL endpoint = ''https://b.example/v1''
        then Inl (ErrNoSupport (errorString ''v1 over https is switched off''))
        else Inr (URL endpoint)),
      NewSession = (\<lambda>v1Endpoint. Inr v1Endpoint),
      GetRepositoryData = (\<lambda>session remote.
        Inr \<lparr>ImgList = Map.empty, Endpoints = [''http://e1.example'', ''http://e2.example''],
             Tokens = []\<rparr>),
      GetRemoteTags = (\<lambda>session endpoints remote.
        if remote = ''library/x''
        then Inr [(''1.0'', ''id1''), (''latest'', ''id2''), (''2.0'', ''id3'')]
        else if remote = ''library/y'' then Inr [(''1.0'', ''id1''), (''2.0'', ''id3'')]
        else Inr []),
      GetRemoteImageJSON = (\<lambda>session imgID endpoint.
        if endpoint = ''http://e2.example'' \<and> imgID \<noteq> ''id3'' then Inr imgID
        else Inl (errorString (''HTTP code: 500 at '' @ endpoint)))\<rparr>"

text \<open>
  The v2 client: the manifest service of a repository carries the repository's name;
  \<^verbatim>\<open>r1\<close> enumerates 1.0, latest, 2.0, \<^verbatim>\<open>r2\<close> enumerates 1.0, 2.0, \<^verbatim>\<open>r3\<close> enumerates
  the empty string and 1.0, every other one enumerates nothing.
\<close>

definition example_manifest :: SignedManifest where
  "example_manifest = \<lparr>FSLayers = [''layer0''], History = [''{}'']\<rparr>"

definition example_repository :: V2Registry where
  "example_repository =
     \<lparr>NewV2Repository = (\<lambda>repoInfo endpoint.
        if URL endpoint = ''https://b.example/v2'' then Inl (errorString ''connection refused'')
        else Inr (URL endpoint)),
      Manifests = (\<lambda>repo. Inr repo),
      Exists = (\<lambda>manSvc dgst. (True, None)),
      Get = (\<lambda>manSvc dgst. (Some example_manifest, None)),
      ExistsByTag = (\<lambda>manSvc tag. (True, None)),
      Tags = (\<lambda>manSvc.
        if manSvc = ''r1'' then Inr [''1.0'', ''latest'', ''2.0'']
        else if manSvc = ''r2'' then Inr [''1.0'', ''2.0'']
        else if manSvc = ''r3'' then Inr ['''', ''1.0'']
        else Inr []),
      GetByTag = (\<lambda>manSvc tag. (Some example_manifest, None))\<rparr>"

definition example_image :: "string \<Rightarrow> Image" where
  "example_image config =
     \<lparr>img_ID = config, img_Parent = '''', img_Comment = '''', img_Created = '''',
      img_Container = '''', img_ContainerConfig = '''', img_DockerVersion = '''',
      img_Author = '''', img_Config = '''', img_Architecture = '''', img_OS = '''',
      img_Size = 0\<rparr>"

definition example_lib :: ImageLib where
  "example_lib =
     \<lparr>HistoryFromConfig = (\<lambda>config throwAway. Inr config),
      MakeRawConfigFromV1Config = (\<lambda>config history. Inr config),
      Marshal = (\<lambda>configRaw. Inr configRaw),
      Unmarshal_throwAway = (\<lambda>config. Inr False),
      NewFromJSON = (\<lambda>config. Inr (example_image config)),
      verifyManifest = (\<lambda>m ref. Inr m),
      fixManifestLayers = (\<lambda>m. Inr m),
      digestFromManifest = (\<lambda>m name. Inr ''sha256:0''),
      WithTag = (\<lambda>name tag. Inr (name @ '':'' @ tag)),
      Validate = (\<lambda>dgst. if dgst = '''' then Some (errorString ''invalid digest'') else None),
      Quote = (\<lambda>s. [CHR 0x22] @ s @ [CHR 0x22])\<rparr>"

definition example :: Env where
  "example = \<lparr>reg = example_reg, v1 = example_session, v2 = example_repository,
              lib = example_lib\<rparr>"

definition example_ref :: "string \<Rightarrow> Reference" where
  "example_ref name = \<lparr>ref_Name = name, ref_Tag = None, ref_Digest = None\<rparr>"

text \<open>
  The same environment with a check of repository names that refuses the names of the
  namespace \<^verbatim>\<open>library\<close>. Nothing else differs: every registry answers as in
  \<open>example\<close>.
\<close>

definition example_strict :: Env where
  "example_strict =
     example\<lparr>reg := (reg example)\<lparr>ValidateRepositoryName :=
       (\<lambda>ref. if HasPrefix (ref_Name ref) ''library/''
              then Some (errorString (''Invalid repository name ('' @ ref_Name ref @ '')''))
              else None)\<rparr>\<rparr>"

section \<open>Lemmas\<close>

lemma fst_ret [simp]: "fst (ret x) = x" by (simp add: ret_def)

lemma snd_ret [simp]: "snd (ret x) = []" by (simp add: ret_def)

lemma fst_traced [simp]: "fst (traced c k) = fst k" by (simp add: traced_def)

lemma snd_traced [simp]: "snd (traced c k) = c # snd k" by (simp add: traced_def)

lemma fst_after [simp]: "fst (after t k) = fst k" by (simp add: after_def)

lemma snd_after [simp]: "snd (after t k) = t @ snd k" by (simp add: after_def)

lemma fetchManifest_loop_fst_Cons:
  "fst (fetchManifest_loop env ri ref (e # es) acc) =
     (case fst (fetchManifest_loop env ri ref [e] acc) of
        Exhausted acc' \<Rightarrow> fst (fetchManifest_loop env ri ref es acc')
      | Returned r \<Rightarrow> Returned r)"
  by (simp split: sum.splits prod.splits option.splits)

lemma fetchManifest_loop_fst_append:
  "fst (fetchManifest_loop env ri ref (xs @ ys) acc) =
     (case fst (fetchManifest_loop env ri ref xs acc) of
        Exhausted acc' \<Rightarrow> fst (fetchManifest_loop env ri ref ys acc')
      | Returned r \<Rightarrow> Returned r)"
proof (induction xs arbitrary: acc)
  case Nil
  show ?case by simp
next
  case (Cons x xs)
  show ?case
    apply (subst append_Cons)
    apply (subst fetchManifest_loop_fst_Cons)
    apply (subst (2) fetchManifest_loop_fst_Cons)
    apply (simp add: Cons split: loop_exit.splits)
    done
qed

lemma fetchManifest_loop_single:
  "fetchManifest_fallbackErr env ri ref e = Some err \<Longrightarrow>
   fst (fetchManifest_loop env ri ref [e] acc) = Exhausted (remember acc err)"
  by (auto simp: fetchManifest_fallbackErr_def remember_def
      split: sum.splits prod.splits option.splits if_splits)

lemma fetchManifest_loop_single_Exhausted:
  "fst (fetchManifest_loop env ri ref [e] acc) = Exhausted acc' \<Longrightarrow>
   (case fetchManifest_fallbackErr env ri ref e of
      Some err \<Rightarrow> acc' = remember acc err
    | None \<Rightarrow> \<exists>s. acc' = acc\<lparr>lastErr := Some (errorString s)\<rparr>)"
  by (auto simp: fetchManifest_fallbackErr_def remember_def newManifestFetcher_def
      split: sum.splits prod.splits option.splits if_splits)

lemma remember_ok: "acc_ok acc \<Longrightarrow> acc_ok (remember acc err)"
  by (auto simp: acc_ok_def remember_def realErr_def)

lemma fetchManifest_step_facts:
  assumes "fst (fetchManifest_loop env ri ref [e] acc) = Exhausted acc1"
  shows "acc_ok acc \<Longrightarrow> acc_ok acc1"
    and "discardNoSupportErrors acc1 =
           (discardNoSupportErrors acc \<or> realErr (fetchManifest_fallbackErr env ri ref e))"
    and "acc_ok acc \<Longrightarrow> lastErr acc1 \<noteq> None"
  using fetchManifest_loop_single_Exhausted [OF assms]
  by (auto simp: acc_ok_def remember_def realErr_def split: option.splits if_splits)

lemma fetchManifest_loop_invariant:
  "fst (fetchManifest_loop env ri ref es acc) = Exhausted acc' \<Longrightarrow> acc_ok acc \<Longrightarrow>
   acc_ok acc' \<and>
   discardNoSupportErrors acc' =
     (discardNoSupportErrors acc \<or> list_ex (\<lambda>e. realErr (fetchManifest_fallbackErr env ri ref e)) es)
   \<and> (es \<noteq> [] \<or> lastErr acc \<noteq> None \<longrightarrow> lastErr acc' \<noteq> None)"
proof (induction es arbitrary: acc)
  case Nil
  then show ?case by simp
next
  case (Cons e es)
  from Cons.prems(1) obtain acc1 where
    1: "fst (fetchManifest_loop env ri ref [e] acc) = Exhausted acc1" and
    2: "fst (fetchManifest_loop env ri ref es acc1) = Exhausted acc'"
    by (subst (asm) fetchManifest_loop_fst_Cons) (auto split: loop_exit.splits)
  note s = fetchManifest_step_facts [OF 1]
  have ok1: "acc_ok acc1" using s(1) Cons.prems(2) by simp
  have ne1: "lastErr acc1 \<noteq> None" using s(3) Cons.prems(2) by simp
  from Cons.IH [OF 2 ok1] s(2) ne1 show ?case by auto
qed

lemma getRemoteTagList_loop_fst_Cons:
  "fst (getRemoteTagList_loop env ri (e # es) acc) =
     (case fst (getRemoteTagList_loop env ri [e] acc) of
        Exhausted acc' \<Rightarrow> fst (getRemoteTagList_loop env ri es acc')
      | Returned r \<Rightarrow> Returned r)"
  by (simp split: sum.splits prod.splits option.splits)

lemma getRemoteTagList_loop_fst_append:
  "fst (getRemoteTagList_loop env ri (xs @ ys) acc) =
     (case fst (getRemoteTagList_loop env ri xs acc) of
        Exhausted acc' \<Rightarrow> fst (getRemoteTagList_loop env ri ys acc')
      | Returned r \<Rightarrow> Returned r)"
proof (induction xs arbitrary: acc)
  case Nil
  show ?case by simp
next
  case (Cons x xs)
  show ?case
    apply (subst append_Cons)
    apply (subst getRemoteTagList_loop_fst_Cons)
    apply (subst (2) getRemoteTagList_loop_fst_Cons)
    apply (simp add: Cons split: loop_exit.splits)
    done
qed

lemma getRemoteTagList_loop_single:
  "getRemoteTagList_fallbackErr env ri e = Some err \<Longrightarrow>
   fst (getRemoteTagList_loop env ri [e] acc) = Exhausted (remember acc err)"
  by (auto simp: getRemoteTagList_fallbackErr_def remember_def
      split: sum.splits prod.splits option.splits if_splits)

lemma getRemoteTagList_loop_single_Exhausted:
  "fst (getRemoteTagList_loop env ri [e] acc) = Exhausted acc' \<Longrightarrow>
   (case getRemoteTagList_fallbackErr env ri e of
      Some err \<Rightarrow> acc' = remember acc err
    | None \<Rightarrow> \<exists>s. acc' = acc\<lparr>lastErr := Some (errorString s)\<rparr>)"
  by (auto simp: getRemoteTagList_fallbackErr_def remember_def newTagLister_def
      split: sum.splits prod.splits option.splits if_splits)

lemma getRemoteTagList_step_facts:
  assumes "fst (getRemoteTagList_loop env ri [e] acc) = Exhausted acc1"
  shows "acc_ok acc \<Longrightarrow> acc_ok acc1"
    and "discardNoSupportErrors acc1 =
           (discardNoSupportErrors acc \<or> realErr (getRemoteTagList_fallbackErr env ri e))"
    and "acc_ok acc \<Longrightarrow> lastErr acc1 \<noteq> None"
  using getRemoteTagList_loop_single_Exhausted [OF assms]
  by (auto simp: acc_ok_def remember_def realErr_def split: option.splits if_splits)

lemma getRemoteTagList_loop_invariant:
  "fst (getRemoteTagList_loop env ri es acc) = Exhausted acc' \<Longrightarrow> acc_ok acc \<Longrightarrow>
   acc_ok acc' \<and>
   discardNoSupportErrors acc' =
     (discardNoSupportErrors acc \<or> list_ex (\<lambda>e. realErr (getRemoteTagList_fallbackErr env ri e)) es)
   \<and> (es \<noteq> [] \<or> lastErr acc \<noteq> None \<longrightarrow> lastErr acc' \<noteq> None)"
proof (induction es arbitrary: acc)
  case Nil
  then show ?case by simp
next
  case (Cons e es)
  from Cons.prems(1) obtain acc1 where
    1: "fst (getRemoteTagList_loop env ri [e] acc) = Exhausted acc1" and
    2: "fst (getRemoteTagList_loop env ri es acc1) = Exhausted acc'"
    by (subst (asm) getRemoteTagList_loop_fst_Cons) (auto split: loop_exit.splits)
  note s = getRemoteTagList_step_facts [OF 1]
  have ok1: "acc_ok acc1" using s(1) Cons.prems(2) by simp
  have ne1: "lastErr acc1 \<noteq> None" using s(3) Cons.prems(2) by simp
  from Cons.IH [OF 2 ok1] s(2) ne1 show ?case by auto
qed

lemma acc_ok_initial: "acc_ok \<lparr>lastErr = None, discardNoSupportErrors = False\<rparr>"
  by (simp add: acc_ok_def)

lemma fetchManifest_accumulator:
  assumes pre: "fst (fetchManifest_loop env repoInfo ref pre
                   \<lparr>lastErr = None, discardNoSupportErrors = False\<rparr>) = Exhausted acc"
    and e: "fetchManifest_fallbackErr env repoInfo ref endpoint = Some err"
  shows "\<exists>acc'. fst (fetchManifest_loop env repoInfo ref (pre @ [endpoint])
                   \<lparr>lastErr = None, discardNoSupportErrors = False\<rparr>) = Exhausted acc'
          \<and> (\<forall>rest. fst (fetchManifest_loop env repoInfo ref (pre @ endpoint # rest)
                   \<lparr>lastErr = None, discardNoSupportErrors = False\<rparr>)
                 = fst (fetchManifest_loop env repoInfo ref rest acc'))
          \<and> discardNoSupportErrors acc
              = list_ex (\<lambda>e. realErr (fetchManifest_fallbackErr env repoInfo ref e)) pre
          \<and> (discardNoSupportErrors acc \<longrightarrow> realErr (lastErr acc))
          \<and> (if isErrNoSupport err
              then (if discardNoSupportErrors acc then acc' = acc \<and> lastErr acc' \<noteq> Some err
                    else acc' = acc\<lparr>lastErr := Some err\<rparr>)
              else acc' = acc\<lparr>discardNoSupportErrors := True, lastErr := Some err\<rparr>)"
proof -
  let ?init = "\<lparr>lastErr = None, discardNoSupportErrors = False\<rparr>"
  note inv = fetchManifest_loop_invariant [OF pre acc_ok_initial]
  have step: "fst (fetchManifest_loop env repoInfo ref [endpoint] acc) = Exhausted (remember acc err)"
    by (rule fetchManifest_loop_single [OF e])
  have 1: "fst (fetchManifest_loop env repoInfo ref (pre @ [endpoint]) ?init)
             = Exhausted (remember acc err)"
    by (simp only: fetchManifest_loop_fst_append pre step loop_exit.case)
  have 2: "fst (fetchManifest_loop env repoInfo ref (pre @ endpoint # rest) ?init)
             = fst (fetchManifest_loop env repoInfo ref rest (remember acc err))" for rest
    apply (subst fetchManifest_loop_fst_append)
    apply (simp only: pre loop_exit.case)
    apply (subst fetchManifest_loop_fst_Cons)
    apply (simp only: step loop_exit.case)
    done
  have 3: "if isErrNoSupport err
           then (if discardNoSupportErrors acc
                 then remember acc err = acc \<and> lastErr (remember acc err) \<noteq> Some err
                 else remember acc err = acc\<lparr>lastErr := Some err\<rparr>)
           else remember acc err = acc\<lparr>discardNoSupportErrors := True, lastErr := Some err\<rparr>"
    using inv by (auto simp: remember_def acc_ok_def realErr_def split: option.splits)
  from 1 2 3 inv show ?thesis by (auto simp: acc_ok_def)
qed

lemma fold_DefaultTag:
  "fold (\<lambda>t tag. if t = DefaultTag then DefaultTag else tag) tagList a =
     (if DefaultTag \<in> set tagList then DefaultTag else a)"
  by (induction tagList arbitrary: a) auto

lemma DefaultTag_nonempty [simp]: "DefaultTag \<noteq> []" "[] \<noteq> DefaultTag"
  by (simp_all add: DefaultTag_def)

lemma fetchWithRepository_tag_cases:
  "fetchWithRepository_tag tagList =
     (if DefaultTag \<in> set tagList then DefaultTag
      else if tagList = [] then '''' else hd tagList)"
  by (auto simp: fetchWithRepository_tag_def fold_DefaultTag hd_conv_nth)

lemma fetchWithRepository_untagged:
  assumes "ref_Digest ref = None" "ref_Tag ref = None"
    and "Manifests (v2 env) repo = Inr manSvc"
    and "Tags (v2 env) manSvc = Inr tagList"
    and "fetchWithRepository_tag tagList = tag"
  shows "tag = '''' \<Longrightarrow> fetchWithRepository env repoInfo repo ref =
           ((None, Some (errorString (''No tags available for remote repository ''
               @ CanonicalName repoInfo))), [Manifests_call repo, Tags_call manSvc])"
    and "tag \<noteq> '''' \<Longrightarrow> fetchWithRepository env repoInfo repo ref =
           ((case fetchWithRepository_check env (GetByTag (v2 env) manSvc tag) tag of
               Inl err \<Rightarrow> (None, Some err)
             | Inr m \<Rightarrow> fetchWithRepository_image env repoInfo ref m tag),
            [Manifests_call repo, Tags_call manSvc, GetByTag_call manSvc tag])"
  using assms
  by (auto simp: fetchWithRepository_def fetchWithRepository_unverified_def traced_def ret_def
      split: sum.splits)



lemma fetchWithSession_tag_explicit [simp]:
  "askedTag \<noteq> [] \<Longrightarrow> fetchWithSession_tag tagsList askedTag = askedTag"
  by (simp add: fetchWithSession_tag_def)

lemma fetchWithSession_tag_default:
  "map_of tagsList DefaultTag \<noteq> None \<Longrightarrow> fetchWithSession_tag tagsList [] = DefaultTag"
  by (simp add: fetchWithSession_tag_def)

lemma fetchWithSession_tag_any:
  "map_of tagsList DefaultTag = None \<Longrightarrow> tagsList \<noteq> [] \<Longrightarrow>
   fetchWithSession_tag tagsList [] = fst (hd tagsList)"
  by (cases tagsList) (auto simp: fetchWithSession_tag_def)

lemma fetchWithSession_via_tag:
  "fetchWithSession_tag tagsList a = fetchWithSession_tag tagsList b \<Longrightarrow>
   GetRepositoryData (v1 env) session (RemoteName ri) = Inr repoData \<Longrightarrow>
   GetRemoteTags (v1 env) session (Endpoints repoData) (RemoteName ri) = Inr tagsList \<Longrightarrow>
   fetchWithSession env ri session a = fetchWithSession env ri session b"
  by (simp add: fetchWithSession_def)

lemma fetchWithSession_no_tags:
  "GetRepositoryData (v1 env) session (RemoteName ri) = Inr repoData \<Longrightarrow>
   GetRemoteTags (v1 env) session (Endpoints repoData) (RemoteName ri) = Inr [] \<Longrightarrow>
   fetchWithSession env ri session askedTag =
     ((None, Some (errorString (''No tags available for remote repository '' @ CanonicalName ri))),
      [GetRepositoryData_call session (RemoteName ri),
       GetRemoteTags_call session (Endpoints repoData) (RemoteName ri)])"
  by (simp add: fetchWithSession_def traced_def ret_def)

lemma fetchWithSession_tag_not_found:
  "GetRepositoryData (v1 env) session (RemoteName ri) = Inr repoData \<Longrightarrow>
   GetRemoteTags (v1 env) session (Endpoints repoData) (RemoteName ri) = Inr tagsList \<Longrightarrow>
   tagsList \<noteq> [] \<Longrightarrow> map_of tagsList (fetchWithSession_tag tagsList askedTag) = None \<Longrightarrow>
   fetchWithSession env ri session askedTag =
     ((None, Some (errorString (''Tag '' @ fetchWithSession_tag tagsList askedTag
         @ '' not found in repository '' @ CanonicalName ri))),
      [GetRepositoryData_call session (RemoteName ri),
       GetRemoteTags_call session (Endpoints repoData) (RemoteName ri)])"
  by (simp add: fetchWithSession_def traced_def ret_def Let_def)


lemma pullImageJSON_shape:
  "(\<exists>e. fst (pullImageJSON env s i a tok) = (None, Some e))
   \<or> (\<exists>img. fst (pullImageJSON env s i a tok) = (Some img, None))"
  by (simp add: pullImageJSON_def split: sum.splits)

lemma pullImageJSON_snd [simp]:
  "snd (pullImageJSON env s i a tok) = [GetRemoteImageJSON_call s i a]"
  by (simp add: pullImageJSON_def)

lemma pulled_calls [simp]: "pulled (map (GetRemoteImageJSON_call s i) as) = as"
  by (induction as) (simp_all add: pulled_def)

lemma pullImageJSON_loop_all_fail:
  "list_all (\<lambda>a. snd (fst (pullImageJSON env s i a tok)) \<noteq> None) as \<Longrightarrow>
   pullImageJSON_loop env s i tok as (None, err0) =
     ((None, if as = [] then err0 else snd (fst (pullImageJSON env s i (last as) tok))),
      map (GetRemoteImageJSON_call s i) as)"
proof (induction as arbitrary: err0)
  case Nil
  then show ?case by (simp add: ret_def)
next
  case (Cons a as)
  from Cons.prems obtain e where e: "fst (pullImageJSON env s i a tok) = (None, Some e)"
    using pullImageJSON_shape [of env s i a tok] by auto
  have p: "pullImageJSON env s i a tok = ((None, Some e), [GetRemoteImageJSON_call s i a])"
    using e pullImageJSON_snd [of env s i a tok] by (metis prod.collapse)
  from Cons.prems have rest: "list_all (\<lambda>a. snd (fst (pullImageJSON env s i a tok)) \<noteq> None) as"
    by simp
  show ?case
    by (simp add: p Cons.IH [OF rest] after_def e)
qed

lemma pullImageJSON_loop_first_success:
  "list_all (\<lambda>a. snd (fst (pullImageJSON env s i a tok)) \<noteq> None) pre \<Longrightarrow>
   fst (pullImageJSON env s i a tok) = (Some img, None) \<Longrightarrow>
   pullImageJSON_loop env s i tok (pre @ a # post) (None, err0) =
     ((Some img, None), map (GetRemoteImageJSON_call s i) (pre @ [a]))"
proof (induction pre arbitrary: err0)
  case Nil
  have p: "pullImageJSON env s i a tok = ((Some img, None), [GetRemoteImageJSON_call s i a])"
    using Nil.prems(2) pullImageJSON_snd [of env s i a tok] by (metis prod.collapse)
  show ?case by (simp add: p)
next
  case (Cons b pre)
  from Cons.prems obtain e where e: "fst (pullImageJSON env s i b tok) = (None, Some e)"
    using pullImageJSON_shape [of env s i b tok] by auto
  have p: "pullImageJSON env s i b tok = ((None, Some e), [GetRemoteImageJSON_call s i b])"
    using e pullImageJSON_snd [of env s i b tok] by (metis prod.collapse)
  from Cons.prems have rest: "list_all (\<lambda>a. snd (fst (pullImageJSON env s i a tok)) \<noteq> None) pre"
    by simp
  show ?case
    by (simp add: p Cons.IH [OF rest Cons.prems(2)] after_def)
qed

lemma pullImageJSON_loop_append:
  "pullImageJSON_loop env s i tok (xs @ ys) (None, e0) =
     (case pullImageJSON_loop env s i tok xs (None, e0) of
        (vars1, t1) \<Rightarrow>
          (case (if fst vars1 = None then pullImageJSON_loop env s i tok ys vars1
                 else ret vars1) of
             (r, t2) \<Rightarrow> (r, t1 @ t2)))"
proof (induction xs arbitrary: e0)
  case Nil
  show ?case by (simp add: ret_def split: prod.splits)
next
  case (Cons x xs)
  from pullImageJSON_shape [of env s i x tok] show ?case
  proof
    assume "\<exists>e. fst (pullImageJSON env s i x tok) = (None, Some e)"
    then obtain e where e: "fst (pullImageJSON env s i x tok) = (None, Some e)" ..
    have p: "pullImageJSON env s i x tok = ((None, Some e), [GetRemoteImageJSON_call s i x])"
      using e pullImageJSON_snd [of env s i x tok] by (metis prod.collapse)
    show ?thesis
      by (simp add: p Cons.IH after_def split: prod.splits)
  next
    assume "\<exists>img. fst (pullImageJSON env s i x tok) = (Some img, None)"
    then obtain img where e: "fst (pullImageJSON env s i x tok) = (Some img, None)" ..
    have p: "pullImageJSON env s i x tok = ((Some img, None), [GetRemoteImageJSON_call s i x])"
      using e pullImageJSON_snd [of env s i x tok] by (metis prod.collapse)
    show ?thesis
      by (simp add: p ret_def)
  qed
qed

lemma fetchWithSession_pull_one_loop:
  "fetchWithSession_pull env ri s rd img askedTag =
     (case pullImageJSON_loop env s (imgdata_ID img) (Tokens rd)
             (Mirrors (Index ri) @ Endpoints rd) (None, None) of
        ((pulledImg, err), t) \<Rightarrow>
          (case err of
             Some e \<Rightarrow>
               ((None, Some (errorString (''Error pulling image ('' @ imgdata_Tag img
                   @ '') from '' @ CanonicalName ri @ '', '' @ Error e))), t)
           | None \<Rightarrow>
               (case pulledImg of
                  None \<Rightarrow>
                    ((None, Some (errorString (''No such image '' @ CanonicalName ri
                        @ '':'' @ askedTag))), t)
                | Some i \<Rightarrow>
                    ((Some (makeRemoteImageInspect env ri i askedTag ''''), None), t))))"
  unfolding fetchWithSession_pull_def pullImageJSON_loop_append
  by (simp split: prod.splits option.splits)

lemma ImgList_filled:
  "(tag0, imgID) \<in> set tagsList \<Longrightarrow>
   \<exists>tag. (tag, imgID) \<in> set tagsList \<and>
     fold (\<lambda>(tag, imgID) m. m(imgID \<mapsto> \<lparr>imgdata_ID = imgID, imgdata_Tag = tag, Checksum = ''''\<rparr>))
       tagsList m0 imgID = Some \<lparr>imgdata_ID = imgID, imgdata_Tag = tag, Checksum = ''''\<rparr>"
proof (induction tagsList arbitrary: tag0 rule: rev_induct)
  case Nil
  then show ?case by simp
next
  case (snoc x xs)
  obtain t j where x: "x = (t, j)" by (cases x)
  show ?case
  proof (cases "j = imgID")
    case True
    then show ?thesis using x by auto
  next
    case False
    with snoc.prems x have "(tag0, imgID) \<in> set xs" by auto
    from snoc.IH [OF this] False x show ?thesis by auto
  qed
qed

lemma fetchWithSession_resolved:
  assumes "GetRepositoryData (v1 env) session (RemoteName ri) = Inr repoData"
    and "GetRemoteTags (v1 env) session (Endpoints repoData) (RemoteName ri) = Inr tagsList"
    and "map_of tagsList (fetchWithSession_tag tagsList askedTag) = Some imgID"
  shows "\<exists>tag rd. (tag, imgID) \<in> set tagsList \<and> Endpoints rd = Endpoints repoData
           \<and> Tokens rd = Tokens repoData \<and>
           fetchWithSession env ri session askedTag =
             traced (GetRepositoryData_call session (RemoteName ri))
               (traced (GetRemoteTags_call session (Endpoints repoData) (RemoteName ri))
                  (fetchWithSession_pull env ri session rd
                     \<lparr>imgdata_ID = imgID, imgdata_Tag = tag, Checksum = ''''\<rparr>
                     (fetchWithSession_tag tagsList askedTag)))"
proof -
  from assms(3) have ne: "tagsList \<noteq> []" by auto
  from assms(3) have "(fetchWithSession_tag tagsList askedTag, imgID) \<in> set tagsList"
    by (rule map_of_SomeD)
  from ImgList_filled [OF this, of "ImgList repoData"] obtain tag where
    t: "(tag, imgID) \<in> set tagsList" and
    f: "fold (\<lambda>(tag, imgID) m. m(imgID \<mapsto> \<lparr>imgdata_ID = imgID, imgdata_Tag = tag, Checksum = ''''\<rparr>))
          tagsList (ImgList repoData) imgID
        = Some \<lparr>imgdata_ID = imgID, imgdata_Tag = tag, Checksum = ''''\<rparr>"
    by blast
  show ?thesis
    apply (rule exI [of _ tag])
    apply (rule exI [of _ "repoData\<lparr>ImgList :=
             fold (\<lambda>(tag, imgID) m. m(imgID \<mapsto> \<lparr>imgdata_ID = imgID, imgdata_Tag = tag, Checksum = ''''\<rparr>))
               tagsList (ImgList repoData)\<rparr>"])
    using t f ne assms
    apply (simp add: fetchWithSession_def Let_def)
    done
qed

lemma tried_simps [simp]:
  "tried [] = []"
  "tried (c # t) = (case c of Trying e \<Rightarrow> [e] | _ \<Rightarrow> []) @ tried t"
  "tried (t @ u) = tried t @ tried u"
  by (simp_all add: tried_def)

lemma resolved_simps [simp]:
  "resolved [] = []"
  "resolved (c # t) = (case c of ResolveRepository_call r \<Rightarrow> [r] | _ \<Rightarrow> []) @ resolved t"
  "resolved (t @ u) = resolved t @ resolved u"
  by (simp_all add: resolved_def)

lemma inner_simps [simp]:
  "inner []"
  "inner (t @ u) = (inner t \<and> inner u)"
  "inner (c # t) = ((case c of Trying e \<Rightarrow> False | ResolveRepository_call r \<Rightarrow> False | _ \<Rightarrow> True) \<and> inner t)"
  by (auto simp: inner_def split: event.splits)

lemma inner_pullImageJSON [simp]: "inner (snd (pullImageJSON env s i a tok))"
  by (simp add: pullImageJSON_def)

lemma inner_pullImageJSON_loop [simp]: "inner (snd (pullImageJSON_loop env s i tok as vars))"
proof (induction as arbitrary: vars)
  case Nil
  show ?case by simp
next
  case (Cons a as)
  show ?case
    by (simp add: Cons split_def split: option.splits)
qed

lemma inner_fetchWithSession_pull [simp]:
  "inner (snd (fetchWithSession_pull env ri s rd img tag))"
proof -
  have a: "inner (snd (pullImageJSON_loop env s (imgdata_ID img) (Tokens rd) (Mirrors (Index ri)) (None, None)))"
    by simp
  have b: "inner (snd (pullImageJSON_loop env s (imgdata_ID img) (Tokens rd) (Endpoints rd) v))" for v
    by simp
  show ?thesis
    unfolding fetchWithSession_pull_def
    using a b
    by (simp add: split_def split: option.splits if_splits)
qed

lemma inner_fetchWithSession [simp]: "inner (snd (fetchWithSession env ri s tag))"
  by (simp add: fetchWithSession_def Let_def split: sum.splits option.splits)

lemma inner_v1_Fetch [simp]: "inner (snd (v1_Fetch env e ri ref))"
proof -
  show ?thesis
    by (simp add: v1_Fetch_def Let_def split_def split: sum.splits option.splits)
qed

lemma inner_fetchWithRepository_unverified [simp]:
  "inner (snd (fetchWithRepository_unverified env ri ms ref))"
  by (simp add: fetchWithRepository_unverified_def Let_def split_def
      split: sum.splits option.splits)

lemma inner_fetchWithRepository [simp]: "inner (snd (fetchWithRepository env ri repo ref))"
proof -
  show ?thesis
    by (simp add: fetchWithRepository_def split_def split: sum.splits)
qed

lemma inner_v2_Fetch [simp]: "inner (snd (v2_Fetch env e ri ref))"
proof -
  show ?thesis
    by (simp add: v2_Fetch_def split_def split: sum.splits)
qed

lemma inner_Fetch [simp]: "inner (snd (Fetch env f ref))"
  by (cases f) simp_all

lemma inner_listTagsWithSession [simp]: "inner (snd (listTagsWithSession env ri s))"
  by (simp add: listTagsWithSession_def split: sum.splits)

lemma inner_v1_ListTags [simp]: "inner (snd (v1_ListTags env e ri))"
proof -
  show ?thesis
    by (simp add: v1_ListTags_def split_def split: sum.splits option.splits)
qed

lemma inner_listTagsWithRepository [simp]: "inner (snd (listTagsWithRepository env repo))"
  by (simp add: listTagsWithRepository_def split: sum.splits)

lemma inner_v2_ListTags [simp]: "inner (snd (v2_ListTags env e ri))"
proof -
  show ?thesis
    by (simp add: v2_ListTags_def split_def split: sum.splits)
qed

lemma inner_ListTags [simp]: "inner (snd (ListTags env l))"
  by (cases l) simp_all

lemma inner_resolved: "inner t \<Longrightarrow> resolved t = []" by (simp add: inner_def)

lemma inner_tried: "inner t \<Longrightarrow> tried t = []" by (simp add: inner_def)

lemma resolved_fetchManifest_loop [simp]:
  "resolved (snd (fetchManifest_loop env ri ref es acc)) = []"
proof (induction es arbitrary: acc)
  case Nil
  show ?case by simp
next
  case (Cons e es)
  have "resolved (snd (Fetch env f ref)) = []" for f by (simp add: inner_resolved)
  then show ?case
    by (simp add: Cons split_def split: sum.splits option.splits)
qed

lemma resolved_fetchManifest [simp]: "resolved (snd (fetchManifest env ref)) = [ref]"
  by (simp add: fetchManifest_def split_def split: sum.splits option.splits loop_exit.splits)

lemma resolved_getRemoteTagList_loop [simp]:
  "resolved (snd (getRemoteTagList_loop env ri es acc)) = []"
proof (induction es arbitrary: acc)
  case Nil
  show ?case by simp
next
  case (Cons e es)
  have "resolved (snd (ListTags env l)) = []" for l by (simp add: inner_resolved)
  then show ?case
    by (simp add: Cons split_def split: sum.splits option.splits)
qed

lemma resolved_getRemoteTagList [simp]: "resolved (snd (getRemoteTagList env ref)) = [ref]"
  by (simp add: getRemoteTagList_def split_def split: sum.splits option.splits loop_exit.splits)

lemma tried_getRemoteTagList_loop:
  "\<exists>rest. tried (snd (getRemoteTagList_loop env ri es acc)) @ rest = es"
proof (induction es arbitrary: acc)
  case Nil
  show ?case by simp
next
  case (Cons e es)
  have "tried (snd (ListTags env l)) = []" for l by (simp add: inner_tried)
  then show ?case
    using Cons
    by (simp add: split_def split: sum.splits option.splits)
qed

lemma candidates_simps [simp]:
  "candidates env ref [] = []"
  "candidates env ref (r # rs) =
     (case FullyQualifyReferenceWith (reg env) r ref of Inl err \<Rightarrow> [] | Inr fqr \<Rightarrow> [fqr])
     @ candidates env ref rs"
  "candidates env ref (rs @ rs') = candidates env ref rs @ candidates env ref rs'"
  by (simp_all add: candidates_def)

lemma Inspect_loop_all_fail:
  "list_all (\<lambda>r. Inspect_attempt env ref r \<noteq> None) rs \<Longrightarrow>
   snd (fst (Inspect_loop env ref rs (img0, err0)))
     = (if rs = [] then err0 else Inspect_attempt env ref (last rs))
   \<and> resolved (snd (Inspect_loop env ref rs (img0, err0))) = candidates env ref rs"
proof (induction rs arbitrary: img0 err0)
  case Nil
  show ?case by simp
next
  case (Cons r rs)
  from Cons.prems have rest: "list_all (\<lambda>r. Inspect_attempt env ref r \<noteq> None) rs"
    and r: "Inspect_attempt env ref r \<noteq> None" by simp_all
  show ?case
  proof (cases "FullyQualifyReferenceWith (reg env) r ref")
    case (Inl err)
    then show ?thesis
      using Cons.IH [OF rest, of img0 "Some err"]
      by (simp add: Inspect_attempt_def)
  next
    case (Inr fqr)
    with r obtain e where e: "snd (fst (fetchManifest env fqr)) = Some e"
      by (auto simp: Inspect_attempt_def)
    then show ?thesis
      using Cons.IH [OF rest, of "fst (fst (fetchManifest env fqr))" "Some e"] Inr
      by (simp add: Inspect_attempt_def split_def)
  qed
qed

lemma Inspect_loop_first_success:
  "list_all (\<lambda>r. Inspect_attempt env ref r \<noteq> None) pre \<Longrightarrow>
   FullyQualifyReferenceWith (reg env) r ref = Inr fqr \<Longrightarrow>
   fst (fetchManifest env fqr) = (img, None) \<Longrightarrow>
   fst (Inspect_loop env ref (pre @ r # post) vars) = (img, None)
   \<and> resolved (snd (Inspect_loop env ref (pre @ r # post) vars)) = candidates env ref pre @ [fqr]"
proof (induction pre arbitrary: vars)
  case Nil
  then show ?case by (simp add: split_def)
next
  case (Cons p pre)
  from Cons.prems have rest: "list_all (\<lambda>r. Inspect_attempt env ref r \<noteq> None) pre"
    and p: "Inspect_attempt env ref p \<noteq> None" by simp_all
  note IH = Cons.IH [OF rest Cons.prems(2,3)]
  show ?case
  proof (cases "FullyQualifyReferenceWith (reg env) p ref")
    case (Inl err)
    then show ?thesis using IH by simp
  next
    case (Inr fqp)
    with p obtain e where e: "snd (fst (fetchManifest env fqp)) = Some e"
      by (auto simp: Inspect_attempt_def)
    then show ?thesis using IH Inr by (simp add: split_def)
  qed
qed

lemma Inspect_loop_bound:
  "\<exists>k\<le>length rs. resolved (snd (Inspect_loop env ref rs vars)) = candidates env ref (take k rs)"
proof (induction rs arbitrary: vars)
  case Nil
  show ?case by simp
next
  case (Cons r rs)
  show ?case
  proof (cases "FullyQualifyReferenceWith (reg env) r ref")
    case (Inl err)
    from Cons.IH [of "(fst vars, Some err)"] obtain k where
      "k \<le> length rs" "resolved (snd (Inspect_loop env ref rs (fst vars, Some err)))
         = candidates env ref (take k rs)" by blast
    then show ?thesis using Inl by (intro exI [of _ "Suc k"]) simp
  next
    case (Inr fqr)
    show ?thesis
    proof (cases "snd (fst (fetchManifest env fqr))")
      case None
      then show ?thesis using Inr by (intro exI [of _ "Suc 0"]) (simp add: split_def)
    next
      case (Some e)
      from Cons.IH [of "(fst (fst (fetchManifest env fqr)), Some e)"] obtain k where
        "k \<le> length rs"
        "resolved (snd (Inspect_loop env ref rs (fst (fst (fetchManifest env fqr)), Some e)))
           = candidates env ref (take k rs)" by blast
      then show ?thesis using Inr Some by (intro exI [of _ "Suc k"]) (simp add: split_def)
    qed
  qed
qed

lemma ListRemoteTags_loop_all_fail:
  "list_all (\<lambda>r. ListRemoteTags_attempt env ref r \<noteq> None) rs \<Longrightarrow>
   snd (fst (ListRemoteTags_loop env ref rs (tagList0, err0)))
     = (if rs = [] then err0 else ListRemoteTags_attempt env ref (last rs))
   \<and> resolved (snd (ListRemoteTags_loop env ref rs (tagList0, err0))) = candidates env ref rs"
proof (induction rs arbitrary: tagList0 err0)
  case Nil
  show ?case by simp
next
  case (Cons r rs)
  from Cons.prems have rest: "list_all (\<lambda>r. ListRemoteTags_attempt env ref r \<noteq> None) rs"
    and r: "ListRemoteTags_attempt env ref r \<noteq> None" by simp_all
  show ?case
  proof (cases "FullyQualifyReferenceWith (reg env) r ref")
    case (Inl err)
    then show ?thesis
      using Cons.IH [OF rest, of tagList0 "Some err"]
      by (simp add: ListRemoteTags_attempt_def)
  next
    case (Inr fqr)
    with r obtain e where e: "snd (fst (getRemoteTagList env fqr)) = Some e"
      by (auto simp: ListRemoteTags_attempt_def)
    then show ?thesis
      using Cons.IH [OF rest, of "fst (fst (getRemoteTagList env fqr))" "Some e"] Inr
      by (simp add: ListRemoteTags_attempt_def split_def)
  qed
qed

lemma ListRemoteTags_loop_first_success:
  "list_all (\<lambda>r. ListRemoteTags_attempt env ref r \<noteq> None) pre \<Longrightarrow>
   FullyQualifyReferenceWith (reg env) r ref = Inr fqr \<Longrightarrow>
   fst (getRemoteTagList env fqr) = (tags, None) \<Longrightarrow>
   fst (ListRemoteTags_loop env ref (pre @ r # post) vars) = (tags, None)
   \<and> resolved (snd (ListRemoteTags_loop env ref (pre @ r # post) vars))
       = candidates env ref pre @ [fqr]"
proof (induction pre arbitrary: vars)
  case Nil
  then show ?case by (simp add: split_def)
next
  case (Cons p pre)
  from Cons.prems have rest: "list_all (\<lambda>r. ListRemoteTags_attempt env ref r \<noteq> None) pre"
    and p: "ListRemoteTags_attempt env ref p \<noteq> None" by simp_all
  note IH = Cons.IH [OF rest Cons.prems(2,3)]
  show ?case
  proof (cases "FullyQualifyReferenceWith (reg env) p ref")
    case (Inl err)
    then show ?thesis using IH by simp
  next
    case (Inr fqp)
    with p obtain e where e: "snd (fst (getRemoteTagList env fqp)) = Some e"
      by (auto simp: ListRemoteTags_attempt_def)
    then show ?thesis using IH Inr by (simp add: split_def)
  qed
qed

lemma ListRemoteTags_loop_bound:
  "\<exists>k\<le>length rs.
     resolved (snd (ListRemoteTags_loop env ref rs vars)) = candidates env ref (take k rs)"
proof (induction rs arbitrary: vars)
  case Nil
  show ?case by simp
next
  case (Cons r rs)
  show ?case
  proof (cases "FullyQualifyReferenceWith (reg env) r ref")
    case (Inl err)
    from Cons.IH [of "(fst vars, Some err)"] obtain k where
      "k \<le> length rs" "resolved (snd (ListRemoteTags_loop env ref rs (fst vars, Some err)))
         = candidates env ref (take k rs)" by blast
    then show ?thesis using Inl by (intro exI [of _ "Suc k"]) simp
  next
    case (Inr fqr)
    show ?thesis
    proof (cases "snd (fst (getRemoteTagList env fqr))")
      case None
      then show ?thesis using Inr by (intro exI [of _ "Suc 0"]) (simp add: split_def)
    next
      case (Some e)
      from Cons.IH [of "(fst (fst (getRemoteTagList env fqr)), Some e)"] obtain k where
        "k \<le> length rs"
        "resolved (snd (ListRemoteTags_loop env ref rs (fst (fst (getRemoteTagList env fqr)), Some e)))
           = candidates env ref (take k rs)" by blast
      then show ?thesis using Inr Some by (intro exI [of _ "Suc k"]) (simp add: split_def)
    qed
  qed
qed

lemma length_candidates: "length (candidates env ref rs) \<le> length rs"
  by (induction rs) (auto split: sum.splits)

lemma set_insert_Less [simp]: "set (insert_Less lt x xs) = insert x (set xs)"
  by (induction xs) auto

lemma mset_insert_Less [simp]: "mset (insert_Less lt x xs) = add_mset x (mset xs)"
  by (induction xs) auto

lemma sorted_insert_Less:
  fixes key :: "'a \<Rightarrow> 'b::linorder"
  assumes "\<And>a b. lt a b \<longleftrightarrow> key a < key b"
  shows "sorted (map key xs) \<Longrightarrow> sorted (map key (insert_Less lt x xs))"
  using assms by (induction xs) auto

lemma fold_insert_Less:
  fixes key :: "'a \<Rightarrow> 'b::linorder"
  assumes "\<And>a b. lt a b \<longleftrightarrow> key a < key b"
  shows "sorted (map key acc) \<Longrightarrow> sorted (map key (fold (insert_Less lt) xs acc))"
    and "mset (fold (insert_Less lt) xs acc) = mset xs + mset acc"
proof -
  show "sorted (map key acc) \<Longrightarrow> sorted (map key (fold (insert_Less lt) xs acc))"
    by (induction xs arbitrary: acc) (simp_all add: sorted_insert_Less [of lt key, OF assms])
  show "mset (fold (insert_Less lt) xs acc) = mset xs + mset acc"
    by (induction xs arbitrary: acc) simp_all
qed

lemma sorted_sort_Sort:
  fixes key :: "'a \<Rightarrow> 'b::linorder"
  assumes "\<And>a b. lt a b \<longleftrightarrow> key a < key b"
  shows "sorted (map key (sort_Sort lt xs))"
  unfolding sort_Sort_def by (rule fold_insert_Less(1) [of lt key, OF assms]) simp

lemma mset_sort_Sort [simp]: "mset (sort_Sort lt xs) = mset xs"
proof -
  have "mset (fold (insert_Less lt) xs acc) = mset xs + mset acc" for acc
    by (induction xs arbitrary: acc) simp_all
  then show ?thesis by (simp add: sort_Sort_def)
qed

lemma sorted_byTagName: "sorted (map Tag (sort_Sort byTagName_Less tagList))"
  by (rule sorted_sort_Sort) (simp add: byTagName_Less_def)

lemma byAPIVersion_Less_key: "byAPIVersion_Less a b \<longleftrightarrow> byAPIVersion_key a < byAPIVersion_key b"
  unfolding byAPIVersion_Less_def byAPIVersion_key_def by (simp split: if_splits)

lemma sorted_byAPIVersion:
  "sorted_wrt (\<lambda>a b. \<not> byAPIVersion_Less b a) (sort_Sort byAPIVersion_Less es)"
proof -
  have "sorted (map byAPIVersion_key (sort_Sort byAPIVersion_Less es))"
    by (rule sorted_sort_Sort) (rule byAPIVersion_Less_key)
  then show ?thesis
    by (simp add: sorted_map byAPIVersion_Less_key not_less)
qed

lemma tried_getRemoteTagList:
  "sorted_wrt (\<lambda>a b. \<not> byAPIVersion_Less b a) (tried (snd (getRemoteTagList env ref)))"
proof -
  have "sorted_wrt (\<lambda>a b. \<not> byAPIVersion_Less b a)
          (tried (snd (getRemoteTagList_loop env ri (sort_Sort byAPIVersion_Less es) acc)))"
    for ri es acc
  proof -
    obtain rest where
      "tried (snd (getRemoteTagList_loop env ri (sort_Sort byAPIVersion_Less es) acc)) @ rest
         = sort_Sort byAPIVersion_Less es"
      using tried_getRemoteTagList_loop by blast
    with sorted_byAPIVersion [of es] show ?thesis
      by (metis sorted_wrt_append)
  qed
  then show ?thesis
    by (simp add: getRemoteTagList_def split_def split: sum.splits option.splits loop_exit.splits)
qed

lemma getRemoteTagList_loop_sorted:
  "fst (getRemoteTagList_loop env ri es acc) = Returned (Some tags, e) \<Longrightarrow>
   sorted (map Tag (TagList tags))"
proof (induction es arbitrary: acc)
  case Nil
  then show ?case by simp
next
  case (Cons x es)
  then show ?case
    by (auto simp: split_def sorted_byTagName split: sum.splits option.splits if_splits)
qed

lemma getRemoteTagList_sorted:
  "fst (fst (getRemoteTagList env ref)) = Some tags \<Longrightarrow> sorted (map Tag (TagList tags))"
  by (auto simp: getRemoteTagList_def split_def dest: getRemoteTagList_loop_sorted
      split: sum.splits option.splits loop_exit.splits)

lemma ListRemoteTags_loop_sorted:
  "fst (fst (ListRemoteTags_loop env ref rs vars)) = Some tags \<Longrightarrow>
   (\<forall>tagList0. fst vars = Some tagList0 \<longrightarrow> sorted (map Tag (TagList tagList0))) \<Longrightarrow>
   sorted (map Tag (TagList tags))"
proof (induction rs arbitrary: vars)
  case Nil
  then show ?case by simp
next
  case (Cons r rs)
  show ?case
  proof (cases "FullyQualifyReferenceWith (reg env) r ref")
    case (Inl err)
    with Cons.prems Cons.IH [of "(fst vars, Some err)"] show ?thesis by simp
  next
    case (Inr fqr)
    show ?thesis
    proof (cases "snd (fst (getRemoteTagList env fqr))")
      case None
      with Cons.prems(1) Inr have "fst (fst (getRemoteTagList env fqr)) = Some tags"
        by (simp add: split_def)
      then show ?thesis by (rule getRemoteTagList_sorted)
    next
      case (Some e)
      with Cons.prems(1) Inr have
        "fst (fst (ListRemoteTags_loop env ref rs (fst (fst (getRemoteTagList env fqr)), Some e)))
           = Some tags"
        by (simp add: split_def)
      then show ?thesis
        by (rule Cons.IH) (simp add: getRemoteTagList_sorted)
    qed
  qed
qed

lemma ListRemoteTags_sorted:
  "fst (fst (ListRemoteTags env ref)) = Some tags \<Longrightarrow> sorted (map Tag (TagList tags))"
  by (auto simp: ListRemoteTags_def getRemoteTagList_sorted
      dest: ListRemoteTags_loop_sorted split: if_splits option.splits)

lemma getRemoteTagList_accumulator:
  assumes pre: "fst (getRemoteTagList_loop env repoInfo pre
                   \<lparr>lastErr = None, discardNoSupportErrors = False\<rparr>) = Exhausted acc"
    and e: "getRemoteTagList_fallbackErr env repoInfo endpoint = Some err"
  shows "\<exists>acc'. fst (getRemoteTagList_loop env repoInfo (pre @ [endpoint])
                   \<lparr>lastErr = None, discardNoSupportErrors = False\<rparr>) = Exhausted acc'
          \<and> (\<forall>rest. fst (getRemoteTagList_loop env repoInfo (pre @ endpoint # rest)
                   \<lparr>lastErr = None, discardNoSupportErrors = False\<rparr>)
                 = fst (getRemoteTagList_loop env repoInfo rest acc'))
          \<and> discardNoSupportErrors acc
              = list_ex (\<lambda>e. realErr (getRemoteTagList_fallbackErr env repoInfo e)) pre
          \<and> (discardNoSupportErrors acc \<longrightarrow> realErr (lastErr acc))
          \<and> (if isErrNoSupport err
              then (if discardNoSupportErrors acc then acc' = acc \<and> lastErr acc' \<noteq> Some err
                    else acc' = acc\<lparr>lastErr := Some err\<rparr>)
              else acc' = acc\<lparr>discardNoSupportErrors := True, lastErr := Some err\<rparr>)"
proof -
  let ?init = "\<lparr>lastErr = None, discardNoSupportErrors = False\<rparr>"
  note inv = getRemoteTagList_loop_invariant [OF pre acc_ok_initial]
  have step: "fst (getRemoteTagList_loop env repoInfo [endpoint] acc) = Exhausted (remember acc err)"
    by (rule getRemoteTagList_loop_single [OF e])
  have 1: "fst (getRemoteTagList_loop env repoInfo (pre @ [endpoint]) ?init)
             = Exhausted (remember acc err)"
    by (simp only: getRemoteTagList_loop_fst_append pre step loop_exit.case)
  have 2: "fst (getRemoteTagList_loop env repoInfo (pre @ endpoint # rest) ?init)
             = fst (getRemoteTagList_loop env repoInfo rest (remember acc err))" for rest
    apply (subst getRemoteTagList_loop_fst_append)
    apply (simp only: pre loop_exit.case)
    apply (subst getRemoteTagList_loop_fst_Cons)
    apply (simp only: step loop_exit.case)
    done
  have 3: "if isErrNoSupport err
           then (if discardNoSupportErrors acc
                 then remember acc err = acc \<and> lastErr (remember acc err) \<noteq> Some err
                 else remember acc err = acc\<lparr>lastErr := Some err\<rparr>)
           else remember acc err = acc\<lparr>discardNoSupportErrors := True, lastErr := Some err\<rparr>"
    using inv by (auto simp: remember_def acc_ok_def realErr_def split: option.splits)
  from 1 2 3 inv show ?thesis by (auto simp: acc_ok_def)
qed

subsection \<open>The example environment, field by field\<close>

lemma example_reg_simps:
  "RegistryList (reg example) = [''bad registry'', ''a.example'', ''b.example'']"
  "IsReferenceFullyQualified (reg example) ref = (CHR ''.'' \<in> set (ref_Name ref))"
  "FullyQualifyReferenceWith (reg example) r ref =
     (if CHR '' '' \<in> set r then Inl (errorString (''invalid registry name '' @ r))
      else Inr (ref\<lparr>ref_Name := r @ ''/'' @ ref_Name ref\<rparr>))"
  "ValidateRepositoryName (reg example) ref = None"
  "validateRepoName (reg example) name =
     (if name = '''' then Some (errorString ''Repository name can not be empty'') else None)"
  "ContinueOnError (reg example) err = True"
  "ResolveRepository (reg example) ref =
     (if ref_Name ref = ''a.example/library/x'' then Inr (example_repoInfo ''a.example'' ''library/x'')
      else if ref_Name ref = ''b.example/library/x'' then Inr (example_repoInfo ''b.example'' ''library/x'')
      else if ref_Name ref = ''c.example/library/x'' then Inr (example_repoInfo ''c.example'' ''library/x'')
      else Inl (errorString (''unknown repository '' @ ref_Name ref)))"
  "LookupPullEndpoints (reg example) name =
     (if name = ''b.example/library/x'' then Inr [example_v2, example_v1s, example_v1]
      else if name = ''c.example/library/x'' then Inr [example_v1s]
      else Inr [])"
  "TLSConfig (reg example) name = None"
  by (simp_all add: example_def example_reg_def)

lemma example_session_simps:
  "ToV1Endpoint (v1 example) endpoint =
     (if URL endpoint = ''https://b.example/v1''
      then Inl (ErrNoSupport (errorString ''v1 over https is switched off''))
      else Inr (URL endpoint))"
  "NewSession (v1 example) v1Endpoint = Inr v1Endpoint"
  "GetRepositoryData (v1 example) session remote =
     Inr \<lparr>ImgList = Map.empty, Endpoints = [''http://e1.example'', ''http://e2.example''],
          Tokens = []\<rparr>"
  "GetRemoteTags (v1 example) session addresses remote =
     (if remote = ''library/x''
      then Inr [(''1.0'', ''id1''), (''latest'', ''id2''), (''2.0'', ''id3'')]
      else if remote = ''library/y'' then Inr [(''1.0'', ''id1''), (''2.0'', ''id3'')]
      else Inr [])"
  "GetRemoteImageJSON (v1 example) session imgID address =
     (if address = ''http://e2.example'' \<and> imgID \<noteq> ''id3'' then Inr imgID
      else Inl (errorString (''HTTP code: 500 at '' @ address)))"
  by (simp_all add: example_def example_session_def)

lemma example_repository_simps:
  "NewV2Repository (v2 example) repoInfo endpoint =
     (if URL endpoint = ''https://b.example/v2'' then Inl (errorString ''connection refused'')
      else Inr (URL endpoint))"
  "Manifests (v2 example) repo = Inr repo"
  "Exists (v2 example) manSvc dgst = (True, None)"
  "Get (v2 example) manSvc dgst = (Some example_manifest, None)"
  "ExistsByTag (v2 example) manSvc tag = (True, None)"
  "Tags (v2 example) manSvc =
     (if manSvc = ''r1'' then Inr [''1.0'', ''latest'', ''2.0'']
      else if manSvc = ''r2'' then Inr [''1.0'', ''2.0'']
      else if manSvc = ''r3'' then Inr ['''', ''1.0'']
      else Inr [])"
  "GetByTag (v2 example) manSvc tag = (Some example_manifest, None)"
  by (simp_all add: example_def example_repository_def)

lemma example_lib_simps:
  "HistoryFromConfig (lib example) config throwAway = Inr config"
  "MakeRawConfigFromV1Config (lib example) config history = Inr config"
  "Marshal (lib example) configRaw = Inr configRaw"
  "Unmarshal_throwAway (lib example) config = Inr False"
  "NewFromJSON (lib example) config = Inr (example_image config)"
  "verifyManifest (lib example) m ref = Inr m"
  "fixManifestLayers (lib example) m = Inr m"
  "digestFromManifest (lib example) m name = Inr ''sha256:0''"
  "WithTag (lib example) name tag = Inr (name @ '':'' @ tag)"
  "Validate (lib example) dgst =
     (if dgst = '''' then Some (errorString ''invalid digest'') else None)"
  "Quote (lib example) s = [CHR 0x22] @ s @ [CHR 0x22]"
  by (simp_all add: example_def example_lib_def)

lemmas example_simps =
  example_reg_simps example_session_simps example_repository_simps example_lib_simps
  example_repoInfo_def example_ref_def example_v1_def example_v1s_def example_v2_def
  traced_def ret_def after_def APIVersion1_def APIVersion2_def

section \<open>The claims\<close>

text \<open>
  C1. In the endpoint loops of \<open>fetchManifest\<close> and \<open>getRemoteTagList\<close>, let the loop
  have run over the endpoints \<open>pre\<close> without leaving the function, with accumulator
  \<open>acc\<close>, and let the next endpoint yield the fallback error \<open>err\<close>. Then the loop goes
  on with an accumulator \<open>acc'\<close> such that: the flag of \<open>acc\<close> is set exactly when
  some endpoint of \<open>pre\<close> yielded a fallback error other than \<open>ErrNoSupport\<close>, and
  then \<open>lastErr\<close> holds such an error; an \<open>ErrNoSupport\<close> error is stored in
  \<open>lastErr\<close> when the flag is not set and changes nothing when it is set; any other
  fallback error is stored and sets the flag.
\<close>

theorem C1_accumulator_invariant:
  "(fst (fetchManifest_loop env repoInfo ref pre
           \<lparr>lastErr = None, discardNoSupportErrors = False\<rparr>) = Exhausted acc
    \<and> fetchManifest_fallbackErr env repoInfo ref endpoint = Some err
    \<longrightarrow> (\<exists>acc'. fst (fetchManifest_loop env repoInfo ref (pre @ [endpoint])
                   \<lparr>lastErr = None, discardNoSupportErrors = False\<rparr>) = Exhausted acc'
          \<and> (\<forall>rest. fst (fetchManifest_loop env repoInfo ref (pre @ endpoint # rest)
                   \<lparr>lastErr = None, discardNoSupportErrors = False\<rparr>)
                 = fst (fetchManifest_loop env repoInfo ref rest acc'))
          \<and> discardNoSupportErrors acc
              = list_ex (\<lambda>e. realErr (fetchManifest_fallbackErr env repoInfo ref e)) pre
          \<and> (discardNoSupportErrors acc \<longrightarrow> realErr (lastErr acc))
          \<and> (if isErrNoSupport err
              then (if discardNoSupportErrors acc then acc' = acc \<and> lastErr acc' \<noteq> Some err
                    else acc' = acc\<lparr>lastErr := Some err\<rparr>)
              else acc' = acc\<lparr>discardNoSupportErrors := True, lastErr := Some err\<rparr>)))
   \<and> (fst (getRemoteTagList_loop env repoInfo pre
           \<lparr>lastErr = None, discardNoSupportErrors = False\<rparr>) = Exhausted acc
    \<and> getRemoteTagList_fallbackErr env repoInfo endpoint = Some err
    \<longrightarrow> (\<exists>acc'. fst (getRemoteTagList_loop env repoInfo (pre @ [endpoint])
                   \<lparr>lastErr = None, discardNoSupportErrors = False\<rparr>) = Exhausted acc'
          \<and> (\<forall>rest. fst (getRemoteTagList_loop env repoInfo (pre @ endpoint # rest)
                   \<lparr>lastErr = None, discardNoSupportErrors = False\<rparr>)
                 = fst (getRemoteTagList_loop env repoInfo rest acc'))
          \<and> discardNoSupportErrors acc
              = list_ex (\<lambda>e. realErr (getRemoteTagList_fallbackErr env repoInfo e)) pre
          \<and> (discardNoSupportErrors acc \<longrightarrow> realErr (lastErr acc))
          \<and> (if isErrNoSupport err
              then (if discardNoSupportErrors acc then acc' = acc \<and> lastErr acc' \<noteq> Some err
                    else acc' = acc\<lparr>lastErr := Some err\<rparr>)
              else acc' = acc\<lparr>discardNoSupportErrors := True, lastErr := Some err\<rparr>)))"
  using fetchManifest_accumulator [of env repoInfo ref pre acc endpoint err]
    getRemoteTagList_accumulator [of env repoInfo pre acc endpoint err]
  by blast

theorem C1_accumulator_invariant_witness:
  "fst (fetchManifest_loop example (example_repoInfo ''b.example'' ''library/x'')
          (example_ref ''b.example/library/x'') [example_v2]
          \<lparr>lastErr = None, discardNoSupportErrors = False\<rparr>)
     = Exhausted \<lparr>lastErr = Some (errorString ''connection refused''),
                   discardNoSupportErrors = True\<rparr>
   \<and> fetchManifest_fallbackErr example (example_repoInfo ''b.example'' ''library/x'')
          (example_ref ''b.example/library/x'') example_v1s
     = Some (ErrNoSupport (errorString ''v1 over https is switched off''))
   \<and> fst (fetchManifest_loop example (example_repoInfo ''b.example'' ''library/x'')
          (example_ref ''b.example/library/x'') ([example_v2] @ [example_v1s])
          \<lparr>lastErr = None, discardNoSupportErrors = False\<rparr>)
     = Exhausted \<lparr>lastErr = Some (errorString ''connection refused''),
                   discardNoSupportErrors = True\<rparr>
   \<and> fst (getRemoteTagList_loop example (example_repoInfo ''b.example'' ''library/x'')
          [example_v1s] \<lparr>lastErr = None, discardNoSupportErrors = False\<rparr>)
     = Exhausted \<lparr>lastErr = Some (ErrNoSupport (errorString ''v1 over https is switched off'')),
                   discardNoSupportErrors = False\<rparr>
   \<and> getRemoteTagList_fallbackErr example (example_repoInfo ''b.example'' ''library/x'')
          example_v2
     = Some (errorString ''connection refused'')
   \<and> fst (getRemoteTagList_loop example (example_repoInfo ''b.example'' ''library/x'')
          ([example_v1s] @ [example_v2]) \<lparr>lastErr = None, discardNoSupportErrors = False\<rparr>)
     = Exhausted \<lparr>lastErr = Some (errorString ''connection refused''),
                   discardNoSupportErrors = True\<rparr>"
proof -
  let ?ri = "example_repoInfo ''b.example'' ''library/x''"
  let ?ref = "example_ref ''b.example/library/x''"
  let ?init = "\<lparr>lastErr = None, discardNoSupportErrors = False\<rparr>"
  let ?refused = "errorString ''connection refused''"
  let ?off = "ErrNoSupport (errorString ''v1 over https is switched off'')"
  have f1: "fst (fetchManifest_loop example ?ri ?ref [example_v2] ?init)
              = Exhausted \<lparr>lastErr = Some ?refused, discardNoSupportErrors = True\<rparr>"
    by (simp add: example_simps newManifestFetcher_def v2_Fetch_def)
  have f2: "fetchManifest_fallbackErr example ?ri ?ref example_v1s = Some ?off"
    by (simp add: example_simps fetchManifest_fallbackErr_def newManifestFetcher_def v1_Fetch_def)
  have t1: "fst (getRemoteTagList_loop example ?ri [example_v1s] ?init)
              = Exhausted \<lparr>lastErr = Some ?off, discardNoSupportErrors = False\<rparr>"
    by (simp add: example_simps newTagLister_def v1_ListTags_def)
  have t2: "getRemoteTagList_fallbackErr example ?ri example_v2 = Some ?refused"
    by (simp add: example_simps getRemoteTagList_fallbackErr_def newTagLister_def v2_ListTags_def)
  have f3: "fst (fetchManifest_loop example ?ri ?ref ([example_v2] @ [example_v1s]) ?init)
              = Exhausted \<lparr>lastErr = Some ?refused, discardNoSupportErrors = True\<rparr>"
    using C1_accumulator_invariant
      [of example ?ri ?ref "[example_v2]"
          "\<lparr>lastErr = Some ?refused, discardNoSupportErrors = True\<rparr>" example_v1s ?off,
       THEN conjunct1, rule_format, OF conjI [OF f1 f2]]
    by auto
  have t3: "fst (getRemoteTagList_loop example ?ri ([example_v1s] @ [example_v2]) ?init)
              = Exhausted \<lparr>lastErr = Some ?refused, discardNoSupportErrors = True\<rparr>"
    using C1_accumulator_invariant
      [of example ?ri ?ref "[example_v1s]"
          "\<lparr>lastErr = Some ?off, discardNoSupportErrors = False\<rparr>" example_v2 ?refused,
       THEN conjunct2, rule_format, OF conjI [OF t1 t2]]
    by auto
  from f1 f2 f3 t1 t2 t3 show ?thesis by (intro conjI)
qed

text \<open>
  C3. For a reference with a digest, \<open>Fetch\<close> of the v1 fetcher returns no record,
  the fallback flag set and the error \<open>ErrNoSupport\<close>, and it causes no event: it
  makes no call to the registry service, the session layer or an endpoint.
\<close>

theorem C3_v1_Fetch_digest:
  "ref_Digest ref \<noteq> None \<Longrightarrow>
   v1_Fetch env endpoint repoInfo ref =
     ((None, True, Some (ErrNoSupport (errorString ''Cannot pull by digest with v1 registry''))),
      [])
   \<and> Fetch env (v1ManifestFetcher endpoint repoInfo) ref = v1_Fetch env endpoint repoInfo ref
   \<and> isErrNoSupport (ErrNoSupport (errorString ''Cannot pull by digest with v1 registry''))"
  by (simp add: v1_Fetch_def ret_def)

theorem C3_v1_Fetch_digest_witness:
  "ref_Digest \<lparr>ref_Name = ''b.example/library/x'', ref_Tag = None,
               ref_Digest = Some ''sha256:0''\<rparr> \<noteq> None
   \<and> v1_Fetch example example_v1 (example_repoInfo ''b.example'' ''library/x'')
        \<lparr>ref_Name = ''b.example/library/x'', ref_Tag = None, ref_Digest = Some ''sha256:0''\<rparr>
      = ((None, True,
          Some (ErrNoSupport (errorString ''Cannot pull by digest with v1 registry''))), [])"
  using C3_v1_Fetch_digest
    [of "\<lparr>ref_Name = ''b.example/library/x'', ref_Tag = None, ref_Digest = Some ''sha256:0''\<rparr>"
        example example_v1 "example_repoInfo ''b.example'' ''library/x''"]
  by simp

lemma tried_fetchManifest_loop_Cons:
  "tried (snd (fetchManifest_loop env ri ref (e # es) acc)) =
     e # (case fst (fetchManifest_loop env ri ref [e] acc) of
            Exhausted acc' \<Rightarrow> tried (snd (fetchManifest_loop env ri ref es acc'))
          | Returned r \<Rightarrow> [])"
proof -
  have "tried (snd (Fetch env f ref)) = []" for f by (simp add: inner_tried)
  then show ?thesis
    by (simp add: split_def split: sum.splits option.splits)
qed

lemma tried_getRemoteTagList_loop_Cons:
  "tried (snd (getRemoteTagList_loop env ri (e # es) acc)) =
     e # (case fst (getRemoteTagList_loop env ri [e] acc) of
            Exhausted acc' \<Rightarrow> tried (snd (getRemoteTagList_loop env ri es acc'))
          | Returned r \<Rightarrow> [])"
proof -
  have "tried (snd (ListTags env l)) = []" for l by (simp add: inner_tried)
  then show ?thesis
    by (simp add: split_def split: sum.splits option.splits)
qed

lemma fst_fetchManifest:
  "ResolveRepository (reg env) ref = Inr repoInfo \<Longrightarrow>
   validateRepoName (reg env) (LocalName repoInfo) = None \<Longrightarrow>
   LookupPullEndpoints (reg env) (CanonicalName repoInfo) = Inr endpoints \<Longrightarrow>
   fst (fetchManifest env ref) =
     (case fst (fetchManifest_loop env repoInfo ref endpoints
                  \<lparr>lastErr = None, discardNoSupportErrors = False\<rparr>) of
        Returned r \<Rightarrow> r
      | Exhausted acc \<Rightarrow>
          (None, Some (case lastErr acc of
                         None \<Rightarrow> errorString (''no endpoints found for ''
                                   @ index_Name (Index repoInfo))
                       | Some e \<Rightarrow> e)))"
  by (simp add: fetchManifest_def split_def split: loop_exit.splits)

lemma fst_getRemoteTagList:
  "ResolveRepository (reg env) ref = Inr repoInfo \<Longrightarrow>
   validateRepoName (reg env) (LocalName repoInfo) = None \<Longrightarrow>
   LookupPullEndpoints (reg env) (CanonicalName repoInfo) = Inr endpoints \<Longrightarrow>
   fst (getRemoteTagList env ref) =
     (case fst (getRemoteTagList_loop env repoInfo (sort_Sort byAPIVersion_Less endpoints)
                  \<lparr>lastErr = None, discardNoSupportErrors = False\<rparr>) of
        Returned r \<Rightarrow> r
      | Exhausted acc \<Rightarrow>
          (None, Some (case lastErr acc of
                         None \<Rightarrow> errorString (''no endpoints found for ''
                                   @ index_Name (Index repoInfo))
                       | Some e \<Rightarrow> e)))"
  by (simp add: getRemoteTagList_def split_def split: loop_exit.splits)

lemma sort_Sort_Nil_iff [simp]: "sort_Sort lt xs = [] \<longleftrightarrow> xs = []"
  by (metis mset_sort_Sort mset_zero_iff)

lemma sort_Sort_single [simp]: "sort_Sort lt [x] = [x]"
  by (simp add: sort_Sort_def)

lemma sort_Sort_Nil [simp]: "sort_Sort lt [] = []"
  by (simp add: sort_Sort_def)

lemma remember_initial:
  "remember \<lparr>lastErr = None, discardNoSupportErrors = False\<rparr> err
     = \<lparr>lastErr = Some err, discardNoSupportErrors = \<not> isErrNoSupport err\<rparr>"
  by (simp add: remember_def)

lemma fetchManifest_exhausted:
  assumes "ResolveRepository (reg env) ref = Inr repoInfo"
    and "validateRepoName (reg env) (LocalName repoInfo) = None"
    and "LookupPullEndpoints (reg env) (CanonicalName repoInfo) = Inr endpoints"
    and "fst (fetchManifest_loop env repoInfo ref endpoints
               \<lparr>lastErr = None, discardNoSupportErrors = False\<rparr>) = Exhausted acc"
  shows "fst (fetchManifest env ref) =
           (None, Some (case lastErr acc of
                          None \<Rightarrow> errorString (''no endpoints found for ''
                                    @ index_Name (Index repoInfo))
                        | Some e \<Rightarrow> e))"
    and "lastErr acc = None \<longleftrightarrow> endpoints = []"
proof -
  show "fst (fetchManifest env ref) =
           (None, Some (case lastErr acc of
                          None \<Rightarrow> errorString (''no endpoints found for ''
                                    @ index_Name (Index repoInfo))
                        | Some e \<Rightarrow> e))"
    by (simp add: fst_fetchManifest [OF assms(1-3)] assms(4))
  from fetchManifest_loop_invariant [OF assms(4) acc_ok_initial]
  have "endpoints \<noteq> [] \<Longrightarrow> lastErr acc \<noteq> None" by simp
  moreover have "endpoints = [] \<Longrightarrow> lastErr acc = None" using assms(4) by auto
  ultimately show "lastErr acc = None \<longleftrightarrow> endpoints = []" by blast
qed

lemma fetchManifest_single:
  assumes "ResolveRepository (reg env) ref = Inr repoInfo"
    and "validateRepoName (reg env) (LocalName repoInfo) = None"
    and "LookupPullEndpoints (reg env) (CanonicalName repoInfo) = Inr [endpoint]"
    and "fetchManifest_fallbackErr env repoInfo ref endpoint = Some err"
  shows "fst (fetchManifest env ref) = (None, Some err)"
  by (simp only: fst_fetchManifest [OF assms(1-3)] fetchManifest_loop_single [OF assms(4)]
      remember_initial loop_exit.case accumulator.simps option.case)

lemma getRemoteTagList_exhausted:
  assumes "ResolveRepository (reg env) ref = Inr repoInfo"
    and "validateRepoName (reg env) (LocalName repoInfo) = None"
    and "LookupPullEndpoints (reg env) (CanonicalName repoInfo) = Inr endpoints"
    and "fst (getRemoteTagList_loop env repoInfo (sort_Sort byAPIVersion_Less endpoints)
               \<lparr>lastErr = None, discardNoSupportErrors = False\<rparr>) = Exhausted acc"
  shows "fst (getRemoteTagList env ref) =
           (None, Some (case lastErr acc of
                          None \<Rightarrow> errorString (''no endpoints found for ''
                                    @ index_Name (Index repoInfo))
                        | Some e \<Rightarrow> e))"
    and "lastErr acc = None \<longleftrightarrow> endpoints = []"
proof -
  show "fst (getRemoteTagList env ref) =
           (None, Some (case lastErr acc of
                          None \<Rightarrow> errorString (''no endpoints found for ''
                                    @ index_Name (Index repoInfo))
                        | Some e \<Rightarrow> e))"
    by (simp add: fst_getRemoteTagList [OF assms(1-3)] assms(4))
  from getRemoteTagList_loop_invariant [OF assms(4) acc_ok_initial]
  have "endpoints \<noteq> [] \<Longrightarrow> lastErr acc \<noteq> None" by simp
  moreover have "endpoints = [] \<Longrightarrow> lastErr acc = None" using assms(4) by auto
  ultimately show "lastErr acc = None \<longleftrightarrow> endpoints = []" by blast
qed

lemma getRemoteTagList_single:
  assumes "ResolveRepository (reg env) ref = Inr repoInfo"
    and "validateRepoName (reg env) (LocalName repoInfo) = None"
    and "LookupPullEndpoints (reg env) (CanonicalName repoInfo) = Inr [endpoint]"
    and "getRemoteTagList_fallbackErr env repoInfo endpoint = Some err"
  shows "fst (getRemoteTagList env ref) = (None, Some err)"
  by (simp only: fst_getRemoteTagList [OF assms(1-3)] sort_Sort_single
      getRemoteTagList_loop_single [OF assms(4)]
      remember_initial loop_exit.case accumulator.simps option.case)

text \<open>
  C4. When repository and endpoints are resolved and the endpoint loop runs to the end
  of the list, \<open>fetchManifest\<close> and \<open>getRemoteTagList\<close> return no result and the
  error held by \<open>lastErr\<close>, or the error \<^verbatim>\<open>no endpoints found for ...\<close> when \<open>lastErr\<close>
  holds none, which is the case exactly when the list of endpoints is empty. With one
  endpoint that yields a fallback error, an \<open>ErrNoSupport\<close> among others, that error
  is returned.
\<close>

theorem C4_exhausted_endpoints:
  "(ResolveRepository (reg env) ref = Inr repoInfo
    \<and> validateRepoName (reg env) (LocalName repoInfo) = None
    \<and> LookupPullEndpoints (reg env) (CanonicalName repoInfo) = Inr endpoints
    \<and> fst (fetchManifest_loop env repoInfo ref endpoints
             \<lparr>lastErr = None, discardNoSupportErrors = False\<rparr>) = Exhausted acc
    \<longrightarrow> fst (fetchManifest env ref) =
           (None, Some (case lastErr acc of
                          None \<Rightarrow> errorString (''no endpoints found for ''
                                    @ index_Name (Index repoInfo))
                        | Some e \<Rightarrow> e))
        \<and> (lastErr acc = None) = (endpoints = []))
   \<and> (ResolveRepository (reg env) ref = Inr repoInfo
    \<and> validateRepoName (reg env) (LocalName repoInfo) = None
    \<and> LookupPullEndpoints (reg env) (CanonicalName repoInfo) = Inr [endpoint]
    \<and> fetchManifest_fallbackErr env repoInfo ref endpoint = Some err
    \<longrightarrow> fst (fetchManifest env ref) = (None, Some err))
   \<and> (ResolveRepository (reg env) ref = Inr repoInfo
    \<and> validateRepoName (reg env) (LocalName repoInfo) = None
    \<and> LookupPullEndpoints (reg env) (CanonicalName repoInfo) = Inr endpoints
    \<and> fst (getRemoteTagList_loop env repoInfo (sort_Sort byAPIVersion_Less endpoints)
             \<lparr>lastErr = None, discardNoSupportErrors = False\<rparr>) = Exhausted acc
    \<longrightarrow> fst (getRemoteTagList env ref) =
           (None, Some (case lastErr acc of
                          None \<Rightarrow> errorString (''no endpoints found for ''
                                    @ index_Name (Index repoInfo))
                        | Some e \<Rightarrow> e))
        \<and> (lastErr acc = None) = (endpoints = []))
   \<and> (ResolveRepository (reg env) ref = Inr repoInfo
    \<and> validateRepoName (reg env) (LocalName repoInfo) = None
    \<and> LookupPullEndpoints (reg env) (CanonicalName repoInfo) = Inr [endpoint]
    \<and> getRemoteTagList_fallbackErr env repoInfo endpoint = Some err
    \<longrightarrow> fst (getRemoteTagList env ref) = (None, Some err))"
  using fetchManifest_exhausted [of env ref repoInfo endpoints acc]
    fetchManifest_single [of env ref repoInfo endpoint err]
    getRemoteTagList_exhausted [of env ref repoInfo endpoints acc]
    getRemoteTagList_single [of env ref repoInfo endpoint err]
  by blast

theorem C4_exhausted_endpoints_witness:
  "fst (fetchManifest example (example_ref ''a.example/library/x''))
     = (None, Some (errorString ''no endpoints found for a.example''))
   \<and> fst (fetchManifest example (example_ref ''c.example/library/x''))
     = (None, Some (ErrNoSupport (errorString ''v1 over https is switched off'')))
   \<and> fst (getRemoteTagList example (example_ref ''a.example/library/x''))
     = (None, Some (errorString ''no endpoints found for a.example''))
   \<and> fst (getRemoteTagList example (example_ref ''c.example/library/x''))
     = (None, Some (ErrNoSupport (errorString ''v1 over https is switched off'')))"
proof -
  let ?a = "example_ref ''a.example/library/x''"
  let ?c = "example_ref ''c.example/library/x''"
  let ?ra = "example_repoInfo ''a.example'' ''library/x''"
  let ?rc = "example_repoInfo ''c.example'' ''library/x''"
  let ?init = "\<lparr>lastErr = None, discardNoSupportErrors = False\<rparr>"
  let ?off = "ErrNoSupport (errorString ''v1 over https is switched off'')"
  have a: "ResolveRepository (reg example) ?a = Inr ?ra
           \<and> validateRepoName (reg example) (LocalName ?ra) = None
           \<and> LookupPullEndpoints (reg example) (CanonicalName ?ra) = Inr []"
    by (simp add: example_simps)
  have c: "ResolveRepository (reg example) ?c = Inr ?rc
           \<and> validateRepoName (reg example) (LocalName ?rc) = None
           \<and> LookupPullEndpoints (reg example) (CanonicalName ?rc) = Inr [example_v1s]"
    by (simp add: example_simps)
  have fa: "fst (fetchManifest_loop example ?ra ?a [] ?init) = Exhausted ?init"
    by simp
  have ta: "fst (getRemoteTagList_loop example ?ra (sort_Sort byAPIVersion_Less []) ?init)
              = Exhausted ?init"
    by simp
  have fc: "fetchManifest_fallbackErr example ?rc ?c example_v1s = Some ?off"
    by (simp add: example_simps fetchManifest_fallbackErr_def newManifestFetcher_def v1_Fetch_def)
  have tc: "getRemoteTagList_fallbackErr example ?rc example_v1s = Some ?off"
    by (simp add: example_simps getRemoteTagList_fallbackErr_def newTagLister_def v1_ListTags_def)
  note c4 = C4_exhausted_endpoints
  have 1: "fst (fetchManifest example ?a)
             = (None, Some (errorString ''no endpoints found for a.example''))"
    using c4 [of example ?a ?ra "[]" ?init, THEN conjunct1] a fa
    by (simp add: example_repoInfo_def)
  have 2: "fst (fetchManifest example ?c) = (None, Some ?off)"
    using c4 [of example ?c ?rc _ _ example_v1s ?off, THEN conjunct2, THEN conjunct1] c fc
    by simp
  have 3: "fst (getRemoteTagList example ?a)
             = (None, Some (errorString ''no endpoints found for a.example''))"
    using c4 [of example ?a ?ra "[]" ?init, THEN conjunct2, THEN conjunct2, THEN conjunct1]
      a ta
    by (simp add: example_repoInfo_def)
  have 4: "fst (getRemoteTagList example ?c) = (None, Some ?off)"
    using c4 [of example ?c ?rc _ _ example_v1s ?off,
        THEN conjunct2, THEN conjunct2, THEN conjunct2] c tc
    by simp
  from 1 2 3 4 show ?thesis by (intro conjI)
qed


lemma getRemoteTagList_loop_on_error:
  assumes "newTagLister endpoint repoInfo = Inr tagLister"
    and "fst (ListTags env tagLister) = (tagList, fallback, Some err)"
  shows "fallback \<or> Version endpoint = APIVersion1 \<Longrightarrow>
           fst (getRemoteTagList_loop env repoInfo (endpoint # endpoints) acc)
             = fst (getRemoteTagList_loop env repoInfo endpoints (remember acc err))
           \<and> tried (snd (getRemoteTagList_loop env repoInfo (endpoint # endpoints) acc))
             = endpoint # tried (snd (getRemoteTagList_loop env repoInfo endpoints
                                        (remember acc err)))"
    and "\<not> (fallback \<or> Version endpoint = APIVersion1) \<Longrightarrow>
           fst (getRemoteTagList_loop env repoInfo (endpoint # endpoints) acc)
             = Returned (None, Some err)
           \<and> tried (snd (getRemoteTagList_loop env repoInfo (endpoint # endpoints) acc))
             = [endpoint]"
proof -
  have f: "getRemoteTagList_fallbackErr env repoInfo endpoint =
             (if fallback \<or> Version endpoint = APIVersion1 then Some err else None)"
    using assms by (simp add: getRemoteTagList_fallbackErr_def)
  have r: "\<not> (fallback \<or> Version endpoint = APIVersion1) \<Longrightarrow>
           fst (getRemoteTagList_loop env repoInfo [endpoint] acc) = Returned (None, Some err)"
    using assms by (simp add: split_def)
  show "fallback \<or> Version endpoint = APIVersion1 \<Longrightarrow>
           fst (getRemoteTagList_loop env repoInfo (endpoint # endpoints) acc)
             = fst (getRemoteTagList_loop env repoInfo endpoints (remember acc err))
           \<and> tried (snd (getRemoteTagList_loop env repoInfo (endpoint # endpoints) acc))
             = endpoint # tried (snd (getRemoteTagList_loop env repoInfo endpoints
                                        (remember acc err)))"
    using getRemoteTagList_loop_fst_Cons [of env repoInfo endpoint endpoints acc]
      tried_getRemoteTagList_loop_Cons [of env repoInfo endpoint endpoints acc]
    by (simp only: getRemoteTagList_loop_single [of env repoInfo endpoint err acc] f if_True
        loop_exit.case simp_thms)
  show "\<not> (fallback \<or> Version endpoint = APIVersion1) \<Longrightarrow>
           fst (getRemoteTagList_loop env repoInfo (endpoint # endpoints) acc)
             = Returned (None, Some err)
           \<and> tried (snd (getRemoteTagList_loop env repoInfo (endpoint # endpoints) acc))
             = [endpoint]"
    using getRemoteTagList_loop_fst_Cons [of env repoInfo endpoint endpoints acc]
      tried_getRemoteTagList_loop_Cons [of env repoInfo endpoint endpoints acc]
    by (simp only: r loop_exit.case simp_thms)
qed

lemma fetchManifest_loop_on_error:
  assumes "newManifestFetcher endpoint repoInfo = Inr fetcher"
    and "fst (Fetch env fetcher ref) = (imgInspect, fallback, Some err)"
  shows "fallback \<Longrightarrow>
           fst (fetchManifest_loop env repoInfo ref (endpoint # endpoints) acc)
             = fst (fetchManifest_loop env repoInfo ref endpoints (remember acc err))
           \<and> tried (snd (fetchManifest_loop env repoInfo ref (endpoint # endpoints) acc))
             = endpoint # tried (snd (fetchManifest_loop env repoInfo ref endpoints
                                        (remember acc err)))"
    and "\<not> fallback \<Longrightarrow>
           fst (fetchManifest_loop env repoInfo ref (endpoint # endpoints) acc)
             = Returned (None, Some err)
           \<and> tried (snd (fetchManifest_loop env repoInfo ref (endpoint # endpoints) acc))
             = [endpoint]"
proof -
  have f: "fetchManifest_fallbackErr env repoInfo ref endpoint =
             (if fallback then Some err else None)"
    using assms by (simp add: fetchManifest_fallbackErr_def)
  have r: "\<not> fallback \<Longrightarrow>
           fst (fetchManifest_loop env repoInfo ref [endpoint] acc) = Returned (None, Some err)"
    using assms by (simp add: split_def)
  show "fallback \<Longrightarrow>
           fst (fetchManifest_loop env repoInfo ref (endpoint # endpoints) acc)
             = fst (fetchManifest_loop env repoInfo ref endpoints (remember acc err))
           \<and> tried (snd (fetchManifest_loop env repoInfo ref (endpoint # endpoints) acc))
             = endpoint # tried (snd (fetchManifest_loop env repoInfo ref endpoints
                                        (remember acc err)))"
    using fetchManifest_loop_fst_Cons [of env repoInfo ref endpoint endpoints acc]
      tried_fetchManifest_loop_Cons [of env repoInfo ref endpoint endpoints acc]
    by (simp only: fetchManifest_loop_single [of env repoInfo ref endpoint err acc] f if_True
        loop_exit.case simp_thms)
  show "\<not> fallback \<Longrightarrow>
           fst (fetchManifest_loop env repoInfo ref (endpoint # endpoints) acc)
             = Returned (None, Some err)
           \<and> tried (snd (fetchManifest_loop env repoInfo ref (endpoint # endpoints) acc))
             = [endpoint]"
    using fetchManifest_loop_fst_Cons [of env repoInfo ref endpoint endpoints acc]
      tried_fetchManifest_loop_Cons [of env repoInfo ref endpoint endpoints acc]
    by (simp only: r loop_exit.case simp_thms)
qed

text \<open>
  C10. Let an endpoint yield an error \<open>err\<close> in the loop of \<open>getRemoteTagList\<close>. When
  the lister set the fallback flag or the endpoint's version is V1, the loop remembers
  the error and goes on with the next endpoint; otherwise (no fallback flag and a
  version other than V1) the function returns \<open>err\<close> at once and iterates no further
  endpoint. In the loop of \<open>fetchManifest\<close> the version plays no part: with the
  fallback flag the loop goes on, without it the function returns \<open>err\<close> at once.
\<close>

theorem C10_v1_errors_in_tag_listing:
  "(newTagLister endpoint repoInfo = Inr tagLister
    \<and> fst (ListTags env tagLister) = (tagList, fallback, Some err)
    \<longrightarrow> (if fallback \<or> Version endpoint = APIVersion1
         then fst (getRemoteTagList_loop env repoInfo (endpoint # endpoints) acc)
                = fst (getRemoteTagList_loop env repoInfo endpoints (remember acc err))
              \<and> tried (snd (getRemoteTagList_loop env repoInfo (endpoint # endpoints) acc))
                = endpoint # tried (snd (getRemoteTagList_loop env repoInfo endpoints
                                           (remember acc err)))
         else fst (getRemoteTagList_loop env repoInfo (endpoint # endpoints) acc)
                = Returned (None, Some err)
              \<and> tried (snd (getRemoteTagList_loop env repoInfo (endpoint # endpoints) acc))
                = [endpoint]))
   \<and> (newManifestFetcher endpoint repoInfo = Inr fetcher
    \<and> fst (Fetch env fetcher ref) = (imgInspect, fallback, Some err)
    \<longrightarrow> (if fallback
         then fst (fetchManifest_loop env repoInfo ref (endpoint # endpoints) acc)
                = fst (fetchManifest_loop env repoInfo ref endpoints (remember acc err))
              \<and> tried (snd (fetchManifest_loop env repoInfo ref (endpoint # endpoints) acc))
                = endpoint # tried (snd (fetchManifest_loop env repoInfo ref endpoints
                                           (remember acc err)))
         else fst (fetchManifest_loop env repoInfo ref (endpoint # endpoints) acc)
                = Returned (None, Some err)
              \<and> tried (snd (fetchManifest_loop env repoInfo ref (endpoint # endpoints) acc))
                = [endpoint]))"
  using getRemoteTagList_loop_on_error [of endpoint repoInfo tagLister env tagList fallback err]
    fetchManifest_loop_on_error [of endpoint repoInfo fetcher env ref imgInspect fallback err]
  unfolding if_bool_eq_conj by blast

theorem C10_v1_errors_in_tag_listing_witness:
  "newTagLister example_v1 (example_repoInfo ''b.example'' ''library/none'')
     = Inr (v1TagLister example_v1 (example_repoInfo ''b.example'' ''library/none''))
   \<and> fst (ListTags example (v1TagLister example_v1 (example_repoInfo ''b.example'' ''library/none'')))
     = ([], False,
        Some (errorString ''No tags available for remote repository b.example/library/none''))
   \<and> fst (getRemoteTagList_loop example (example_repoInfo ''b.example'' ''library/none'')
            [example_v1, example_v2] \<lparr>lastErr = None, discardNoSupportErrors = False\<rparr>)
     = fst (getRemoteTagList_loop example (example_repoInfo ''b.example'' ''library/none'')
            [example_v2]
            \<lparr>lastErr = Some (errorString
                ''No tags available for remote repository b.example/library/none''),
              discardNoSupportErrors = True\<rparr>)
   \<and> newManifestFetcher example_v1 (example_repoInfo ''b.example'' ''library/none'')
     = Inr (v1ManifestFetcher example_v1 (example_repoInfo ''b.example'' ''library/none''))
   \<and> fst (Fetch example (v1ManifestFetcher example_v1
              (example_repoInfo ''b.example'' ''library/none''))
            (example_ref ''b.example/library/none''))
     = (None, False,
        Some (errorString ''No tags available for remote repository b.example/library/none''))
   \<and> fst (fetchManifest_loop example (example_repoInfo ''b.example'' ''library/none'')
            (example_ref ''b.example/library/none'') [example_v1, example_v2]
            \<lparr>lastErr = None, discardNoSupportErrors = False\<rparr>)
     = Returned (None,
        Some (errorString ''No tags available for remote repository b.example/library/none''))"
proof -
  let ?ri = "example_repoInfo ''b.example'' ''library/none''"
  let ?ref = "example_ref ''b.example/library/none''"
  let ?init = "\<lparr>lastErr = None, discardNoSupportErrors = False\<rparr>"
  let ?err = "errorString ''No tags available for remote repository b.example/library/none''"
  have l1: "newTagLister example_v1 ?ri = Inr (v1TagLister example_v1 ?ri)"
    by (simp add: newTagLister_def example_simps)
  have l2: "fst (ListTags example (v1TagLister example_v1 ?ri)) = ([], False, Some ?err)"
    by (simp add: v1_ListTags_def listTagsWithSession_def example_simps)
  have f1: "newManifestFetcher example_v1 ?ri = Inr (v1ManifestFetcher example_v1 ?ri)"
    by (simp add: newManifestFetcher_def example_simps)
  have f2: "fst (Fetch example (v1ManifestFetcher example_v1 ?ri) ?ref)
              = (None, False, Some ?err)"
    by (simp add: v1_Fetch_def fetchWithSession_def example_simps)
  have v: "Version example_v1 = APIVersion1"
    by (simp add: example_simps)
  have r: "remember ?init ?err = \<lparr>lastErr = Some ?err, discardNoSupportErrors = True\<rparr>"
    by (simp add: remember_def)
  have 1: "fst (getRemoteTagList_loop example ?ri [example_v1, example_v2] ?init)
             = fst (getRemoteTagList_loop example ?ri [example_v2]
                      \<lparr>lastErr = Some ?err, discardNoSupportErrors = True\<rparr>)"
    using C10_v1_errors_in_tag_listing
      [of example_v1 ?ri "v1TagLister example_v1 ?ri" example "[]" False ?err "[example_v2]" ?init,
       THEN conjunct1] l1 l2 v r
    by simp
  have 2: "fst (fetchManifest_loop example ?ri ?ref [example_v1, example_v2] ?init)
             = Returned (None, Some ?err)"
    using C10_v1_errors_in_tag_listing
      [of example_v1 ?ri _ example _ False ?err "[example_v2]" ?init
          "v1ManifestFetcher example_v1 ?ri" ?ref None,
       THEN conjunct2] f1 f2
    by simp
  from l1 l2 1 f1 f2 2 show ?thesis by (intro conjI)
qed

lemma tried_getRemoteTagList_resolved:
  "ResolveRepository (reg env) ref = Inr repoInfo \<Longrightarrow>
   validateRepoName (reg env) (LocalName repoInfo) = None \<Longrightarrow>
   LookupPullEndpoints (reg env) (CanonicalName repoInfo) = Inr endpoints \<Longrightarrow>
   tried (snd (getRemoteTagList env ref)) =
     tried (snd (getRemoteTagList_loop env repoInfo (sort_Sort byAPIVersion_Less endpoints)
                   \<lparr>lastErr = None, discardNoSupportErrors = False\<rparr>))"
  by (simp add: getRemoteTagList_def split_def split: loop_exit.splits)

lemma byAPIVersion_Less_cases:
  "Version a < Version b \<Longrightarrow> byAPIVersion_Less a b \<and> \<not> byAPIVersion_Less b a"
  "Version a = Version b \<Longrightarrow> HasPrefix (URL a) ''https://'' \<Longrightarrow>
   \<not> HasPrefix (URL b) ''https://'' \<Longrightarrow> byAPIVersion_Less a b \<and> \<not> byAPIVersion_Less b a"
  by (simp_all add: byAPIVersion_Less_def)

text \<open>
  C8. Whenever \<open>getRemoteTagList\<close> returns a tag list, and so whenever
  \<open>ListRemoteTags\<close> does, its tags are in ascending lexicographic order of their
  names (bytewise, as Go compares strings), whatever the environment: whatever order
  the listers give the tags and the registry service gives the endpoints.
\<close>

theorem C8_tag_list_sorted:
  "(fst (fst (getRemoteTagList env ref)) = Some tags \<longrightarrow> sorted (map Tag (TagList tags)))
   \<and> (fst (fst (ListRemoteTags env ref)) = Some tags \<longrightarrow> sorted (map Tag (TagList tags)))"
  using getRemoteTagList_sorted [of env ref tags] ListRemoteTags_sorted [of env ref tags]
  by blast

theorem C8_tag_list_sorted_witness:
  "fst (fst (getRemoteTagList example (example_ref ''b.example/library/x'')))
     = Some \<lparr>Name = ''b.example/library/x'',
              TagList = [\<lparr>Tag = ''1.0'', ImageID = ''id1''\<rparr>, \<lparr>Tag = ''2.0'', ImageID = ''id3''\<rparr>,
                         \<lparr>Tag = ''latest'', ImageID = ''id2''\<rparr>]\<rparr>
   \<and> fst (fst (ListRemoteTags example (example_ref ''library/x'')))
     = Some \<lparr>Name = ''b.example/library/x'',
              TagList = [\<lparr>Tag = ''1.0'', ImageID = ''id1''\<rparr>, \<lparr>Tag = ''2.0'', ImageID = ''id3''\<rparr>,
                         \<lparr>Tag = ''latest'', ImageID = ''id2''\<rparr>]\<rparr>
   \<and> sorted [''1.0'', ''2.0'', ''latest'']"
proof -
  let ?tags = "\<lparr>Name = ''b.example/library/x'',
              TagList = [\<lparr>Tag = ''1.0'', ImageID = ''id1''\<rparr>, \<lparr>Tag = ''2.0'', ImageID = ''id3''\<rparr>,
                         \<lparr>Tag = ''latest'', ImageID = ''id2''\<rparr>]\<rparr>"
  have g: "fst (getRemoteTagList example (example_ref ''b.example/library/x'')) = (Some ?tags, None)"
    by (simp add: getRemoteTagList_def sort_Sort_def byAPIVersion_Less_def byTagName_Less_def
        newTagLister_def v1_ListTags_def v2_ListTags_def listTagsWithSession_def example_simps)
  have a: "fst (getRemoteTagList example (example_ref ''a.example/library/x''))
             = (None, Some (errorString ''no endpoints found for a.example''))"
    by (simp add: getRemoteTagList_def sort_Sort_def example_simps)
  have l: "fst (ListRemoteTags example (example_ref ''library/x'')) = (Some ?tags, None)"
    using g a
    by (simp add: ListRemoteTags_def example_reg_simps example_ref_def split_def)
  from g have 1: "fst (fst (getRemoteTagList example (example_ref ''b.example/library/x'')))
                    = Some ?tags" by simp
  from l have 2: "fst (fst (ListRemoteTags example (example_ref ''library/x''))) = Some ?tags"
    by simp
  from C8_tag_list_sorted [of example "example_ref ''library/x''" ?tags] 2
  have "sorted (map Tag (TagList ?tags))" by blast
  then have 3: "sorted [''1.0'', ''2.0'', ''latest'']" by simp
  from 1 2 3 show ?thesis by (intro conjI)
qed

text \<open>
  C9. \<open>Less\<close> of \<open>byAPIVersion\<close> puts an endpoint of lower version before one of
  higher version, so a V1 endpoint before a V2 endpoint, and among two endpoints of one
  version the one whose URL starts with \<^verbatim>\<open>https://\<close> before one whose URL does not. The
  endpoints \<open>getRemoteTagList\<close> iterates over, in the order of iteration, are never
  out of this order: no endpoint is \<open>Less\<close> than one iterated before it; and they are
  the first ones of the sorted list of the endpoints looked up, which has the same
  elements as the list looked up.
\<close>

theorem C9_byAPIVersion_order:
  "(Version a < Version b \<longrightarrow> byAPIVersion_Less a b \<and> \<not> byAPIVersion_Less b a)
   \<and> (Version a = APIVersion1 \<and> Version b = APIVersion2
        \<longrightarrow> byAPIVersion_Less a b \<and> \<not> byAPIVersion_Less b a)
   \<and> (Version a = Version b \<and> HasPrefix (URL a) ''https://'' \<and> \<not> HasPrefix (URL b) ''https://''
        \<longrightarrow> byAPIVersion_Less a b \<and> \<not> byAPIVersion_Less b a)
   \<and> sorted_wrt (\<lambda>x y. \<not> byAPIVersion_Less y x) (tried (snd (getRemoteTagList env ref)))
   \<and> (ResolveRepository (reg env) ref = Inr repoInfo
       \<and> validateRepoName (reg env) (LocalName repoInfo) = None
       \<and> LookupPullEndpoints (reg env) (CanonicalName repoInfo) = Inr endpoints
        \<longrightarrow> (\<exists>rest. tried (snd (getRemoteTagList env ref)) @ rest
                      = sort_Sort byAPIVersion_Less endpoints)
            \<and> mset (sort_Sort byAPIVersion_Less endpoints) = mset endpoints)"
proof -
  have 1: "Version a < Version b \<longrightarrow> byAPIVersion_Less a b \<and> \<not> byAPIVersion_Less b a"
    using byAPIVersion_Less_cases(1) by blast
  have 2: "Version a = APIVersion1 \<and> Version b = APIVersion2
             \<longrightarrow> byAPIVersion_Less a b \<and> \<not> byAPIVersion_Less b a"
    using byAPIVersion_Less_cases(1) [of a b] by (simp add: APIVersion1_def APIVersion2_def)
  have 3: "Version a = Version b \<and> HasPrefix (URL a) ''https://''
             \<and> \<not> HasPrefix (URL b) ''https://''
             \<longrightarrow> byAPIVersion_Less a b \<and> \<not> byAPIVersion_Less b a"
    using byAPIVersion_Less_cases(2) [of a b] by blast
  have 4: "sorted_wrt (\<lambda>x y. \<not> byAPIVersion_Less y x) (tried (snd (getRemoteTagList env ref)))"
    by (rule tried_getRemoteTagList)
  have 5: "ResolveRepository (reg env) ref = Inr repoInfo
       \<and> validateRepoName (reg env) (LocalName repoInfo) = None
       \<and> LookupPullEndpoints (reg env) (CanonicalName repoInfo) = Inr endpoints
        \<longrightarrow> (\<exists>rest. tried (snd (getRemoteTagList env ref)) @ rest
                      = sort_Sort byAPIVersion_Less endpoints)
            \<and> mset (sort_Sort byAPIVersion_Less endpoints) = mset endpoints"
    using tried_getRemoteTagList_resolved [of env ref repoInfo endpoints]
      tried_getRemoteTagList_loop
        [of env repoInfo "sort_Sort byAPIVersion_Less endpoints"
           "\<lparr>lastErr = None, discardNoSupportErrors = False\<rparr>"]
    by (auto simp: mset_sort_Sort)
  from 1 2 3 4 5 show ?thesis by (intro conjI)
qed

theorem C9_byAPIVersion_order_witness:
  "Version example_v1 < Version example_v2
   \<and> byAPIVersion_Less example_v1 example_v2
   \<and> Version example_v1s = Version example_v1
   \<and> HasPrefix (URL example_v1s) ''https://''
   \<and> \<not> HasPrefix (URL example_v1) ''https://''
   \<and> byAPIVersion_Less example_v1s example_v1
   \<and> LookupPullEndpoints (reg example) ''b.example/library/x''
        = Inr [example_v2, example_v1s, example_v1]
   \<and> sort_Sort byAPIVersion_Less [example_v2, example_v1s, example_v1]
        = [example_v1s, example_v1, example_v2]
   \<and> tried (snd (getRemoteTagList example (example_ref ''b.example/library/x'')))
        = [example_v1s, example_v1]
   \<and> sorted_wrt (\<lambda>x y. \<not> byAPIVersion_Less y x) [example_v1s, example_v1]"
proof -
  note c9 = C9_byAPIVersion_order
  have v: "Version example_v1 < Version example_v2" "Version example_v1s = Version example_v1"
    "HasPrefix (URL example_v1s) ''https://''" "\<not> HasPrefix (URL example_v1) ''https://''"
    by (simp_all add: example_simps)
  have l1: "byAPIVersion_Less example_v1 example_v2"
    using c9 [of example_v1 example_v2, THEN conjunct1] v(1) by blast
  have l2: "byAPIVersion_Less example_v1s example_v1"
    using c9 [of example_v1s example_v1, THEN conjunct2, THEN conjunct2, THEN conjunct1] v
    by blast
  have e: "LookupPullEndpoints (reg example) ''b.example/library/x''
             = Inr [example_v2, example_v1s, example_v1]"
    by (simp add: example_reg_simps)
  have s: "sort_Sort byAPIVersion_Less [example_v2, example_v1s, example_v1]
             = [example_v1s, example_v1, example_v2]"
    by (simp add: sort_Sort_def byAPIVersion_Less_def example_simps)
  have t: "tried (snd (getRemoteTagList example (example_ref ''b.example/library/x'')))
             = [example_v1s, example_v1]"
    by (simp add: getRemoteTagList_def sort_Sort_def byAPIVersion_Less_def byTagName_Less_def
        newTagLister_def v1_ListTags_def v2_ListTags_def listTagsWithSession_def example_simps)
  have o: "sorted_wrt (\<lambda>x y. \<not> byAPIVersion_Less y x) [example_v1s, example_v1]"
    using c9 [of _ _ example "example_ref ''b.example/library/x''",
        THEN conjunct2, THEN conjunct2, THEN conjunct2, THEN conjunct1]
    by (simp only: t)
  from v l1 l2 e s t o show ?thesis by (intro conjI)
qed

lemma pulled_simps [simp]:
  "pulled [] = []"
  "pulled (c # t) = (case c of GetRemoteImageJSON_call s i ep \<Rightarrow> [ep] | _ \<Rightarrow> []) @ pulled t"
  "pulled (t @ u) = pulled t @ pulled u"
  by (simp_all add: pulled_def)

lemma fetchedByTag_simps [simp]:
  "fetchedByTag [] = []"
  "fetchedByTag (c # t) = (case c of GetByTag_call ms tag \<Rightarrow> [tag] | _ \<Rightarrow> []) @ fetchedByTag t"
  "fetchedByTag (t @ u) = fetchedByTag t @ fetchedByTag u"
  by (simp_all add: fetchedByTag_def)

lemma fetchWithRepository_untagged_none:
  assumes "ref_Digest ref = None" "ref_Tag ref = None"
    and "Manifests (v2 env) repo = Inr manSvc"
    and "Tags (v2 env) manSvc = Inr tagList"
    and "DefaultTag \<notin> set tagList" and "tagList = [] \<or> hd tagList = ''''"
  shows "fetchWithRepository env repoInfo repo ref =
           ((None, Some (errorString (''No tags available for remote repository ''
               @ CanonicalName repoInfo))), [Manifests_call repo, Tags_call manSvc])"
proof -
  from assms(5,6) have "fetchWithRepository_tag tagList = ''''"
    by (auto simp: fetchWithRepository_tag_cases)
  from fetchWithRepository_untagged(1) [OF assms(1-4) this] show ?thesis by simp
qed

lemma fetchWithRepository_untagged_some:
  assumes "ref_Digest ref = None" "ref_Tag ref = None"
    and "Manifests (v2 env) repo = Inr manSvc"
    and "Tags (v2 env) manSvc = Inr tagList"
    and "fetchWithRepository_tag tagList = tag" and "tag \<noteq> ''''"
  shows "fetchedByTag (snd (fetchWithRepository env repoInfo repo ref)) = [tag]
         \<and> fst (fetchWithRepository env repoInfo repo ref) =
             (case fetchWithRepository_check env (GetByTag (v2 env) manSvc tag) tag of
                Inl err \<Rightarrow> (None, Some err)
              | Inr m \<Rightarrow> fetchWithRepository_image env repoInfo ref m tag)"
  by (simp add: fetchWithRepository_untagged(2) [OF assms])

text \<open>
  C5, as amended. For a reference without tag and digest, when the repository's
  manifest service enumerates the tags \<open>tagList\<close>: if \<^verbatim>\<open>latest\<close> is among them, the one
  manifest asked for is that of \<^verbatim>\<open>latest\<close>, wherever it stands; if it is not and the
  list starts with a tag that is not the empty string, the one manifest asked for is
  that of the first tag; if it is not and the list is empty or starts with the empty
  string, no manifest is asked for and the result is the error
  \<^verbatim>\<open>No tags available for remote repository ...\<close> without a record.
\<close>

theorem C5_v2_unqualified_tag:
  "DefaultTag = ''latest''
   \<and> (ref_Digest ref = None \<and> ref_Tag ref = None
      \<and> Manifests (v2 env) repo = Inr manSvc \<and> Tags (v2 env) manSvc = Inr tagList
      \<longrightarrow> (DefaultTag \<in> set tagList
            \<longrightarrow> fetchedByTag (snd (fetchWithRepository env repoInfo repo ref)) = [DefaultTag]
               \<and> fst (fetchWithRepository env repoInfo repo ref) =
                   (case fetchWithRepository_check env (GetByTag (v2 env) manSvc DefaultTag)
                           DefaultTag of
                      Inl err \<Rightarrow> (None, Some err)
                    | Inr m \<Rightarrow> fetchWithRepository_image env repoInfo ref m DefaultTag))
         \<and> (DefaultTag \<notin> set tagList \<and> tagList \<noteq> [] \<and> hd tagList \<noteq> ''''
            \<longrightarrow> fetchedByTag (snd (fetchWithRepository env repoInfo repo ref)) = [hd tagList]
               \<and> fst (fetchWithRepository env repoInfo repo ref) =
                   (case fetchWithRepository_check env (GetByTag (v2 env) manSvc (hd tagList))
                           (hd tagList) of
                      Inl err \<Rightarrow> (None, Some err)
                    | Inr m \<Rightarrow> fetchWithRepository_image env repoInfo ref m (hd tagList)))
         \<and> (DefaultTag \<notin> set tagList \<and> (tagList = [] \<or> hd tagList = '''')
            \<longrightarrow> fetchWithRepository env repoInfo repo ref =
                  ((None, Some (errorString (''No tags available for remote repository ''
                      @ CanonicalName repoInfo))), [Manifests_call repo, Tags_call manSvc])))"
proof -
  have d: "DefaultTag = ''latest''" by (simp add: DefaultTag_def)
  have "fetchedByTag (snd (fetchWithRepository env repoInfo repo ref)) = [DefaultTag]
        \<and> fst (fetchWithRepository env repoInfo repo ref) =
            (case fetchWithRepository_check env (GetByTag (v2 env) manSvc DefaultTag)
                    DefaultTag of
               Inl err \<Rightarrow> (None, Some err)
             | Inr m \<Rightarrow> fetchWithRepository_image env repoInfo ref m DefaultTag)"
    if "ref_Digest ref = None" "ref_Tag ref = None" "Manifests (v2 env) repo = Inr manSvc"
      "Tags (v2 env) manSvc = Inr tagList" "DefaultTag \<in> set tagList"
    by (rule fetchWithRepository_untagged_some [OF that(1-4)])
       (simp_all add: fetchWithRepository_tag_cases that(5))
  moreover have "fetchedByTag (snd (fetchWithRepository env repoInfo repo ref)) = [hd tagList]
        \<and> fst (fetchWithRepository env repoInfo repo ref) =
            (case fetchWithRepository_check env (GetByTag (v2 env) manSvc (hd tagList))
                    (hd tagList) of
               Inl err \<Rightarrow> (None, Some err)
             | Inr m \<Rightarrow> fetchWithRepository_image env repoInfo ref m (hd tagList))"
    if "ref_Digest ref = None" "ref_Tag ref = None" "Manifests (v2 env) repo = Inr manSvc"
      "Tags (v2 env) manSvc = Inr tagList" "DefaultTag \<notin> set tagList" "tagList \<noteq> []"
      "hd tagList \<noteq> ''''"
    by (rule fetchWithRepository_untagged_some [OF that(1-4)])
       (simp_all add: fetchWithRepository_tag_cases that(5-7))
  moreover have "fetchWithRepository env repoInfo repo ref =
                  ((None, Some (errorString (''No tags available for remote repository ''
                      @ CanonicalName repoInfo))), [Manifests_call repo, Tags_call manSvc])"
    if "ref_Digest ref = None" "ref_Tag ref = None" "Manifests (v2 env) repo = Inr manSvc"
      "Tags (v2 env) manSvc = Inr tagList" "DefaultTag \<notin> set tagList"
      "tagList = [] \<or> hd tagList = ''''"
    by (rule fetchWithRepository_untagged_none [OF that])
  ultimately show ?thesis using d by blast
qed

theorem C5_v2_unqualified_tag_witness:
  "Tags (v2 example) ''r1'' = Inr [''1.0'', ''latest'', ''2.0'']
   \<and> fetchedByTag (snd (fetchWithRepository example (example_repoInfo ''b.example'' ''library/x'')
                          ''r1'' (example_ref ''b.example/library/x''))) = [''latest'']
   \<and> Tags (v2 example) ''r2'' = Inr [''1.0'', ''2.0'']
   \<and> fetchedByTag (snd (fetchWithRepository example (example_repoInfo ''b.example'' ''library/x'')
                          ''r2'' (example_ref ''b.example/library/x''))) = [''1.0'']
   \<and> Tags (v2 example) ''r0'' = Inr []
   \<and> fetchWithRepository example (example_repoInfo ''b.example'' ''library/x'')
        ''r0'' (example_ref ''b.example/library/x'')
      = ((None, Some (errorString
            ''No tags available for remote repository b.example/library/x'')),
         [Manifests_call ''r0'', Tags_call ''r0''])"
proof -
  let ?ri = "example_repoInfo ''b.example'' ''library/x''"
  let ?ref = "example_ref ''b.example/library/x''"
  note c5 = C5_v2_unqualified_tag [THEN conjunct2, rule_format]
  have r: "ref_Digest ?ref = None \<and> ref_Tag ?ref = None" by (simp add: example_ref_def)
  have m: "Manifests (v2 example) repo = Inr repo" for repo by (simp add: example_repository_simps)
  have t1: "Tags (v2 example) ''r1'' = Inr [''1.0'', ''latest'', ''2.0'']"
    and t2: "Tags (v2 example) ''r2'' = Inr [''1.0'', ''2.0'']"
    and t0: "Tags (v2 example) ''r0'' = Inr []"
    by (simp_all add: example_repository_simps)
  have 1: "fetchedByTag (snd (fetchWithRepository example ?ri ''r1'' ?ref)) = [''latest'']"
    using c5 [of ?ref example "''r1''" "''r1''" "[''1.0'', ''latest'', ''2.0'']" ?ri,
        THEN conjunct1] r m t1
    by (simp add: DefaultTag_def)
  have 2: "fetchedByTag (snd (fetchWithRepository example ?ri ''r2'' ?ref)) = [''1.0'']"
    using c5 [of ?ref example "''r2''" "''r2''" "[''1.0'', ''2.0'']" ?ri,
        THEN conjunct2, THEN conjunct1] r m t2
    by (simp add: DefaultTag_def)
  have 3: "fetchWithRepository example ?ri ''r0'' ?ref
      = ((None, Some (errorString
            ''No tags available for remote repository b.example/library/x'')),
         [Manifests_call ''r0'', Tags_call ''r0''])"
    using c5 [of ?ref example "''r0''" "''r0''" "[]" ?ri, THEN conjunct2, THEN conjunct2] r m t0
    by (simp add: example_repoInfo_def)
  from t1 1 t2 2 t0 3 show ?thesis by (intro conjI)
qed

text \<open>
  The claim as it is written fails where the enumeration is not empty, has no
  \<^verbatim>\<open>latest\<close> and starts with the empty string: the first tag is not asked for.
\<close>

theorem C5_v2_unqualified_tag_counterexample:
  "Manifests (v2 example) ''r3'' = Inr ''r3''
   \<and> Tags (v2 example) ''r3'' = Inr ['''', ''1.0'']
   \<and> DefaultTag \<notin> set ['''', ''1.0'']
   \<and> ['''', ''1.0''] \<noteq> []
   \<and> fetchWithRepository example (example_repoInfo ''b.example'' ''library/x'')
        ''r3'' (example_ref ''b.example/library/x'')
      = ((None, Some (errorString
            ''No tags available for remote repository b.example/library/x'')),
         [Manifests_call ''r3'', Tags_call ''r3''])
   \<and> fetchedByTag (snd (fetchWithRepository example (example_repoInfo ''b.example'' ''library/x'')
                          ''r3'' (example_ref ''b.example/library/x''))) \<noteq> [hd ['''', ''1.0'']]"
  by (simp add: fetchWithRepository_def fetchWithRepository_unverified_def
      fetchWithRepository_tag_def DefaultTag_def example_simps)


lemma fetchWithSession_default:
  assumes "GetRepositoryData (v1 env) session (RemoteName ri) = Inr repoData"
    and "GetRemoteTags (v1 env) session (Endpoints repoData) (RemoteName ri) = Inr tagsList"
    and "map_of tagsList DefaultTag \<noteq> None"
  shows "fetchWithSession env ri session '''' = fetchWithSession env ri session DefaultTag"
  by (rule fetchWithSession_via_tag [OF _ assms(1,2)])
     (simp add: fetchWithSession_tag_default [OF assms(3)])

lemma fetchWithSession_any:
  assumes "GetRepositoryData (v1 env) session (RemoteName ri) = Inr repoData"
    and "GetRemoteTags (v1 env) session (Endpoints repoData) (RemoteName ri) = Inr tagsList"
    and "map_of tagsList DefaultTag = None" and "tagsList \<noteq> []"
  shows "\<exists>tag imgID. (tag, imgID) \<in> set tagsList
           \<and> fetchWithSession env ri session '''' = fetchWithSession env ri session tag"
proof -
  from assms(4) obtain tag imgID rest where l: "tagsList = (tag, imgID) # rest"
    by (cases tagsList) auto
  have t: "fetchWithSession_tag tagsList '''' = tag"
    using fetchWithSession_tag_any [OF assms(3,4)] l by simp
  have "fetchWithSession_tag tagsList '''' = fetchWithSession_tag tagsList tag"
    by (cases "tag = ''''") (simp_all add: t)
  from fetchWithSession_via_tag [OF this assms(1,2)] l show ?thesis by auto
qed

text \<open>
  C6, as amended. In \<open>fetchWithSession\<close>, once the repository's data and its map from
  tags to image ids are there: an asked tag that is not empty and not in the map, the
  map not being empty, gives the error \<^verbatim>\<open>Tag ... not found in repository ...\<close>; an
  empty asked tag gives what asking for \<^verbatim>\<open>latest\<close> gives when \<^verbatim>\<open>latest\<close> is in the map,
  and otherwise, the map not being empty, what asking for some tag of the map gives; an
  empty map gives the error \<^verbatim>\<open>No tags available for remote repository ...\<close>, whatever
  tag is asked, after the two calls that fetch data and tags and before any request
  for an image.
\<close>

theorem C6_v1_tag_resolution:
  "DefaultTag = ''latest''
   \<and> (GetRepositoryData (v1 env) session (RemoteName repoInfo) = Inr repoData
      \<and> GetRemoteTags (v1 env) session (Endpoints repoData) (RemoteName repoInfo) = Inr tagsList
      \<longrightarrow> (tagsList \<noteq> [] \<and> askedTag \<noteq> '''' \<and> map_of tagsList askedTag = None
            \<longrightarrow> fetchWithSession env repoInfo session askedTag =
                  ((None, Some (errorString (''Tag '' @ askedTag @ '' not found in repository ''
                      @ CanonicalName repoInfo))),
                   [GetRepositoryData_call session (RemoteName repoInfo),
                    GetRemoteTags_call session (Endpoints repoData) (RemoteName repoInfo)]))
         \<and> (map_of tagsList DefaultTag \<noteq> None
            \<longrightarrow> fetchWithSession env repoInfo session ''''
                  = fetchWithSession env repoInfo session DefaultTag)
         \<and> (map_of tagsList DefaultTag = None \<and> tagsList \<noteq> []
            \<longrightarrow> (\<exists>tag imgID. (tag, imgID) \<in> set tagsList
                   \<and> fetchWithSession env repoInfo session ''''
                       = fetchWithSession env repoInfo session tag))
         \<and> (tagsList = []
            \<longrightarrow> fetchWithSession env repoInfo session askedTag =
                  ((None, Some (errorString (''No tags available for remote repository ''
                      @ CanonicalName repoInfo))),
                   [GetRepositoryData_call session (RemoteName repoInfo),
                    GetRemoteTags_call session (Endpoints repoData) (RemoteName repoInfo)])
                \<and> pulled (snd (fetchWithSession env repoInfo session askedTag)) = []))"
proof -
  have d: "DefaultTag = ''latest''" by (simp add: DefaultTag_def)
  have "fetchWithSession env repoInfo session askedTag =
          ((None, Some (errorString (''Tag '' @ askedTag @ '' not found in repository ''
              @ CanonicalName repoInfo))),
           [GetRepositoryData_call session (RemoteName repoInfo),
            GetRemoteTags_call session (Endpoints repoData) (RemoteName repoInfo)])"
    if "GetRepositoryData (v1 env) session (RemoteName repoInfo) = Inr repoData"
      "GetRemoteTags (v1 env) session (Endpoints repoData) (RemoteName repoInfo) = Inr tagsList"
      "tagsList \<noteq> []" "askedTag \<noteq> ''''" "map_of tagsList askedTag = None"
    using fetchWithSession_tag_not_found [OF that(1-3), of askedTag] that(4,5) by simp
  moreover have "fetchWithSession env repoInfo session ''''
                  = fetchWithSession env repoInfo session DefaultTag"
    if "GetRepositoryData (v1 env) session (RemoteName repoInfo) = Inr repoData"
      "GetRemoteTags (v1 env) session (Endpoints repoData) (RemoteName repoInfo) = Inr tagsList"
      "map_of tagsList DefaultTag \<noteq> None"
    by (rule fetchWithSession_default [OF that])
  moreover have "\<exists>tag imgID. (tag, imgID) \<in> set tagsList
                   \<and> fetchWithSession env repoInfo session ''''
                       = fetchWithSession env repoInfo session tag"
    if "GetRepositoryData (v1 env) session (RemoteName repoInfo) = Inr repoData"
      "GetRemoteTags (v1 env) session (Endpoints repoData) (RemoteName repoInfo) = Inr tagsList"
      "map_of tagsList DefaultTag = None" "tagsList \<noteq> []"
    by (rule fetchWithSession_any [OF that])
  moreover have "fetchWithSession env repoInfo session askedTag =
                  ((None, Some (errorString (''No tags available for remote repository ''
                      @ CanonicalName repoInfo))),
                   [GetRepositoryData_call session (RemoteName repoInfo),
                    GetRemoteTags_call session (Endpoints repoData) (RemoteName repoInfo)])
                \<and> pulled (snd (fetchWithSession env repoInfo session askedTag)) = []"
    if "GetRepositoryData (v1 env) session (RemoteName repoInfo) = Inr repoData"
      "GetRemoteTags (v1 env) session (Endpoints repoData) (RemoteName repoInfo) = Inr tagsList"
      "tagsList = []"
    using fetchWithSession_no_tags [OF that(1), of askedTag] that(2,3) by simp
  ultimately show ?thesis using d by blast
qed

theorem C6_v1_tag_resolution_witness:
  "GetRemoteTags (v1 example) ''s'' [''http://e1.example'', ''http://e2.example''] ''library/x''
     = Inr [(''1.0'', ''id1''), (''latest'', ''id2''), (''2.0'', ''id3'')]
   \<and> fetchWithSession example (example_repoInfo ''b.example'' ''library/x'') ''s'' ''v9''
     = ((None, Some (errorString ''Tag v9 not found in repository b.example/library/x'')),
        [GetRepositoryData_call ''s'' ''library/x'',
         GetRemoteTags_call ''s'' [''http://e1.example'', ''http://e2.example''] ''library/x''])
   \<and> fetchWithSession example (example_repoInfo ''b.example'' ''library/x'') ''s'' ''''
     = fetchWithSession example (example_repoInfo ''b.example'' ''library/x'') ''s'' ''latest''
   \<and> GetRemoteTags (v1 example) ''s'' [''http://e1.example'', ''http://e2.example''] ''library/y''
     = Inr [(''1.0'', ''id1''), (''2.0'', ''id3'')]
   \<and> (\<exists>tag imgID. (tag, imgID) \<in> set [(''1.0'', ''id1''), (''2.0'', ''id3'')]
        \<and> fetchWithSession example (example_repoInfo ''b.example'' ''library/y'') ''s'' ''''
          = fetchWithSession example (example_repoInfo ''b.example'' ''library/y'') ''s'' tag)
   \<and> GetRemoteTags (v1 example) ''s'' [''http://e1.example'', ''http://e2.example''] ''library/none''
     = Inr []
   \<and> fetchWithSession example (example_repoInfo ''b.example'' ''library/none'') ''s'' ''''
     = ((None, Some (errorString
           ''No tags available for remote repository b.example/library/none'')),
        [GetRepositoryData_call ''s'' ''library/none'',
         GetRemoteTags_call ''s'' [''http://e1.example'', ''http://e2.example'']
           ''library/none''])"
proof -
  let ?x = "example_repoInfo ''b.example'' ''library/x''"
  let ?y = "example_repoInfo ''b.example'' ''library/y''"
  let ?n = "example_repoInfo ''b.example'' ''library/none''"
  let ?rd = "\<lparr>ImgList = Map.empty, Endpoints = [''http://e1.example'', ''http://e2.example''],
              Tokens = []\<rparr>"
  let ?tx = "[(''1.0'', ''id1''), (''latest'', ''id2''), (''2.0'', ''id3'')]"
  let ?ty = "[(''1.0'', ''id1''), (''2.0'', ''id3'')]"
  note c6 = C6_v1_tag_resolution [THEN conjunct2, rule_format]
  have rd: "GetRepositoryData (v1 example) ''s'' (RemoteName ri) = Inr ?rd" for ri
    by (simp add: example_session_simps)
  have tx: "GetRemoteTags (v1 example) ''s'' [''http://e1.example'', ''http://e2.example'']
              ''library/x'' = Inr ?tx"
    and ty: "GetRemoteTags (v1 example) ''s'' [''http://e1.example'', ''http://e2.example'']
              ''library/y'' = Inr ?ty"
    and tn: "GetRemoteTags (v1 example) ''s'' [''http://e1.example'', ''http://e2.example'']
              ''library/none'' = Inr []"
    by (simp_all add: example_session_simps)
  have 1: "fetchWithSession example ?x ''s'' ''v9''
     = ((None, Some (errorString ''Tag v9 not found in repository b.example/library/x'')),
        [GetRepositoryData_call ''s'' ''library/x'',
         GetRemoteTags_call ''s'' [''http://e1.example'', ''http://e2.example''] ''library/x''])"
    using c6 [of example "''s''" ?x ?rd ?tx, THEN conjunct1, of "''v9''"] rd [of ?x] tx
    by (simp add: example_repoInfo_def)
  have 2: "fetchWithSession example ?x ''s'' '''' = fetchWithSession example ?x ''s'' ''latest''"
    using c6 [of example "''s''" ?x ?rd ?tx, THEN conjunct2, THEN conjunct1] rd [of ?x] tx
    by (simp add: example_repoInfo_def DefaultTag_def)
  have 3: "\<exists>tag imgID. (tag, imgID) \<in> set ?ty
        \<and> fetchWithSession example ?y ''s'' '''' = fetchWithSession example ?y ''s'' tag"
    using c6 [of example "''s''" ?y ?rd ?ty, THEN conjunct2, THEN conjunct2, THEN conjunct1]
      rd [of ?y] ty
    by (simp add: example_repoInfo_def DefaultTag_def)
  have 4: "fetchWithSession example ?n ''s'' ''''
     = ((None, Some (errorString
           ''No tags available for remote repository b.example/library/none'')),
        [GetRepositoryData_call ''s'' ''library/none'',
         GetRemoteTags_call ''s'' [''http://e1.example'', ''http://e2.example'']
           ''library/none''])"
    using c6 [of example "''s''" ?n ?rd "[]", THEN conjunct2, THEN conjunct2, THEN conjunct2,
        of "''''"] rd [of ?n] tn
    by (simp add: example_repoInfo_def)
  from tx 1 2 ty 3 tn 4 show ?thesis by (intro conjI)
qed

text \<open>
  The claim as it is written fails where a tag is asked for and the map is empty: the
  error is \<^verbatim>\<open>No tags available ...\<close>, not \<^verbatim>\<open>Tag ... not found ...\<close>.
\<close>

theorem C6_v1_tag_resolution_counterexample:
  "GetRemoteTags (v1 example) ''s'' [''http://e1.example'', ''http://e2.example''] ''library/none''
     = Inr []
   \<and> ''v1'' \<noteq> ''''
   \<and> map_of ([] :: (string \<times> string) list) ''v1'' = None
   \<and> snd (fst (fetchWithSession example (example_repoInfo ''b.example'' ''library/none'')
                  ''s'' ''v1''))
     = Some (errorString ''No tags available for remote repository b.example/library/none'')
   \<and> snd (fst (fetchWithSession example (example_repoInfo ''b.example'' ''library/none'')
                  ''s'' ''v1''))
     \<noteq> Some (errorString (''Tag '' @ ''v1'' @ '' not found in repository ''
                 @ CanonicalName (example_repoInfo ''b.example'' ''library/none'')))"
  by (simp add: fetchWithSession_def example_simps)


lemma fetchWithSession_first_success:
  assumes "GetRepositoryData (v1 env) session (RemoteName ri) = Inr repoData"
    and "GetRemoteTags (v1 env) session (Endpoints repoData) (RemoteName ri) = Inr tagsList"
    and "map_of tagsList (fetchWithSession_tag tagsList askedTag) = Some imgID"
    and "Mirrors (Index ri) @ Endpoints repoData = pre @ a # post"
    and "list_all (\<lambda>b. snd (fst (pullImageJSON env session imgID b (Tokens repoData))) \<noteq> None) pre"
    and "fst (pullImageJSON env session imgID a (Tokens repoData)) = (Some img, None)"
  shows "fst (fetchWithSession env ri session askedTag) =
           (Some (makeRemoteImageInspect env ri img (fetchWithSession_tag tagsList askedTag) ''''),
            None)
         \<and> pulled (snd (fetchWithSession env ri session askedTag)) = pre @ [a]"
proof -
  from fetchWithSession_resolved [OF assms(1-3)] obtain tag rd where
    rd: "Endpoints rd = Endpoints repoData" "Tokens rd = Tokens repoData" and
    f: "fetchWithSession env ri session askedTag =
          traced (GetRepositoryData_call session (RemoteName ri))
            (traced (GetRemoteTags_call session (Endpoints repoData) (RemoteName ri))
               (fetchWithSession_pull env ri session rd
                  \<lparr>imgdata_ID = imgID, imgdata_Tag = tag, Checksum = ''''\<rparr>
                  (fetchWithSession_tag tagsList askedTag)))"
    by blast
  have l: "pullImageJSON_loop env session imgID (Tokens repoData)
             (Mirrors (Index ri) @ Endpoints repoData) (None, None)
           = ((Some img, None), map (GetRemoteImageJSON_call session imgID) (pre @ [a]))"
    unfolding assms(4) by (rule pullImageJSON_loop_first_success [OF assms(5,6)])
  show ?thesis
    by (simp add: f fetchWithSession_pull_one_loop rd l)
qed

lemma fetchWithSession_all_fail:
  assumes "GetRepositoryData (v1 env) session (RemoteName ri) = Inr repoData"
    and "GetRemoteTags (v1 env) session (Endpoints repoData) (RemoteName ri) = Inr tagsList"
    and "map_of tagsList (fetchWithSession_tag tagsList askedTag) = Some imgID"
    and "Mirrors (Index ri) @ Endpoints repoData \<noteq> []"
    and "list_all (\<lambda>b. snd (fst (pullImageJSON env session imgID b (Tokens repoData))) \<noteq> None)
           (Mirrors (Index ri) @ Endpoints repoData)"
    and "snd (fst (pullImageJSON env session imgID
                     (last (Mirrors (Index ri) @ Endpoints repoData)) (Tokens repoData)))
           = Some cause"
  shows "(\<exists>tag. (tag, imgID) \<in> set tagsList
            \<and> fst (fetchWithSession env ri session askedTag) =
                (None, Some (errorString (''Error pulling image ('' @ tag @ '') from ''
                   @ CanonicalName ri @ '', '' @ Error cause))))
         \<and> pulled (snd (fetchWithSession env ri session askedTag))
             = Mirrors (Index ri) @ Endpoints repoData"
proof -
  from fetchWithSession_resolved [OF assms(1-3)] obtain tag rd where
    t: "(tag, imgID) \<in> set tagsList" and
    rd: "Endpoints rd = Endpoints repoData" "Tokens rd = Tokens repoData" and
    f: "fetchWithSession env ri session askedTag =
          traced (GetRepositoryData_call session (RemoteName ri))
            (traced (GetRemoteTags_call session (Endpoints repoData) (RemoteName ri))
               (fetchWithSession_pull env ri session rd
                  \<lparr>imgdata_ID = imgID, imgdata_Tag = tag, Checksum = ''''\<rparr>
                  (fetchWithSession_tag tagsList askedTag)))"
    by blast
  have l: "pullImageJSON_loop env session imgID (Tokens repoData)
             (Mirrors (Index ri) @ Endpoints repoData) (None, None)
           = ((None, Some cause),
              map (GetRemoteImageJSON_call session imgID) (Mirrors (Index ri) @ Endpoints repoData))"
    using pullImageJSON_loop_all_fail [OF assms(5), of None] assms(4,6) by simp
  have "fst (fetchWithSession env ri session askedTag) =
          (None, Some (errorString (''Error pulling image ('' @ tag @ '') from ''
             @ CanonicalName ri @ '', '' @ Error cause)))"
    by (simp add: f fetchWithSession_pull_one_loop rd l)
  moreover have "pulled (snd (fetchWithSession env ri session askedTag))
                   = Mirrors (Index ri) @ Endpoints repoData"
    by (simp add: f fetchWithSession_pull_one_loop rd l)
  ultimately show ?thesis using t by blast
qed

lemma v1_Fetch_session:
  assumes "ref_Digest ref = None"
    and "TLSConfig (reg env) (index_Name (Index ri)) = None"
    and "ToV1Endpoint (v1 env) endpoint = Inr v1Endpoint"
    and "NewSession (v1 env) v1Endpoint = Inr session"
  shows "fst (v1_Fetch env endpoint ri ref) =
           (fst (fst (fetchWithSession env ri session
                        (case ref_Tag ref of Some tagged \<Rightarrow> tagged | None \<Rightarrow> ''''))),
            False,
            snd (fst (fetchWithSession env ri session
                        (case ref_Tag ref of Some tagged \<Rightarrow> tagged | None \<Rightarrow> ''''))))"
  using assms by (simp add: v1_Fetch_def Let_def split_def)

text \<open>
  C7. In \<open>fetchWithSession\<close>, once the asked tag is resolved to an image id, the JSON
  of the image is asked of the addresses of the list "mirrors, then endpoints of the
  repository", one after the other. When an address answers with an image after all
  addresses before it in this list failed, the addresses asked are exactly those up to
  it and the result is the record made from that image. When the list is not empty and
  every address fails, all are asked and the result is the error
  \<^verbatim>\<open>Error pulling image (tag) from name, cause\<close>, where \<^verbatim>\<open>cause\<close> is the message of the
  error of the last address. \<open>Fetch\<close> hands the result of \<open>fetchWithSession\<close> on
  with the fallback flag unset.
\<close>

theorem C7_v1_mirrors_then_endpoints:
  "(GetRepositoryData (v1 env) session (RemoteName repoInfo) = Inr repoData
    \<and> GetRemoteTags (v1 env) session (Endpoints repoData) (RemoteName repoInfo) = Inr tagsList
    \<and> map_of tagsList (fetchWithSession_tag tagsList askedTag) = Some imgID
    \<longrightarrow> (Mirrors (Index repoInfo) @ Endpoints repoData = pre @ a # post
          \<and> list_all (\<lambda>b. snd (fst (pullImageJSON env session imgID b (Tokens repoData)))
                             \<noteq> None) pre
          \<and> fst (pullImageJSON env session imgID a (Tokens repoData)) = (Some img, None)
          \<longrightarrow> fst (fetchWithSession env repoInfo session askedTag) =
                (Some (makeRemoteImageInspect env repoInfo img
                         (fetchWithSession_tag tagsList askedTag) ''''), None)
              \<and> pulled (snd (fetchWithSession env repoInfo session askedTag)) = pre @ [a])
       \<and> (Mirrors (Index repoInfo) @ Endpoints repoData \<noteq> []
          \<and> list_all (\<lambda>b. snd (fst (pullImageJSON env session imgID b (Tokens repoData)))
                             \<noteq> None) (Mirrors (Index repoInfo) @ Endpoints repoData)
          \<and> snd (fst (pullImageJSON env session imgID
                         (last (Mirrors (Index repoInfo) @ Endpoints repoData))
                         (Tokens repoData))) = Some cause
          \<longrightarrow> (\<exists>tag. (tag, imgID) \<in> set tagsList
                 \<and> fst (fetchWithSession env repoInfo session askedTag) =
                     (None, Some (errorString (''Error pulling image ('' @ tag @ '') from ''
                        @ CanonicalName repoInfo @ '', '' @ Error cause))))
              \<and> pulled (snd (fetchWithSession env repoInfo session askedTag))
                  = Mirrors (Index repoInfo) @ Endpoints repoData))
   \<and> (ref_Digest ref = None
      \<and> TLSConfig (reg env) (index_Name (Index repoInfo)) = None
      \<and> ToV1Endpoint (v1 env) endpoint = Inr v1Endpoint
      \<and> NewSession (v1 env) v1Endpoint = Inr session
      \<longrightarrow> fst (v1_Fetch env endpoint repoInfo ref) =
            (fst (fst (fetchWithSession env repoInfo session
                         (case ref_Tag ref of Some tagged \<Rightarrow> tagged | None \<Rightarrow> ''''))),
             False,
             snd (fst (fetchWithSession env repoInfo session
                         (case ref_Tag ref of Some tagged \<Rightarrow> tagged | None \<Rightarrow> '''')))))"
  using fetchWithSession_first_success
      [of env session repoInfo repoData tagsList askedTag imgID pre a post img]
    fetchWithSession_all_fail [of env session repoInfo repoData tagsList askedTag imgID cause]
    v1_Fetch_session [of ref env repoInfo endpoint v1Endpoint session]
  by blast

theorem C7_v1_mirrors_then_endpoints_witness:
  "Mirrors (Index (example_repoInfo ''b.example'' ''library/x''))
     @ [''http://e1.example'', ''http://e2.example'']
     = [''http://mirror.example'', ''http://e1.example''] @ ''http://e2.example'' # []
   \<and> fst (fetchWithSession example (example_repoInfo ''b.example'' ''library/x'') ''http://b.example/v1'' ''latest'')
     = (Some (makeRemoteImageInspect example (example_repoInfo ''b.example'' ''library/x'')
                (example_image ''id2'') ''latest'' ''''), None)
   \<and> pulled (snd (fetchWithSession example (example_repoInfo ''b.example'' ''library/x'')
                     ''http://b.example/v1'' ''latest''))
     = [''http://mirror.example'', ''http://e1.example'', ''http://e2.example'']
   \<and> fst (fetchWithSession example (example_repoInfo ''b.example'' ''library/x'') ''http://b.example/v1'' ''2.0'')
     = (None, Some (errorString
         ''Error pulling image (2.0) from b.example/library/x, HTTP code: 500 at http://e2.example''))
   \<and> pulled (snd (fetchWithSession example (example_repoInfo ''b.example'' ''library/x'')
                     ''http://b.example/v1'' ''2.0''))
     = [''http://mirror.example'', ''http://e1.example'', ''http://e2.example'']
   \<and> fst (v1_Fetch example example_v1 (example_repoInfo ''b.example'' ''library/x'')
            \<lparr>ref_Name = ''b.example/library/x'', ref_Tag = Some ''2.0'', ref_Digest = None\<rparr>)
     = (None, False, Some (errorString
         ''Error pulling image (2.0) from b.example/library/x, HTTP code: 500 at http://e2.example''))"
proof -
  let ?x = "example_repoInfo ''b.example'' ''library/x''"
  let ?rd = "\<lparr>ImgList = Map.empty, Endpoints = [''http://e1.example'', ''http://e2.example''],
              Tokens = []\<rparr>"
  let ?tx = "[(''1.0'', ''id1''), (''latest'', ''id2''), (''2.0'', ''id3'')]"
  let ?all = "[''http://mirror.example'', ''http://e1.example'', ''http://e2.example'']"
  let ?ref = "\<lparr>ref_Name = ''b.example/library/x'', ref_Tag = Some ''2.0'', ref_Digest = None\<rparr>"
  let ?err = "errorString
    ''Error pulling image (2.0) from b.example/library/x, HTTP code: 500 at http://e2.example''"
  note c7 = C7_v1_mirrors_then_endpoints
  have rd: "GetRepositoryData (v1 example) ''http://b.example/v1'' (RemoteName ?x) = Inr ?rd"
    by (simp add: example_session_simps)
  have tx: "GetRemoteTags (v1 example) ''http://b.example/v1'' (Endpoints ?rd) (RemoteName ?x) = Inr ?tx"
    by (simp add: example_session_simps example_repoInfo_def)
  have m: "Mirrors (Index ?x) @ Endpoints ?rd = ?all"
    by (simp add: example_repoInfo_def)
  have p: "fst (pullImageJSON example ''http://b.example/v1'' imgID b []) =
             (if b = ''http://e2.example'' \<and> imgID \<noteq> ''id3''
              then (Some (example_image imgID), None)
              else (None, Some (errorString (''HTTP code: 500 at '' @ b))))" for imgID b
    by (simp add: pullImageJSON_def example_session_simps example_lib_simps)
  have i2: "map_of ?tx (fetchWithSession_tag ?tx ''latest'') = Some ''id2''"
    and i3: "map_of ?tx (fetchWithSession_tag ?tx ''2.0'') = Some ''id3''"
    by (simp_all add: fetchWithSession_tag_def)
  have 0: "Mirrors (Index ?x) @ [''http://e1.example'', ''http://e2.example'']
             = [''http://mirror.example'', ''http://e1.example''] @ ''http://e2.example'' # []"
    by (simp add: example_repoInfo_def)
  have s1: "Mirrors (Index ?x) @ Endpoints ?rd
              = [''http://mirror.example'', ''http://e1.example''] @ ''http://e2.example'' # []"
    by (simp add: example_repoInfo_def)
  have s2: "list_all (\<lambda>b. snd (fst (pullImageJSON example ''http://b.example/v1'' ''id2'' b (Tokens ?rd))) \<noteq> None)
              [''http://mirror.example'', ''http://e1.example'']"
    by (simp add: p)
  have s3: "fst (pullImageJSON example ''http://b.example/v1'' ''id2'' ''http://e2.example'' (Tokens ?rd))
              = (Some (example_image ''id2''), None)"
    by (simp add: p)
  have "fst (fetchWithSession example ?x ''http://b.example/v1'' ''latest'')
          = (Some (makeRemoteImageInspect example ?x (example_image ''id2'')
                     (fetchWithSession_tag ?tx ''latest'') ''''), None)
        \<and> pulled (snd (fetchWithSession example ?x ''http://b.example/v1'' ''latest''))
          = [''http://mirror.example'', ''http://e1.example''] @ [''http://e2.example'']"
    by (rule c7 [of example "''http://b.example/v1''" ?x ?rd ?tx "''latest''" "''id2''"
          "[''http://mirror.example'', ''http://e1.example'']" "''http://e2.example''" "[]"
          "example_image ''id2''", THEN conjunct1, rule_format,
          OF conjI [OF rd conjI [OF tx i2]], THEN conjunct1, rule_format,
          OF conjI [OF s1 conjI [OF s2 s3]]])
  then have 1: "fst (fetchWithSession example ?x ''http://b.example/v1'' ''latest'')
          = (Some (makeRemoteImageInspect example ?x (example_image ''id2'') ''latest'' ''''), None)"
    and 2: "pulled (snd (fetchWithSession example ?x ''http://b.example/v1'' ''latest'')) = ?all"
    by (simp_all add: fetchWithSession_tag_def)
  have a1: "Mirrors (Index ?x) @ Endpoints ?rd \<noteq> []"
    by (simp add: example_repoInfo_def)
  have a2: "list_all (\<lambda>b. snd (fst (pullImageJSON example ''http://b.example/v1'' ''id3'' b (Tokens ?rd))) \<noteq> None)
              (Mirrors (Index ?x) @ Endpoints ?rd)"
    by (simp add: p example_repoInfo_def)
  have a3: "snd (fst (pullImageJSON example ''http://b.example/v1'' ''id3''
                        (last (Mirrors (Index ?x) @ Endpoints ?rd)) (Tokens ?rd)))
              = Some (errorString ''HTTP code: 500 at http://e2.example'')"
    by (simp add: p example_repoInfo_def)
  have "(\<exists>tag. (tag, ''id3'') \<in> set ?tx
            \<and> fst (fetchWithSession example ?x ''http://b.example/v1'' ''2.0'') =
                (None, Some (errorString (''Error pulling image ('' @ tag @ '') from ''
                   @ CanonicalName ?x @ '', ''
                   @ Error (errorString ''HTTP code: 500 at http://e2.example'')))))
         \<and> pulled (snd (fetchWithSession example ?x ''http://b.example/v1'' ''2.0''))
             = Mirrors (Index ?x) @ Endpoints ?rd"
    by (rule c7 [of example "''http://b.example/v1''" ?x ?rd ?tx "''2.0''" "''id3''" _ _ _ _
          "errorString ''HTTP code: 500 at http://e2.example''",
          THEN conjunct1, rule_format, OF conjI [OF rd conjI [OF tx i3]],
          THEN conjunct2, rule_format, OF conjI [OF a1 conjI [OF a2 a3]]])
  then have 3: "fst (fetchWithSession example ?x ''http://b.example/v1'' ''2.0'') = (None, Some ?err)"
    and 4: "pulled (snd (fetchWithSession example ?x ''http://b.example/v1'' ''2.0'')) = ?all"
    by (simp_all add: example_repoInfo_def)
  have 5: "fst (v1_Fetch example example_v1 ?x ?ref) = (None, False, Some ?err)"
    using c7 [of example "''http://b.example/v1''" ?x _ _ _ _ _ _ _ _ _ ?ref example_v1
          "''http://b.example/v1''", THEN conjunct2] 3
    by (simp add: example_simps)
  from 0 1 2 3 4 5 show ?thesis by (intro conjI)
qed

lemma Inspect_qualified:
  "IsReferenceFullyQualified (reg env) ref \<Longrightarrow>
   Inspect env ref = fetchManifest env ref \<and> resolved (snd (Inspect env ref)) = [ref]"
  by (simp add: Inspect_def)

lemma ListRemoteTags_qualified:
  "IsReferenceFullyQualified (reg env) ref \<Longrightarrow>
   ListRemoteTags env ref = getRemoteTagList env ref
   \<and> resolved (snd (ListRemoteTags env ref)) = [ref]"
  by (simp add: ListRemoteTags_def)

lemma Inspect_unqualified:
  assumes "\<not> IsReferenceFullyQualified (reg env) ref"
  shows "\<exists>k\<le>length (RegistryList (reg env)).
           resolved (snd (Inspect env ref)) = candidates env ref (take k (RegistryList (reg env)))"
    and "length (resolved (snd (Inspect env ref))) \<le> length (RegistryList (reg env))"
    and "RegistryList (reg env) = pre @ r # post \<Longrightarrow>
         list_all (\<lambda>r. Inspect_attempt env ref r \<noteq> None) pre \<Longrightarrow>
         FullyQualifyReferenceWith (reg env) r ref = Inr fqr \<Longrightarrow>
         fst (fetchManifest env fqr) = (imageInspect, None) \<Longrightarrow>
         fst (Inspect env ref) = (imageInspect, None)
         \<and> resolved (snd (Inspect env ref)) = candidates env ref pre @ [fqr]"
    and "RegistryList (reg env) \<noteq> [] \<Longrightarrow>
         list_all (\<lambda>r. Inspect_attempt env ref r \<noteq> None) (RegistryList (reg env)) \<Longrightarrow>
         snd (fst (Inspect env ref)) = Inspect_attempt env ref (last (RegistryList (reg env)))
         \<and> resolved (snd (Inspect env ref)) = candidates env ref (RegistryList (reg env))"
proof -
  show k: "\<exists>k\<le>length (RegistryList (reg env)).
           resolved (snd (Inspect env ref)) = candidates env ref (take k (RegistryList (reg env)))"
  proof (cases "RegistryList (reg env) = []")
    case True
    then show ?thesis using assms by (simp add: Inspect_def)
  next
    case False
    then show ?thesis
      using assms Inspect_loop_bound [of "RegistryList (reg env)" env ref "(None, None)"]
      by (simp add: Inspect_def)
  qed
  then obtain k where "resolved (snd (Inspect env ref))
      = candidates env ref (take k (RegistryList (reg env)))" by blast
  then show "length (resolved (snd (Inspect env ref))) \<le> length (RegistryList (reg env))"
    using length_candidates [of env ref "take k (RegistryList (reg env))"] by simp
  show "fst (Inspect env ref) = (imageInspect, None)
         \<and> resolved (snd (Inspect env ref)) = candidates env ref pre @ [fqr]"
    if "RegistryList (reg env) = pre @ r # post"
      "list_all (\<lambda>r. Inspect_attempt env ref r \<noteq> None) pre"
      "FullyQualifyReferenceWith (reg env) r ref = Inr fqr"
      "fst (fetchManifest env fqr) = (imageInspect, None)"
    using Inspect_loop_first_success [OF that(2-4), of post "(None, None)"] assms that(1)
    by (simp add: Inspect_def)
  show "snd (fst (Inspect env ref)) = Inspect_attempt env ref (last (RegistryList (reg env)))
         \<and> resolved (snd (Inspect env ref)) = candidates env ref (RegistryList (reg env))"
    if "RegistryList (reg env) \<noteq> []"
      "list_all (\<lambda>r. Inspect_attempt env ref r \<noteq> None) (RegistryList (reg env))"
    using Inspect_loop_all_fail [OF that(2), of None None] assms that(1)
    by (simp add: Inspect_def)
qed

lemma ListRemoteTags_unqualified:
  assumes "\<not> IsReferenceFullyQualified (reg env) ref"
  shows "\<exists>k\<le>length (RegistryList (reg env)).
           resolved (snd (ListRemoteTags env ref))
             = candidates env ref (take k (RegistryList (reg env)))"
    and "length (resolved (snd (ListRemoteTags env ref))) \<le> length (RegistryList (reg env))"
    and "ValidateRepositoryName (reg env) ref = None \<Longrightarrow>
         RegistryList (reg env) = pre @ r # post \<Longrightarrow>
         list_all (\<lambda>r. ListRemoteTags_attempt env ref r \<noteq> None) pre \<Longrightarrow>
         FullyQualifyReferenceWith (reg env) r ref = Inr fqr \<Longrightarrow>
         fst (getRemoteTagList env fqr) = (tagList, None) \<Longrightarrow>
         fst (ListRemoteTags env ref) = (tagList, None)
         \<and> resolved (snd (ListRemoteTags env ref)) = candidates env ref pre @ [fqr]"
    and "ValidateRepositoryName (reg env) ref = None \<Longrightarrow>
         RegistryList (reg env) \<noteq> [] \<Longrightarrow>
         list_all (\<lambda>r. ListRemoteTags_attempt env ref r \<noteq> None) (RegistryList (reg env)) \<Longrightarrow>
         snd (fst (ListRemoteTags env ref))
           = ListRemoteTags_attempt env ref (last (RegistryList (reg env)))
         \<and> resolved (snd (ListRemoteTags env ref))
             = candidates env ref (RegistryList (reg env))"
proof -
  show k: "\<exists>k\<le>length (RegistryList (reg env)).
           resolved (snd (ListRemoteTags env ref))
             = candidates env ref (take k (RegistryList (reg env)))"
  proof (cases "RegistryList (reg env) = [] \<or> ValidateRepositoryName (reg env) ref \<noteq> None")
    case True
    then show ?thesis using assms
      by (intro exI [of _ 0]) (auto simp: ListRemoteTags_def)
  next
    case False
    then show ?thesis
      using assms ListRemoteTags_loop_bound [of "RegistryList (reg env)" env ref "(None, None)"]
      by (auto simp: ListRemoteTags_def)
  qed
  then obtain k where "resolved (snd (ListRemoteTags env ref))
      = candidates env ref (take k (RegistryList (reg env)))" by blast
  then show "length (resolved (snd (ListRemoteTags env ref))) \<le> length (RegistryList (reg env))"
    using length_candidates [of env ref "take k (RegistryList (reg env))"] by simp
  show "fst (ListRemoteTags env ref) = (tagList, None)
         \<and> resolved (snd (ListRemoteTags env ref)) = candidates env ref pre @ [fqr]"
    if "ValidateRepositoryName (reg env) ref = None"
      "RegistryList (reg env) = pre @ r # post"
      "list_all (\<lambda>r. ListRemoteTags_attempt env ref r \<noteq> None) pre"
      "FullyQualifyReferenceWith (reg env) r ref = Inr fqr"
      "fst (getRemoteTagList env fqr) = (tagList, None)"
    using ListRemoteTags_loop_first_success [OF that(3-5), of post "(None, None)"] assms that(1,2)
    by (simp add: ListRemoteTags_def)
  show "snd (fst (ListRemoteTags env ref))
           = ListRemoteTags_attempt env ref (last (RegistryList (reg env)))
         \<and> resolved (snd (ListRemoteTags env ref))
             = candidates env ref (RegistryList (reg env))"
    if "ValidateRepositoryName (reg env) ref = None"
      "RegistryList (reg env) \<noteq> []"
      "list_all (\<lambda>r. ListRemoteTags_attempt env ref r \<noteq> None) (RegistryList (reg env))"
    using ListRemoteTags_loop_all_fail [OF that(3), of None None] assms that(1,2)
    by (simp add: ListRemoteTags_def)
qed

lemma ListRemoteTags_invalid:
  "\<not> IsReferenceFullyQualified (reg env) ref \<Longrightarrow> RegistryList (reg env) \<noteq> [] \<Longrightarrow>
   ValidateRepositoryName (reg env) ref = Some err \<Longrightarrow>
   ListRemoteTags env ref = ((None, Some err), [])"
  by (simp add: ListRemoteTags_def ret_def)

lemma example_strict_simps:
  "reg example_strict =
     (reg example)\<lparr>ValidateRepositoryName :=
       (\<lambda>ref. if HasPrefix (ref_Name ref) ''library/''
              then Some (errorString (''Invalid repository name ('' @ ref_Name ref @ '')''))
              else None)\<rparr>"
  "v1 example_strict = v1 example"
  "v2 example_strict = v2 example"
  "lib example_strict = lib example"
  by (simp_all add: example_strict_def)

text \<open>
  C2. For a fully qualified reference \<open>Inspect\<close> is \<open>fetchManifest\<close> and
  \<open>ListRemoteTags\<close> is \<open>getRemoteTagList\<close> on that reference: one repository is
  resolved, the reference's own, and the list of registries is not read. For any other
  reference, with the registries \<open>RegistryList\<close>: the repositories resolved are those of
  the first \<open>k\<close> registries, in the order of the list, for some \<open>k\<close> up to the length
  of the list, so at most as many as there are registries; when a registry answers
  after all registries before it failed, its result is returned without error and no
  later registry is attempted; when the list is not empty and every registry fails, the
  error returned is that of the last registry of the list. \<open>ListRemoteTags\<close> checks
  the name of the repository before its loop: the last two statements hold of it for a
  name that passes the check, and for a name that fails it, with a list of registries
  that is not empty, the error of the check is returned and no registry is attempted.
\<close>

theorem C2_registry_iteration:
  "(IsReferenceFullyQualified (reg env) ref
    \<longrightarrow> Inspect env ref = fetchManifest env ref
        \<and> resolved (snd (Inspect env ref)) = [ref]
        \<and> ListRemoteTags env ref = getRemoteTagList env ref
        \<and> resolved (snd (ListRemoteTags env ref)) = [ref])
   \<and> (\<not> IsReferenceFullyQualified (reg env) ref
    \<longrightarrow> (\<exists>k\<le>length (RegistryList (reg env)).
           resolved (snd (Inspect env ref))
             = candidates env ref (take k (RegistryList (reg env))))
        \<and> length (resolved (snd (Inspect env ref))) \<le> length (RegistryList (reg env))
        \<and> (RegistryList (reg env) = pre @ r # post
            \<and> list_all (\<lambda>r. Inspect_attempt env ref r \<noteq> None) pre
            \<and> FullyQualifyReferenceWith (reg env) r ref = Inr fqr
            \<and> fst (fetchManifest env fqr) = (imageInspect, None)
            \<longrightarrow> fst (Inspect env ref) = (imageInspect, None)
                \<and> resolved (snd (Inspect env ref)) = candidates env ref pre @ [fqr])
        \<and> (RegistryList (reg env) \<noteq> []
            \<and> list_all (\<lambda>r. Inspect_attempt env ref r \<noteq> None) (RegistryList (reg env))
            \<longrightarrow> snd (fst (Inspect env ref))
                  = Inspect_attempt env ref (last (RegistryList (reg env)))
                \<and> resolved (snd (Inspect env ref))
                  = candidates env ref (RegistryList (reg env)))
        \<and> (\<exists>k\<le>length (RegistryList (reg env)).
           resolved (snd (ListRemoteTags env ref))
             = candidates env ref (take k (RegistryList (reg env))))
        \<and> length (resolved (snd (ListRemoteTags env ref))) \<le> length (RegistryList (reg env))
        \<and> (ValidateRepositoryName (reg env) ref = None
            \<and> RegistryList (reg env) = pre @ r # post
            \<and> list_all (\<lambda>r. ListRemoteTags_attempt env ref r \<noteq> None) pre
            \<and> FullyQualifyReferenceWith (reg env) r ref = Inr fqr
            \<and> fst (getRemoteTagList env fqr) = (tagList, None)
            \<longrightarrow> fst (ListRemoteTags env ref) = (tagList, None)
                \<and> resolved (snd (ListRemoteTags env ref)) = candidates env ref pre @ [fqr])
        \<and> (ValidateRepositoryName (reg env) ref = None
            \<and> RegistryList (reg env) \<noteq> []
            \<and> list_all (\<lambda>r. ListRemoteTags_attempt env ref r \<noteq> None) (RegistryList (reg env))
            \<longrightarrow> snd (fst (ListRemoteTags env ref))
                  = ListRemoteTags_attempt env ref (last (RegistryList (reg env)))
                \<and> resolved (snd (ListRemoteTags env ref))
                  = candidates env ref (RegistryList (reg env)))
        \<and> (RegistryList (reg env) \<noteq> []
            \<and> ValidateRepositoryName (reg env) ref = Some err
            \<longrightarrow> ListRemoteTags env ref = ((None, Some err), [])))"
proof (intro conjI impI)
  assume q: "IsReferenceFullyQualified (reg env) ref"
  from Inspect_qualified [OF q] show "Inspect env ref = fetchManifest env ref"
    and "resolved (snd (Inspect env ref)) = [ref]" by simp_all
  from ListRemoteTags_qualified [OF q] show "ListRemoteTags env ref = getRemoteTagList env ref"
    and "resolved (snd (ListRemoteTags env ref)) = [ref]" by simp_all
next
  assume u: "\<not> IsReferenceFullyQualified (reg env) ref"
  show "\<exists>k\<le>length (RegistryList (reg env)).
           resolved (snd (Inspect env ref))
             = candidates env ref (take k (RegistryList (reg env)))"
    by (rule Inspect_unqualified(1) [OF u])
next
  assume u: "\<not> IsReferenceFullyQualified (reg env) ref"
  show "length (resolved (snd (Inspect env ref))) \<le> length (RegistryList (reg env))"
    by (rule Inspect_unqualified(2) [OF u])
next
  assume u: "\<not> IsReferenceFullyQualified (reg env) ref"
    and h: "RegistryList (reg env) = pre @ r # post
            \<and> list_all (\<lambda>r. Inspect_attempt env ref r \<noteq> None) pre
            \<and> FullyQualifyReferenceWith (reg env) r ref = Inr fqr
            \<and> fst (fetchManifest env fqr) = (imageInspect, None)"
  from Inspect_unqualified(3) [OF u, of pre r post fqr imageInspect] h
  show "fst (Inspect env ref) = (imageInspect, None)"
    and "resolved (snd (Inspect env ref)) = candidates env ref pre @ [fqr]" by simp_all
next
  assume u: "\<not> IsReferenceFullyQualified (reg env) ref"
    and h: "RegistryList (reg env) \<noteq> []
            \<and> list_all (\<lambda>r. Inspect_attempt env ref r \<noteq> None) (RegistryList (reg env))"
  from Inspect_unqualified(4) [OF u] h
  show "snd (fst (Inspect env ref)) = Inspect_attempt env ref (last (RegistryList (reg env)))"
    and "resolved (snd (Inspect env ref)) = candidates env ref (RegistryList (reg env))"
    by simp_all
next
  assume u: "\<not> IsReferenceFullyQualified (reg env) ref"
  show "\<exists>k\<le>length (RegistryList (reg env)).
           resolved (snd (ListRemoteTags env ref))
             = candidates env ref (take k (RegistryList (reg env)))"
    by (rule ListRemoteTags_unqualified(1) [OF u])
next
  assume u: "\<not> IsReferenceFullyQualified (reg env) ref"
  show "length (resolved (snd (ListRemoteTags env ref))) \<le> length (RegistryList (reg env))"
    by (rule ListRemoteTags_unqualified(2) [OF u])
next
  assume u: "\<not> IsReferenceFullyQualified (reg env) ref"
    and h: "ValidateRepositoryName (reg env) ref = None
            \<and> RegistryList (reg env) = pre @ r # post
            \<and> list_all (\<lambda>r. ListRemoteTags_attempt env ref r \<noteq> None) pre
            \<and> FullyQualifyReferenceWith (reg env) r ref = Inr fqr
            \<and> fst (getRemoteTagList env fqr) = (tagList, None)"
  from ListRemoteTags_unqualified(3) [OF u, of pre r post fqr tagList] h
  show "fst (ListRemoteTags env ref) = (tagList, None)"
    and "resolved (snd (ListRemoteTags env ref)) = candidates env ref pre @ [fqr]" by simp_all
next
  assume u: "\<not> IsReferenceFullyQualified (reg env) ref"
    and h: "ValidateRepositoryName (reg env) ref = None
            \<and> RegistryList (reg env) \<noteq> []
            \<and> list_all (\<lambda>r. ListRemoteTags_attempt env ref r \<noteq> None) (RegistryList (reg env))"
  from ListRemoteTags_unqualified(4) [OF u] h
  show "snd (fst (ListRemoteTags env ref))
          = ListRemoteTags_attempt env ref (last (RegistryList (reg env)))"
    and "resolved (snd (ListRemoteTags env ref)) = candidates env ref (RegistryList (reg env))"
    by simp_all
next
  assume u: "\<not> IsReferenceFullyQualified (reg env) ref"
    and h: "RegistryList (reg env) \<noteq> [] \<and> ValidateRepositoryName (reg env) ref = Some err"
  from ListRemoteTags_invalid [OF u, of err] h
  show "ListRemoteTags env ref = ((None, Some err), [])" by simp
qed

theorem C2_registry_iteration_witness:
  "fst (Inspect example (example_ref ''library/x''))
     = (Some (makeRemoteImageInspect example (example_repoInfo ''b.example'' ''library/x'')
                (example_image ''id2'') ''latest'' ''''), None)
   \<and> resolved (snd (Inspect example (example_ref ''library/x'')))
     = [example_ref ''a.example/library/x'', example_ref ''b.example/library/x'']
   \<and> length (resolved (snd (Inspect example (example_ref ''library/x'')))) \<le> 3
   \<and> snd (fst (Inspect example (example_ref ''library/z'')))
     = Some (errorString ''unknown repository b.example/library/z'')
   \<and> resolved (snd (Inspect example (example_ref ''library/z'')))
     = [example_ref ''a.example/library/z'', example_ref ''b.example/library/z'']
   \<and> Inspect example (example_ref ''b.example/library/x'')
     = fetchManifest example (example_ref ''b.example/library/x'')
   \<and> resolved (snd (Inspect example (example_ref ''b.example/library/x'')))
     = [example_ref ''b.example/library/x'']
   \<and> fst (ListRemoteTags example (example_ref ''library/x''))
     = (Some \<lparr>Name = ''b.example/library/x'',
               TagList = [\<lparr>Tag = ''1.0'', ImageID = ''id1''\<rparr>, \<lparr>Tag = ''2.0'', ImageID = ''id3''\<rparr>,
                          \<lparr>Tag = ''latest'', ImageID = ''id2''\<rparr>]\<rparr>, None)
   \<and> resolved (snd (ListRemoteTags example (example_ref ''library/x'')))
     = [example_ref ''a.example/library/x'', example_ref ''b.example/library/x'']
   \<and> length (resolved (snd (ListRemoteTags example (example_ref ''library/x'')))) \<le> 3
   \<and> snd (fst (ListRemoteTags example (example_ref ''library/z'')))
     = Some (errorString ''unknown repository b.example/library/z'')
   \<and> resolved (snd (ListRemoteTags example (example_ref ''library/z'')))
     = [example_ref ''a.example/library/z'', example_ref ''b.example/library/z'']
   \<and> ListRemoteTags example (example_ref ''b.example/library/x'')
     = getRemoteTagList example (example_ref ''b.example/library/x'')
   \<and> resolved (snd (ListRemoteTags example (example_ref ''b.example/library/x'')))
     = [example_ref ''b.example/library/x'']
   \<and> ListRemoteTags example_strict (example_ref ''library/x'')
     = ((None, Some (errorString ''Invalid repository name (library/x)'')), [])"
proof -
  let ?x = "example_ref ''library/x''"
  let ?z = "example_ref ''library/z''"
  let ?ax = "example_ref ''a.example/library/x''"
  let ?bx = "example_ref ''b.example/library/x''"
  let ?az = "example_ref ''a.example/library/z''"
  let ?bz = "example_ref ''b.example/library/z''"
  let ?img = "Some (makeRemoteImageInspect example (example_repoInfo ''b.example'' ''library/x'')
                (example_image ''id2'') ''latest'' '''')"
  let ?tags = "Some \<lparr>Name = ''b.example/library/x'',
               TagList = [\<lparr>Tag = ''1.0'', ImageID = ''id1''\<rparr>, \<lparr>Tag = ''2.0'', ImageID = ''id3''\<rparr>,
                          \<lparr>Tag = ''latest'', ImageID = ''id2''\<rparr>]\<rparr>"
  let ?pre = "[''bad registry'', ''a.example'']"
  let ?all = "[''bad registry'', ''a.example'', ''b.example'']"
  have ux: "\<not> IsReferenceFullyQualified (reg example) ?x"
    and uz: "\<not> IsReferenceFullyQualified (reg example) ?z"
    and qb: "IsReferenceFullyQualified (reg example) ?bx"
    by (simp_all add: example_simps)
  have rl: "RegistryList (reg example) = ?pre @ ''b.example'' # []"
    and ne: "RegistryList (reg example) \<noteq> []"
    and la: "last (RegistryList (reg example)) = ''b.example''"
    and n3: "length (RegistryList (reg example)) = 3"
    by (simp_all add: example_reg_simps)
  have vx: "ValidateRepositoryName (reg example) ?x = None"
    and vz: "ValidateRepositoryName (reg example) ?z = None"
    by (simp_all add: example_reg_simps)
  have qx: "FullyQualifyReferenceWith (reg example) ''b.example'' ?x = Inr ?bx"
    by (simp add: example_simps)
  have cx: "candidates example ?x ?pre = [?ax]"
    and cz: "candidates example ?z (RegistryList (reg example)) = [?az, ?bz]"
    by (simp_all add: candidates_def example_simps)
  have fa: "fst (fetchManifest example ?ax)
              = (None, Some (errorString ''no endpoints found for a.example''))"
    by (simp add: fetchManifest_def example_simps)
  have fb: "fst (fetchManifest example ?bx) = (?img, None)"
    by (simp add: fetchManifest_def sort_Sort_def byAPIVersion_Less_def
        newManifestFetcher_def v1_Fetch_def v2_Fetch_def fetchWithSession_def
        fetchWithSession_tag_def fetchWithSession_pull_def pullImageJSON_def
        DefaultTag_def example_simps Let_def)
  have fz: "fst (fetchManifest example ?az)
              = (None, Some (errorString ''unknown repository a.example/library/z''))"
      "fst (fetchManifest example ?bz)
              = (None, Some (errorString ''unknown repository b.example/library/z''))"
    by (simp_all add: fetchManifest_def example_simps)
  have ga: "fst (getRemoteTagList example ?ax)
             = (None, Some (errorString ''no endpoints found for a.example''))"
    by (simp add: getRemoteTagList_def sort_Sort_def example_simps)
  have gb: "fst (getRemoteTagList example ?bx) = (?tags, None)"
    by (simp add: getRemoteTagList_def sort_Sort_def byAPIVersion_Less_def byTagName_Less_def
        newTagLister_def v1_ListTags_def v2_ListTags_def listTagsWithSession_def example_simps)
  have gz: "fst (getRemoteTagList example ?az)
              = (None, Some (errorString ''unknown repository a.example/library/z''))"
      "fst (getRemoteTagList example ?bz)
              = (None, Some (errorString ''unknown repository b.example/library/z''))"
    by (simp_all add: getRemoteTagList_def example_simps)
  have ix: "list_all (\<lambda>r. Inspect_attempt example ?x r \<noteq> None) ?pre"
    using fa by (simp add: Inspect_attempt_def example_reg_simps example_ref_def)
  have iz: "list_all (\<lambda>r. Inspect_attempt example ?z r \<noteq> None) (RegistryList (reg example))"
    using fz by (simp add: Inspect_attempt_def example_reg_simps example_ref_def)
  have il: "Inspect_attempt example ?z ''b.example''
              = Some (errorString ''unknown repository b.example/library/z'')"
    using fz by (simp add: Inspect_attempt_def example_reg_simps example_ref_def)
  have lx: "list_all (\<lambda>r. ListRemoteTags_attempt example ?x r \<noteq> None) ?pre"
    using ga by (simp add: ListRemoteTags_attempt_def example_reg_simps example_ref_def)
  have lz: "list_all (\<lambda>r. ListRemoteTags_attempt example ?z r \<noteq> None)
              (RegistryList (reg example))"
    using gz by (simp add: ListRemoteTags_attempt_def example_reg_simps example_ref_def)
  have ll: "ListRemoteTags_attempt example ?z ''b.example''
              = Some (errorString ''unknown repository b.example/library/z'')"
    using gz by (simp add: ListRemoteTags_attempt_def example_reg_simps example_ref_def)
  have us: "\<not> IsReferenceFullyQualified (reg example_strict) ?x"
    and ns: "RegistryList (reg example_strict) \<noteq> []"
    and vs: "ValidateRepositoryName (reg example_strict) ?x
               = Some (errorString ''Invalid repository name (library/x)'')"
    by (simp_all add: example_strict_simps example_simps)
  note c2 = C2_registry_iteration
  have r15: "ListRemoteTags example_strict ?x
               = ((None, Some (errorString ''Invalid repository name (library/x)'')), [])"
    by (rule c2 [of example_strict ?x _ _ _ _ _ _
          "errorString ''Invalid repository name (library/x)''",
          THEN conjunct2, rule_format, OF us,
          THEN conjunct2, THEN conjunct2, THEN conjunct2, THEN conjunct2,
          THEN conjunct2, THEN conjunct2, THEN conjunct2, THEN conjunct2, rule_format,
          OF conjI [OF ns vs]])
  note x = c2 [of example ?x ?pre "''b.example''" "[]" ?bx ?img ?tags,
      THEN conjunct2, rule_format, OF ux]
  note z = c2 [of example ?z, THEN conjunct2, rule_format, OF uz]
  note b = c2 [of example ?bx, THEN conjunct1, rule_format, OF qb]
  have 1: "fst (Inspect example ?x) = (?img, None)
           \<and> resolved (snd (Inspect example ?x)) = candidates example ?x ?pre @ [?bx]"
    by (rule x [THEN conjunct2, THEN conjunct2, THEN conjunct1, rule_format,
          OF conjI [OF rl conjI [OF ix conjI [OF qx fb]]]])
  have 2: "length (resolved (snd (Inspect example ?x))) \<le> length (RegistryList (reg example))"
    by (rule x [THEN conjunct2, THEN conjunct1])
  have 3: "snd (fst (Inspect example ?z))
             = Inspect_attempt example ?z (last (RegistryList (reg example)))
           \<and> resolved (snd (Inspect example ?z))
             = candidates example ?z (RegistryList (reg example))"
    by (rule z [THEN conjunct2, THEN conjunct2, THEN conjunct2, THEN conjunct1, rule_format,
          OF conjI [OF ne iz]])
  have 4: "fst (ListRemoteTags example ?x) = (?tags, None)
           \<and> resolved (snd (ListRemoteTags example ?x)) = candidates example ?x ?pre @ [?bx]"
    by (rule x [THEN conjunct2, THEN conjunct2, THEN conjunct2, THEN conjunct2,
          THEN conjunct2, THEN conjunct2, THEN conjunct1, rule_format,
          OF conjI [OF vx conjI [OF rl conjI [OF lx conjI [OF qx gb]]]]])
  have 5: "length (resolved (snd (ListRemoteTags example ?x)))
             \<le> length (RegistryList (reg example))"
    by (rule x [THEN conjunct2, THEN conjunct2, THEN conjunct2, THEN conjunct2,
          THEN conjunct2, THEN conjunct1])
  have 6: "snd (fst (ListRemoteTags example ?z))
             = ListRemoteTags_attempt example ?z (last (RegistryList (reg example)))
           \<and> resolved (snd (ListRemoteTags example ?z))
             = candidates example ?z (RegistryList (reg example))"
    by (rule z [THEN conjunct2, THEN conjunct2, THEN conjunct2, THEN conjunct2,
          THEN conjunct2, THEN conjunct2, THEN conjunct2, THEN conjunct1, rule_format,
          OF conjI [OF vz conjI [OF ne lz]]])
  from 1 cx have r1: "fst (Inspect example ?x) = (?img, None)"
    and r2: "resolved (snd (Inspect example ?x)) = [?ax, ?bx]" by simp_all
  from 2 n3 have r3: "length (resolved (snd (Inspect example ?x))) \<le> 3" by simp
  from 3 la il cz have r4: "snd (fst (Inspect example ?z))
        = Some (errorString ''unknown repository b.example/library/z'')"
    and r5: "resolved (snd (Inspect example ?z)) = [?az, ?bz]" by simp_all
  from b have r6: "Inspect example ?bx = fetchManifest example ?bx"
    and r7: "resolved (snd (Inspect example ?bx)) = [?bx]"
    and r13: "ListRemoteTags example ?bx = getRemoteTagList example ?bx"
    and r14: "resolved (snd (ListRemoteTags example ?bx)) = [?bx]" by blast+
  from 4 cx have r8: "fst (ListRemoteTags example ?x) = (?tags, None)"
    and r9: "resolved (snd (ListRemoteTags example ?x)) = [?ax, ?bx]" by simp_all
  from 5 n3 have r10: "length (resolved (snd (ListRemoteTags example ?x))) \<le> 3" by simp
  from 6 la ll cz have r11: "snd (fst (ListRemoteTags example ?z))
        = Some (errorString ''unknown repository b.example/library/z'')"
    and r12: "resolved (snd (ListRemoteTags example ?z)) = [?az, ?bz]" by simp_all
  from r1 r2 r3 r4 r5 r6 r7 r8 r9 r10 r11 r12 r13 r14 r15 show ?thesis by (intro conjI)
qed

text \<open>
  The claim as it is written fails for \<open>ListRemoteTags\<close> where the name of the
  repository does not pass the check: the reference is not fully qualified, the registry
  \<^verbatim>\<open>b.example\<close> of the list answers with the tags of the repository, as
  \<open>Inspect\<close> finds, and \<open>ListRemoteTags\<close> returns the error of the check without
  attempting any registry.
\<close>

theorem C2_registry_iteration_counterexample:
  "IsReferenceFullyQualified (reg example_strict) (example_ref ''library/x'') = False
   \<and> RegistryList (reg example_strict) = [''bad registry'', ''a.example'', ''b.example'']
   \<and> FullyQualifyReferenceWith (reg example_strict) ''b.example'' (example_ref ''library/x'')
       = Inr (example_ref ''b.example/library/x'')
   \<and> fst (getRemoteTagList example_strict (example_ref ''b.example/library/x''))
       = (Some \<lparr>Name = ''b.example/library/x'',
                 TagList = [\<lparr>Tag = ''1.0'', ImageID = ''id1''\<rparr>,
                            \<lparr>Tag = ''2.0'', ImageID = ''id3''\<rparr>,
                            \<lparr>Tag = ''latest'', ImageID = ''id2''\<rparr>]\<rparr>, None)
   \<and> snd (fst (Inspect example_strict (example_ref ''library/x''))) = None
   \<and> resolved (snd (Inspect example_strict (example_ref ''library/x'')))
       = [example_ref ''a.example/library/x'', example_ref ''b.example/library/x'']
   \<and> fst (ListRemoteTags example_strict (example_ref ''library/x''))
       = (None, Some (errorString ''Invalid repository name (library/x)''))
   \<and> resolved (snd (ListRemoteTags example_strict (example_ref ''library/x''))) = []"
proof -
  let ?x = "example_ref ''library/x''"
  let ?ax = "example_ref ''a.example/library/x''"
  let ?bx = "example_ref ''b.example/library/x''"
  have 1: "IsReferenceFullyQualified (reg example_strict) ?x = False"
    and 2: "RegistryList (reg example_strict) = [''bad registry'', ''a.example'', ''b.example'']"
    and 3: "FullyQualifyReferenceWith (reg example_strict) ''b.example'' ?x = Inr ?bx"
    by (simp_all add: example_strict_simps example_simps)
  have 4: "fst (getRemoteTagList example_strict ?bx)
       = (Some \<lparr>Name = ''b.example/library/x'',
                 TagList = [\<lparr>Tag = ''1.0'', ImageID = ''id1''\<rparr>,
                            \<lparr>Tag = ''2.0'', ImageID = ''id3''\<rparr>,
                            \<lparr>Tag = ''latest'', ImageID = ''id2''\<rparr>]\<rparr>, None)"
    by (simp add: getRemoteTagList_def sort_Sort_def byAPIVersion_Less_def byTagName_Less_def
        newTagLister_def v1_ListTags_def v2_ListTags_def listTagsWithSession_def
        example_strict_simps example_simps)
  have fa: "fetchManifest example_strict ?ax
              = ((None, Some (errorString ''no endpoints found for a.example'')),
                 [ResolveRepository_call ?ax, LookupPullEndpoints_call ''a.example/library/x''])"
    by (simp add: fetchManifest_def example_strict_simps example_simps)
  have fb: "fst (fetchManifest example_strict ?bx)
              = (Some (makeRemoteImageInspect example_strict
                         (example_repoInfo ''b.example'' ''library/x'')
                         (example_image ''id2'') ''latest'' ''''), None)"
    by (simp add: fetchManifest_def sort_Sort_def byAPIVersion_Less_def
        newManifestFetcher_def v1_Fetch_def v2_Fetch_def fetchWithSession_def
        fetchWithSession_tag_def fetchWithSession_pull_def pullImageJSON_def
        makeRemoteImageInspect_def DefaultTag_def example_strict_simps example_simps Let_def)
  have rb: "resolved (snd (fetchManifest example_strict ?bx)) = [?bx]" by simp
  have i: "snd (fst (Inspect example_strict ?x)) = None
           \<and> resolved (snd (Inspect example_strict ?x)) = [?ax, ?bx]"
    using fa fb rb
    by (simp add: Inspect_def example_strict_simps example_reg_simps example_ref_def split_def
        after_def)
  have l: "ListRemoteTags example_strict ?x
             = ((None, Some (errorString ''Invalid repository name (library/x)'')), [])"
    by (simp add: ListRemoteTags_def example_strict_simps example_simps)
  from l have 7: "fst (ListRemoteTags example_strict ?x)
                    = (None, Some (errorString ''Invalid repository name (library/x)''))"
    and 8: "resolved (snd (ListRemoteTags example_strict ?x)) = []" by simp_all
  from i have 5: "snd (fst (Inspect example_strict ?x)) = None"
    and 6: "resolved (snd (Inspect example_strict ?x)) = [?ax, ?bx]" by simp_all
  from 1 2 3 4 5 6 7 8 show ?thesis by (intro conjI)
qed

end
